theory Spec2Isabelle
  imports Complex_Main
begin

section \<open>Numbers, vectors and the random source\<close>

text \<open>
  JavaScript numbers are modelled as exact reals. Where the source depends on the one
  non-real value it can meet (\<open>NaN\<close>, in the frame-time fallback \<open>x || 0.016\<close>), the value
  is a \<open>jsnum\<close>. \<open>Math.random()\<close> is an infinite sequence of draws: \<open>g k\<close> is the value
  of the \<open>k\<close>-th call from now, and \<open>drop_rng n g\<close> is the source after \<open>n\<close> calls.
  The elements of a \<open>Float32Array\<close> are single-precision numbers; \<open>fround\<close> below is the
  rounding of a store into one. It is applied to every store into the two
  single-precision arrays of the orbs and into the depth arrays \<open>posZ\<close> and \<open>velZ\<close> of the
  balloon program, whose values the statements below fix by equations; the other arrays
  of the instances are held as exact reals.
\<close>

datatype jsnum = Num real | NaN

datatype vec3 = Vector3 (vec_x: real) (vec_y: real) (vec_z: real)

type_synonym rng = "nat \<Rightarrow> real"

definition drop_rng :: "nat \<Rightarrow> rng \<Rightarrow> rng" where
  "drop_rng n g = (\<lambda>k. g (k + n))"

text \<open>\<open>Math.random()\<close> returns a value in \<open>[0, 1)\<close>.\<close>

definition unit_rng :: "rng \<Rightarrow> bool" where
  "unit_rng g \<longleftrightarrow> (\<forall>k. 0 \<le> g k \<and> g k < 1)"

text \<open>
  The helpers of \<open>THREE.MathUtils\<close> the source calls:
  \<open>clamp(value, min, max) = Math.max(min, Math.min(max, value))\<close>,
  \<open>randFloat(low, high) = low + Math.random() * (high - low)\<close>,
  \<open>randFloatSpread(range) = range * (0.5 - Math.random())\<close>,
  \<open>degToRad(degrees) = degrees * (Math.PI / 180)\<close>.
  The draw is passed in.
\<close>

definition MathUtils_clamp :: "real \<Rightarrow> real \<Rightarrow> real \<Rightarrow> real" where
  "MathUtils_clamp v lo hi = max lo (min hi v)"

definition randFloat :: "real \<Rightarrow> real \<Rightarrow> real \<Rightarrow> real" where
  "randFloat r low high = low + r * (high - low)"

definition randFloatSpread :: "real \<Rightarrow> real \<Rightarrow> real" where
  "randFloatSpread r rg = rg * (0.5 - r)"

definition MathUtils_degToRad :: "real \<Rightarrow> real" where
  "MathUtils_degToRad degrees = degrees * (pi / 180)"

text \<open>
  The store of a number into a \<open>Float32Array\<close>: the nearest single-precision number,
  ties to the even significand (the conversion \<open>Math.fround\<close> also makes). \<open>pow2 e\<close> is
  \<open>2\<close> to the power \<open>e\<close>; \<open>fexp a\<close> is the exponent of the binade of the magnitude \<open>a\<close>,
  found by stepping up from the least exponent \<open>-126\<close> (below \<open>2\<close> to the \<open>-126\<close> lie
  the subnormal numbers, which share that exponent) to at most \<open>127\<close>; the spacing of
  the format there is \<open>pow2 (fexp a - 23)\<close>, for its 24 significant bits. A magnitude
  that rounds to \<open>2\<close> to the power \<open>128\<close> or beyond is stored as an infinity by the
  array; the reals have none, and no value in what follows comes near.
\<close>

definition pow2 :: "int \<Rightarrow> real" where
  "pow2 e = (if 0 \<le> e then 2 ^ nat e else 1 / 2 ^ nat (- e))"

fun fexp_from :: "nat \<Rightarrow> int \<Rightarrow> real \<Rightarrow> int" where
  "fexp_from 0 e a = e"
| "fexp_from (Suc n) e a = (if pow2 (e + 1) \<le> a then fexp_from n (e + 1) a else e)"

definition fexp :: "real \<Rightarrow> int" where
  "fexp a = fexp_from 253 (- 126) a"

definition roundTiesToEven :: "real \<Rightarrow> int" where
  "roundTiesToEven y =
     (let n = \<lfloor>y\<rfloor>;
          d = y - of_int n
      in if d < 1 / 2 then n else if 1 / 2 < d then n + 1 else if even n then n else n + 1)"

definition fround :: "real \<Rightarrow> real" where
  "fround x =
     (let a = \<bar>x\<bar>;
          q = pow2 (fexp a - 23);
          m = q * of_int (roundTiesToEven (a / q))
      in if x < 0 then - m else m)"

text \<open>
  The remainder operator \<open>%\<close> of JavaScript on integer values: the quotient is truncated
  towards zero, so the result has the sign of the dividend.
\<close>

definition js_rem :: "int \<Rightarrow> int \<Rightarrow> int" where
  "js_rem a n = (if a < 0 then - ((- a) mod \<bar>n\<bar>) else a mod \<bar>n\<bar>)"

section \<open>Frame time (both variants)\<close>

text \<open>
  \<open>const dt = Math.min((now - lastTime) / 1000, 0.05) || 0.016;\<close>
  The argument is the elapsed time \<open>now - lastTime\<close> in milliseconds. \<open>Math.min\<close> of
  \<open>NaN\<close> is \<open>NaN\<close>; \<open>||\<close> takes its right operand when the left one is \<open>0\<close> or \<open>NaN\<close>.
\<close>

definition animate_dt :: "jsnum \<Rightarrow> real" where
  "animate_dt elapsed =
     (case elapsed of
        NaN \<Rightarrow> 0.016
      | Num e \<Rightarrow> (let m = min (e / 1000) 0.05 in if m = 0 then 0.016 else m))"

section \<open>Pattern colours (lantern variant)\<close>

text \<open>
  A colour is its hexadecimal RGB value. A pattern descriptor may be missing altogether
  (\<open>None\<close>), and so may its palette. \<open>CONFIG.patterns.density\<close> may be null or undefined,
  in which case \<open>??\<close> takes \<open>1.0\<close>.
\<close>

type_synonym color = nat

record pattern =
  ptype :: string
  palette :: "color list option"
  stripes :: real
  cellsY :: real
  cellsA :: real

datatype js_error = TypeError

text \<open>The \<open>switch\<close> on the pattern type, giving \<open>idx\<close>.\<close>

definition patternIdx :: "pattern \<Rightarrow> real \<Rightarrow> real \<Rightarrow> real \<Rightarrow> int \<Rightarrow> int" where
  "patternIdx p density h a len =
     (if ptype p = ''checker'' then
        (let iy = \<lfloor>h * cellsY p * density\<rfloor>;
             ia = \<lfloor>a * cellsA p * density\<rfloor>
         in js_rem (iy + ia) len)
      else if ptype p = ''horizontal'' then
        js_rem \<lfloor>h * stripes p * density\<rfloor> len
      else
        (let v = (h + a) * stripes p * density in js_rem \<lfloor>v\<rfloor> len))"

text \<open>The index of the palette lookup, \<open>(idx + len) % len\<close>.\<close>

definition paletteIndex :: "pattern \<Rightarrow> real \<Rightarrow> real \<Rightarrow> real \<Rightarrow> int \<Rightarrow> int" where
  "paletteIndex p density h a len = js_rem (patternIdx p density h a len + len) len"

text \<open>
  \<open>applyPatternColor(pattern, vertexIndex, outColor)\<close>; the result is the colour written to
  \<open>outColor\<close>. Reading a typed array out of range gives \<open>undefined\<close>, the index becomes
  \<open>NaN\<close>, the palette lookup gives \<open>undefined\<close> and \<open>outColor.copy\<close> throws; so does a
  palette lookup out of range.
\<close>

definition applyPatternColor ::
  "real option \<Rightarrow> real list \<Rightarrow> real list \<Rightarrow> pattern option \<Rightarrow> nat \<Rightarrow> js_error + color" where
  "applyPatternColor cfg_density heightFactors angleFactors pat vertexIndex =
     (case pat of
        None \<Rightarrow> Inr 0xffffff
      | Some p \<Rightarrow>
          (case palette p of
             None \<Rightarrow> Inr 0xffffff
           | Some pal \<Rightarrow>
               if length pal = 0 then Inr 0xffffff
               else
                 (let density = (case cfg_density of None \<Rightarrow> 1 | Some d \<Rightarrow> d) in
                  if vertexIndex < length heightFactors \<and> vertexIndex < length angleFactors then
                    (let h = heightFactors ! vertexIndex;
                         a = angleFactors ! vertexIndex;
                         len = int (length pal);
                         k = paletteIndex p density h a len
                     in if 0 \<le> k \<and> k < len then Inr (pal ! nat k) else Inl TypeError)
                  else Inl TypeError)))"

section \<open>Configuration and bounds (both variants)\<close>

text \<open>
  The fields of the \<open>CONFIG\<close> object that the simulation core reads, flattened
  (\<open>CONFIG.spawn.initialVelocity.y.min\<close> is \<open>initialVelocity_y_min\<close>). The two programs of
  the repository have a \<open>CONFIG\<close> each; the fields they share are in \<open>config\<close>. The zone
  bounds and margins live under \<open>CONFIG.spawn\<close> in the lantern program and under
  \<open>CONFIG.balloons\<close> in the balloon program.
\<close>

record config =
  gravity :: real
  liftStrength :: real
  buoyancyRiseRate :: real
  buoyancyDecayRate :: real
  buoyancyDecayVariance_min :: real
  buoyancyDecayVariance_max :: real
  horizontalDrag :: real
  verticalDrag :: real
  maxVerticalSpeed :: real
  initialVelocity_x_spread :: real
  initialVelocity_y_min :: real
  initialVelocity_y_max :: real
  initialVelocity_z_spread :: real
  initialBuoyancy_maxFactor :: real
  zBounds_min :: real
  zBounds_max :: real
  xMarginMultiplier :: real
  ySpawnOffset :: real
  yOffOffset :: real
  wobble_ampX_min :: real
  wobble_ampX_max :: real
  wobble_ampZ_min :: real
  wobble_ampZ_max :: real
  wobble_speedX_min :: real
  wobble_speedX_max :: real
  wobble_speedZ_min :: real
  wobble_speedZ_max :: real
  randomLight_rate :: real
  randomLight_thresholdY :: real

record lantern_config = config +
  collisionRestitution :: real
  rotation_ySpeed_spread :: real
  hover_radius :: real
  lantern_width :: real
  lantern_height :: real
  lantern_flareFactor :: real

definition CONFIG_lantern :: lantern_config where
  "CONFIG_lantern =
     \<lparr> gravity = -0.2, liftStrength = 1.2, buoyancyRiseRate = 200.5,
       buoyancyDecayRate = 0.4, buoyancyDecayVariance_min = 0.6,
       buoyancyDecayVariance_max = 1.6, horizontalDrag = 0.949, verticalDrag = 0.995,
       maxVerticalSpeed = 4,
       initialVelocity_x_spread = 0.6, initialVelocity_y_min = -0.9,
       initialVelocity_y_max = -0.1, initialVelocity_z_spread = 0.6,
       initialBuoyancy_maxFactor = 0.4,
       zBounds_min = -8, zBounds_max = 4, xMarginMultiplier = 1.3,
       ySpawnOffset = 4, yOffOffset = 4,
       wobble_ampX_min = 0.4, wobble_ampX_max = 1,
       wobble_ampZ_min = 0.3, wobble_ampZ_max = 0.8,
       wobble_speedX_min = 0.4, wobble_speedX_max = 1,
       wobble_speedZ_min = 0.4, wobble_speedZ_max = 1,
       randomLight_rate = 0.08, randomLight_thresholdY = 0.8,
       collisionRestitution = 0.3, rotation_ySpeed_spread = 0.6, hover_radius = 0.3,
       lantern_width = 0.6, lantern_height = 1, lantern_flareFactor = 1.3 \<rparr>"

record bounds =
  yMin :: real
  yMax :: real
  ySpawnTop :: real
  yOffBottom :: real
  xVisible :: real
  xOff :: real
  zMin :: real
  zMax :: real

text \<open>
  \<open>updateVisibleBounds()\<close>, the same in both programs. The camera supplies the height of
  the view centre, the visible half-height \<open>vHalf = tan(fov / 2) * dist\<close> and the aspect
  ratio; they are the arguments here.
\<close>

definition updateVisibleBounds :: "'a config_scheme \<Rightarrow> real \<Rightarrow> real \<Rightarrow> real \<Rightarrow> bounds" where
  "updateVisibleBounds cfg viewCenter_y vHalf aspect =
     (let hHalf = vHalf * aspect in
      \<lparr> yMin = viewCenter_y - vHalf,
        yMax = viewCenter_y + vHalf,
        ySpawnTop = (viewCenter_y + vHalf) + ySpawnOffset cfg,
        yOffBottom = (viewCenter_y - vHalf) - yOffOffset cfg,
        xVisible = hHalf,
        xOff = hHalf * xMarginMultiplier cfg,
        zMin = zBounds_min cfg,
        zMax = zBounds_max cfg \<rparr>)"

text \<open>The test of the recycle volume, as both integration loops write it.\<close>

definition outOfBounds :: "bounds \<Rightarrow> real \<Rightarrow> real \<Rightarrow> bool" where
  "outOfBounds bnd px py \<longleftrightarrow>
     py < yOffBottom bnd \<or> py > ySpawnTop bnd \<or> px < - xOff bnd \<or> px > xOff bnd"

section \<open>The lantern program: class \<open>LanternSimulation\<close>\<close>

text \<open>
  A lantern is the physics state the mesh carries: its position, its rotation about the
  vertical axis and its \<open>userData\<close>. Materials, geometry and vertex colours go to the
  renderer and are left out.
\<close>

record wobble =
  ampX :: real
  ampZ :: real
  speedX :: real
  speedZ :: real
  phaseX :: real
  phaseZ :: real

record lantern =
  position :: vec3
  rotation_y :: real
  velocity :: vec3
  buoyancy :: real
  hovered :: bool
  decayRate :: real
  angularVelocity :: "vec3 option"
  wobble :: "wobble option"

text \<open>\<open>resetLantern(lantern, isInitial)\<close>: eight draws, in the order of the source.\<close>

definition resetLantern ::
  "'a config_scheme \<Rightarrow> bounds \<Rightarrow> rng \<Rightarrow> lantern \<Rightarrow> bool \<Rightarrow> lantern \<times> rng" where
  "resetLantern cfg bnd g l isInitial =
     (let spawnYMin = (if isInitial then yOffBottom bnd else yMax bnd + 2);
          spawnYMax = ySpawnTop bnd
      in (l\<lparr> position :=
                Vector3 (randFloatSpread (g 0) (xVisible bnd * 2))
                        (randFloat (g 1) spawnYMin spawnYMax)
                        (randFloat (g 2) (zMin bnd) (zMax bnd)),
              velocity :=
                Vector3 (randFloatSpread (g 3) (initialVelocity_x_spread cfg))
                        (randFloat (g 4) (initialVelocity_y_min cfg) (initialVelocity_y_max cfg))
                        (randFloatSpread (g 5) (initialVelocity_z_spread cfg)),
              buoyancy := g 6 * g 7 * initialBuoyancy_maxFactor cfg,
              hovered := False \<rparr>,
          drop_rng 8 g))"

text \<open>
  \<open>spawnLantern(isInitial)\<close>: the \<open>userData\<close> is drawn (decay rate, angular velocity, six
  wobble parameters), then the pattern type (one draw; the base colour is always set by
  the constructor, so the random colour branch is never taken), then the lantern is reset.
\<close>

definition spawnLantern :: "lantern_config \<Rightarrow> bounds \<Rightarrow> rng \<Rightarrow> bool \<Rightarrow> lantern \<times> rng" where
  "spawnLantern cfg bnd g isInitial =
     (let l = \<lparr> position = Vector3 0 0 0,
                rotation_y = 0,
                velocity = Vector3 0 0 0,
                buoyancy = 0,
                hovered = False,
                decayRate = buoyancyDecayRate cfg *
                  randFloat (g 0) (buoyancyDecayVariance_min cfg) (buoyancyDecayVariance_max cfg),
                angularVelocity =
                  Some (Vector3 0 (randFloatSpread (g 1) (rotation_ySpeed_spread cfg)) 0),
                wobble = Some
                  \<lparr> ampX = randFloat (g 2) (wobble_ampX_min cfg) (wobble_ampX_max cfg),
                    ampZ = randFloat (g 3) (wobble_ampZ_min cfg) (wobble_ampZ_max cfg),
                    speedX = randFloat (g 4) (wobble_speedX_min cfg) (wobble_speedX_max cfg),
                    speedZ = randFloat (g 5) (wobble_speedZ_min cfg) (wobble_speedZ_max cfg),
                    phaseX = g 6 * pi * 2,
                    phaseZ = g 7 * pi * 2 \<rparr> \<rparr>
      in resetLantern cfg bnd (drop_rng 9 g) l isInitial)"

text \<open>
  The body of the loop of \<open>updateLanterns(dt, time)\<close>, in four phases. First the buoyancy:
  rise when hovered, decay otherwise, the random ignition (which draws only when its guard
  holds), and the clamp to \<open>[0, 1]\<close>. \<open>buoyancy || 0\<close> is the buoyancy itself on reals.
\<close>

definition updateBuoyancy ::
  "'a config_scheme \<Rightarrow> bounds \<Rightarrow> real \<Rightarrow> rng \<Rightarrow> bool \<Rightarrow> real \<Rightarrow> real \<Rightarrow> real \<Rightarrow> real \<times> rng" where
  "updateBuoyancy cfg bnd dt g isHovered b0 decay py =
     (let b1 = (if isHovered then b0 + buoyancyRiseRate cfg * dt
                else if b0 > 0 then b0 - decay * dt
                else b0);
          (b2, g') =
            (if \<not> isHovered \<and> b1 \<le> 0.01 \<and> py < yMax bnd * randomLight_thresholdY cfg
             then (if g 0 < randomLight_rate cfg * dt then 1 else b1, drop_rng 1 g)
             else (b1, g))
      in (MathUtils_clamp b2 0 1, g'))"

text \<open>
  Then the forces and the integration: lift, wobble, drag, the clamp of the vertical speed,
  the position and the rotation.
\<close>

definition integrateLantern :: "'a config_scheme \<Rightarrow> real \<Rightarrow> real \<Rightarrow> real \<Rightarrow> lantern \<Rightarrow> lantern" where
  "integrateLantern cfg dt time b l =
     (let v = velocity l;
          ay = gravity cfg + liftStrength cfg * b;
          vy1 = vec_y v + ay * dt;
          (vx1, vz1) =
            (case wobble l of
               None \<Rightarrow> (vec_x v, vec_z v)
             | Some w \<Rightarrow>
                 (vec_x v + sin (time * speedX w + phaseX w) * ampX w * dt,
                  vec_z v + cos (time * speedZ w + phaseZ w) * ampZ w * dt));
          vx2 = vx1 * horizontalDrag cfg;
          vy2 = vy1 * verticalDrag cfg;
          vz2 = vz1 * horizontalDrag cfg;
          vy3 = MathUtils_clamp vy2 (- maxVerticalSpeed cfg) (maxVerticalSpeed cfg);
          p = position l
      in l\<lparr> buoyancy := b,
             velocity := Vector3 vx2 vy3 vz2,
             position := Vector3 (vec_x p + vx2 * dt) (vec_y p + vy3 * dt) (vec_z p + vz2 * dt),
             rotation_y :=
               (case angularVelocity l of
                  None \<Rightarrow> rotation_y l
                | Some w \<Rightarrow> rotation_y l + vec_y w * dt) \<rparr>)"

text \<open>Last the bounce off the depth walls.\<close>

definition bounceDepth :: "bounds \<Rightarrow> lantern \<Rightarrow> lantern" where
  "bounceDepth bnd l =
     (let p = position l; v = velocity l in
      if vec_z p < zMin bnd then
        l\<lparr> position := Vector3 (vec_x p) (vec_y p) (zMin bnd),
           velocity := Vector3 (vec_x v) (vec_y v) (\<bar>vec_z v\<bar> * 0.6) \<rparr>
      else if vec_z p > zMax bnd then
        l\<lparr> position := Vector3 (vec_x p) (vec_y p) (zMax bnd),
           velocity := Vector3 (vec_x v) (vec_y v) (- \<bar>vec_z v\<bar> * 0.6) \<rparr>
      else l)"

text \<open>The whole body: buoyancy, integration, recycling when out of the volume, bounce.\<close>

definition updateLantern ::
  "'a config_scheme \<Rightarrow> bounds \<Rightarrow> real \<Rightarrow> real \<Rightarrow> rng \<Rightarrow> lantern \<Rightarrow> lantern \<times> rng" where
  "updateLantern cfg bnd dt time g l =
     (let (b, g1) = updateBuoyancy cfg bnd dt g (hovered l) (buoyancy l) (decayRate l)
                      (vec_y (position l));
          l1 = integrateLantern cfg dt time b l;
          (l2, g2) =
            (if outOfBounds bnd (vec_x (position l1)) (vec_y (position l1))
             then resetLantern cfg bnd g1 l1 False
             else (l1, g1))
      in (bounceDepth bnd l2, g2))"

fun updateLanterns ::
  "'a config_scheme \<Rightarrow> bounds \<Rightarrow> real \<Rightarrow> real \<Rightarrow> rng \<Rightarrow> lantern list \<Rightarrow> lantern list \<times> rng" where
  "updateLanterns cfg bnd dt time g [] = ([], g)"
| "updateLanterns cfg bnd dt time g (l # ls) =
     (let (l', g1) = updateLantern cfg bnd dt time g l;
          (ls', g2) = updateLanterns cfg bnd dt time g1 ls
      in (l' # ls', g2))"

text \<open>
  \<open>handleCollisions()\<close>. One pair first: the body of the inner loop for the lanterns \<open>a\<close>
  (index \<open>i\<close>) and \<open>b\<close> (index \<open>j\<close>), each \<open>continue\<close> returning the pair as it stands.
\<close>

definition resolvePair :: "real \<Rightarrow> real \<Rightarrow> lantern \<Rightarrow> lantern \<Rightarrow> lantern \<times> lantern" where
  "resolvePair minDist restitution a b =
     (let pa = position a; va = velocity a;
          pb = position b; vb = velocity b;
          minDistSq = minDist * minDist;
          dx = vec_x pb - vec_x pa;
          dy = vec_y pb - vec_y pa;
          dz = vec_z pb - vec_z pa;
          distSq = dx * dx + dy * dy + dz * dz
      in if distSq = 0 \<or> distSq > minDistSq then (a, b)
         else
           (let dist = sqrt distSq;
                overlap = minDist - dist
            in if overlap \<le> 0 then (a, b)
               else
                 (let nx = dx / dist;
                      ny = dy / dist;
                      nz = dz / dist;
                      halfCorrection = overlap * 0.5;
                      pa' = Vector3 (vec_x pa - nx * halfCorrection)
                                    (vec_y pa - ny * halfCorrection)
                                    (vec_z pa - nz * halfCorrection);
                      pb' = Vector3 (vec_x pb + nx * halfCorrection)
                                    (vec_y pb + ny * halfCorrection)
                                    (vec_z pb + nz * halfCorrection);
                      rvx = vec_x vb - vec_x va;
                      rvy = vec_y vb - vec_y va;
                      rvz = vec_z vb - vec_z va;
                      velAlongNormal = rvx * nx + rvy * ny + rvz * nz
                  in if velAlongNormal > 0
                     then (a\<lparr>position := pa'\<rparr>, b\<lparr>position := pb'\<rparr>)
                     else
                       (let jImpulse = - (1 + restitution) * velAlongNormal * 0.5;
                            impulseX = jImpulse * nx;
                            impulseY = jImpulse * ny;
                            impulseZ = jImpulse * nz
                        in (a\<lparr> position := pa',
                                velocity := Vector3 (vec_x va - impulseX)
                                                    (vec_y va - impulseY)
                                                    (vec_z va - impulseZ) \<rparr>,
                            b\<lparr> position := pb',
                                velocity := Vector3 (vec_x vb + impulseX)
                                                    (vec_y vb + impulseY)
                                                    (vec_z vb + impulseZ) \<rparr>)))))"

text \<open>
  The two loops, over the indices as the source has them: \<open>i\<close> from \<open>0\<close>, \<open>j\<close> from
  \<open>i + 1\<close>, each pair resolved on the lanterns as the earlier pairs left them.
\<close>

definition collidePair :: "real \<Rightarrow> real \<Rightarrow> nat \<Rightarrow> nat \<Rightarrow> lantern list \<Rightarrow> lantern list" where
  "collidePair minDist restitution i j ls =
     (let (a, b) = resolvePair minDist restitution (ls ! i) (ls ! j)
      in ls[i := a, j := b])"

definition collideAll :: "real \<Rightarrow> real \<Rightarrow> lantern list \<Rightarrow> lantern list" where
  "collideAll minDist restitution ls =
     fold (\<lambda>i ls1. fold (collidePair minDist restitution i) [i + 1 ..< length ls1] ls1)
          [0 ..< length ls] ls"

text \<open>\<open>this.collisionRadius = Math.max(width * flareFactor, height) * 0.35\<close>\<close>

definition collisionRadius :: "lantern_config \<Rightarrow> real" where
  "collisionRadius cfg = max (lantern_width cfg * lantern_flareFactor cfg) (lantern_height cfg) * 0.35"

definition handleCollisions :: "lantern_config \<Rightarrow> lantern list \<Rightarrow> lantern list" where
  "handleCollisions cfg ls =
     (let minDist = collisionRadius cfg * 2 in
      collideAll minDist (collisionRestitution cfg) ls)"

text \<open>
  One frame of \<open>animate(now)\<close>: the time step from the two time stamps, then, unless paused,
  the update of every lantern followed by the collision pass.
\<close>

definition animate_lantern ::
  "lantern_config \<Rightarrow> bounds \<Rightarrow> bool \<Rightarrow> real \<Rightarrow> real \<Rightarrow> rng \<Rightarrow> lantern list \<Rightarrow> lantern list \<times> rng" where
  "animate_lantern cfg bnd paused lastTime now g ls =
     (let dt = animate_dt (Num (now - lastTime));
          time = now * 0.001
      in if \<not> paused then
           (let (ls1, g1) = updateLanterns cfg bnd dt time g ls
            in (handleCollisions cfg ls1, g1))
         else (ls, g))"

text \<open>
  \<open>onPointerMove(event)\<close>: the lantern is projected to normalised device coordinates by
  the camera (the argument \<open>project\<close>) and compared with the pointer, itself in those
  coordinates.
\<close>

definition onPointerMove ::
  "lantern_config \<Rightarrow> (vec3 \<Rightarrow> vec3) \<Rightarrow> real \<Rightarrow> real \<Rightarrow> lantern list \<Rightarrow> lantern list" where
  "onPointerMove cfg project pointer_x pointer_y ls =
     (let hoverRadiusSq = hover_radius cfg * hover_radius cfg in
      map (\<lambda>l. let tmpScreenPos = project (position l);
                    dx = vec_x tmpScreenPos - pointer_x;
                    dy = vec_y tmpScreenPos - pointer_y
                in l\<lparr>hovered := (dx * dx + dy * dy < hoverRadiusSq)\<rparr>) ls)"

section \<open>The balloon program: instanced state\<close>

record balloon_config = config +
  count :: nat
  maxPeople :: nat
  maxHands :: nat
  trackMode :: string
  hoverRadiusWorld :: real
  useScreenSpaceHit :: bool
  screenRadiusNDC :: "real option"
  screenRadiusMin :: "real option"
  screenRadiusMax :: "real option"
  orbSmoothing :: real
  orbMaxTTL :: real

definition CONFIG_balloon :: balloon_config where
  "CONFIG_balloon =
     \<lparr> gravity = -0.16, liftStrength = 1.35, buoyancyRiseRate = 520,
       buoyancyDecayRate = 0.65, buoyancyDecayVariance_min = 0.65,
       buoyancyDecayVariance_max = 1.55, horizontalDrag = 0.957, verticalDrag = 0.994,
       maxVerticalSpeed = 5.6,
       initialVelocity_x_spread = 0.75, initialVelocity_y_min = -0.48,
       initialVelocity_y_max = -0.06, initialVelocity_z_spread = 0.75,
       initialBuoyancy_maxFactor = 0.10,
       zBounds_min = -18, zBounds_max = 10, xMarginMultiplier = 1.28,
       ySpawnOffset = 8, yOffOffset = 8,
       wobble_ampX_min = 0.18, wobble_ampX_max = 0.55,
       wobble_ampZ_min = 0.16, wobble_ampZ_max = 0.50,
       wobble_speedX_min = 0.25, wobble_speedX_max = 0.85,
       wobble_speedZ_min = 0.25, wobble_speedZ_max = 0.85,
       randomLight_rate = 0.0015, randomLight_thresholdY = 0.90,
       count = 400, maxPeople = 4, maxHands = 4, trackMode = ''fingers'',
       hoverRadiusWorld = 5.8, useScreenSpaceHit = True,
       screenRadiusNDC = Some 0.065, screenRadiusMin = Some 0.03,
       screenRadiusMax = Some 0.10,
       orbSmoothing = 0.14, orbMaxTTL = 0.12 \<rparr>"

text \<open>
  The per-instance state is a structure of typed arrays of length \<open>N\<close>, indexed by the
  instance. The tint array \<open>iBase\<close> only feeds the shader and is left out (its draw is
  still consumed). A write to a typed array out of range is ignored, as the update of a
  list is.
\<close>

record balloons =
  posX :: "real list"
  posY :: "real list"
  posZ :: "real list"
  velX :: "real list"
  velY :: "real list"
  velZ :: "real list"
  rotY :: "real list"
  angY :: "real list"
  buoy :: "real list"
  decay :: "real list"
  wAmpX :: "real list"
  wAmpZ :: "real list"
  wSpdX :: "real list"
  wSpdZ :: "real list"
  wPhX :: "real list"
  wPhZ :: "real list"
  iBuoy :: "real list"
  iPatternType :: "real list"
  iSeed :: "real list"

text \<open>\<open>resetInstance(i, isInitial)\<close>: twenty draws, in the order of the source; the depth
  and the depth velocity are stored in single precision.\<close>

definition resetInstance ::
  "'a config_scheme \<Rightarrow> bounds \<Rightarrow> rng \<Rightarrow> balloons \<Rightarrow> nat \<Rightarrow> bool \<Rightarrow> balloons \<times> rng" where
  "resetInstance cfg bnd g s i isInitial =
     (let spawnYMin = (if isInitial then yOffBottom bnd else yMax bnd + 2);
          spawnYMax = ySpawnTop bnd;
          b = g 6 * g 7 * initialBuoyancy_maxFactor cfg;
          r = g 18
      in (s\<lparr> posX := (posX s)[i := randFloatSpread (g 0) (xVisible bnd * 2)],
              posY := (posY s)[i := randFloat (g 1) spawnYMin spawnYMax],
              posZ := (posZ s)[i := fround (randFloat (g 2) (zMin bnd) (zMax bnd))],
              velX := (velX s)[i := randFloatSpread (g 3) (initialVelocity_x_spread cfg)],
              velY := (velY s)[i := randFloat (g 4) (initialVelocity_y_min cfg)
                                                     (initialVelocity_y_max cfg)],
              velZ := (velZ s)[i := fround (randFloatSpread (g 5) (initialVelocity_z_spread cfg))],
              buoy := (buoy s)[i := b],
              iBuoy := (iBuoy s)[i := b],
              rotY := (rotY s)[i := g 8 * pi * 2],
              angY := (angY s)[i := randFloatSpread (g 9) 0.45],
              decay := (decay s)[i := buoyancyDecayRate cfg *
                          randFloat (g 10) (buoyancyDecayVariance_min cfg)
                                           (buoyancyDecayVariance_max cfg)],
              wAmpX := (wAmpX s)[i := randFloat (g 11) (wobble_ampX_min cfg) (wobble_ampX_max cfg)],
              wAmpZ := (wAmpZ s)[i := randFloat (g 12) (wobble_ampZ_min cfg) (wobble_ampZ_max cfg)],
              wSpdX := (wSpdX s)[i := randFloat (g 13) (wobble_speedX_min cfg) (wobble_speedX_max cfg)],
              wSpdZ := (wSpdZ s)[i := randFloat (g 14) (wobble_speedZ_min cfg) (wobble_speedZ_max cfg)],
              wPhX := (wPhX s)[i := g 15 * pi * 2],
              wPhZ := (wPhZ s)[i := g 16 * pi * 2],
              iPatternType := (iPatternType s)[i := (if r < 0.72 then 0 else if r < 0.92 then 1 else 2)],
              iSeed := (iSeed s)[i := g 19 * 1000] \<rparr>,
          drop_rng 20 g))"

text \<open>The initial fill: \<open>for (let i = 0; i < N; i++) resetInstance(i, true)\<close>.\<close>

definition initialFill :: "balloon_config \<Rightarrow> bounds \<Rightarrow> rng \<Rightarrow> balloons \<Rightarrow> balloons \<times> rng" where
  "initialFill cfg bnd g s =
     fold (\<lambda>i (s1, g1). resetInstance cfg bnd g1 s1 i True) [0 ..< count cfg] (s, g)"

section \<open>The balloon program: orbs\<close>

record orbs =
  orbPositions :: "vec3 list"
  orbTargets :: "vec3 list"
  orbBuoy :: "real list"
  orbTTL :: "real list"

definition FINGERTIPS_PER_HAND :: nat where
  "FINGERTIPS_PER_HAND = 5"

definition MAX_ORBS :: "balloon_config \<Rightarrow> nat" where
  "MAX_ORBS cfg = 1 + (maxPeople cfg * 2) + (maxHands cfg * FINGERTIPS_PER_HAND)"

text \<open>\<open>Vector3.lengthSq()\<close> and \<open>Vector3.lerp(v, alpha)\<close> of the rendering library.\<close>

definition lengthSq :: "vec3 \<Rightarrow> real" where
  "lengthSq v = vec_x v * vec_x v + vec_y v * vec_y v + vec_z v * vec_z v"

definition lerp :: "vec3 \<Rightarrow> vec3 \<Rightarrow> real \<Rightarrow> vec3" where
  "lerp p v alpha =
     Vector3 (vec_x p + (vec_x v - vec_x p) * alpha)
             (vec_y p + (vec_y v - vec_y p) * alpha)
             (vec_z p + (vec_z v - vec_z p) * alpha)"

text \<open>
  \<open>setOrb(slot, worldPos, strength = 1.0)\<close>; an omitted strength is \<open>None\<close>. The slot is an
  integer, as every caller passes one. \<open>orbTargets\<close> and \<open>orbPositions\<close> are arrays of
  vectors, whose components are doubles; \<open>orbBuoy\<close> and \<open>orbTTL\<close> are \<open>Float32Array\<close>s.
\<close>

definition setOrb :: "balloon_config \<Rightarrow> orbs \<Rightarrow> int \<Rightarrow> vec3 \<Rightarrow> real option \<Rightarrow> orbs" where
  "setOrb cfg ob slot worldPos strength =
     (if slot < 0 \<or> slot \<ge> int (MAX_ORBS cfg) then ob
      else
        (let k = nat slot;
             ob1 = ob\<lparr>orbTargets := (orbTargets ob)[k := worldPos]\<rparr>;
             ob2 = (if lengthSq (orbPositions ob1 ! k) < 1 / 1000000
                    then ob1\<lparr>orbPositions := (orbPositions ob1)[k := worldPos]\<rparr>
                    else ob1)
         in ob2\<lparr> orbBuoy := (orbBuoy ob2)[k := fround (case strength of None \<Rightarrow> 1 | Some x \<Rightarrow> x)],
                 orbTTL := (orbTTL ob2)[k := fround (max 0.01 (orbMaxTTL cfg))] \<rparr>))"

text \<open>\<open>smoothOrbs(alpha)\<close>: the body of its loop, then the loop.\<close>

definition smoothOrb :: "real \<Rightarrow> nat \<Rightarrow> orbs \<Rightarrow> orbs" where
  "smoothOrb alpha i ob =
     (if orbTTL ob ! i > 0
      then ob\<lparr>orbPositions := (orbPositions ob)[i := lerp (orbPositions ob ! i) (orbTargets ob ! i) alpha]\<rparr>
      else ob)"

definition smoothOrbs :: "balloon_config \<Rightarrow> real \<Rightarrow> orbs \<Rightarrow> orbs" where
  "smoothOrbs cfg alpha ob = fold (smoothOrb alpha) [0 ..< MAX_ORBS cfg] ob"

text \<open>
  \<open>Math.pow\<close> on a base that is not negative, and the interpolation factor of the main
  loop: \<open>1.0 - Math.pow(1.0 - CONFIG.interaction.orbSmoothing, Math.max(1, dt * 60))\<close>.
\<close>

definition Math_pow :: "real \<Rightarrow> real \<Rightarrow> real" where
  "Math_pow x y = x powr y"

definition orbAlpha :: "balloon_config \<Rightarrow> real \<Rightarrow> real" where
  "orbAlpha cfg dt = 1 - Math_pow (1 - orbSmoothing cfg) (max 1 (dt * 60))"

text \<open>
  The interpolation factor in the words of the specification,
  \<open>alpha = 1 - (1 - smoothingRate)^(dt * referenceFrameRate)\<close> at 60 frames per second.
\<close>

definition spec_alpha :: "real \<Rightarrow> real \<Rightarrow> real" where
  "spec_alpha smoothingRate dt = 1 - (1 - smoothingRate) powr (dt * 60)"

text \<open>The decay of the time to live at the head of the main loop.\<close>

definition decayTTL :: "balloon_config \<Rightarrow> real \<Rightarrow> orbs \<Rightarrow> orbs" where
  "decayTTL cfg dt ob =
     fold (\<lambda>i ob1. ob1\<lparr>orbTTL := (orbTTL ob1)[i := fround (max 0 (orbTTL ob1 ! i - dt))]\<rparr>)
          [0 ..< MAX_ORBS cfg] ob"

section \<open>The balloon program: hover, buoyancy and physics\<close>

text \<open>
  \<open>worldToNDC(v, out)\<close> is \<open>out.copy(v).project(camera)\<close>: the projection of the rendering
  library's camera, an argument \<open>project\<close> of everything below. For a perspective camera
  that sits at \<open>cam\<close> and looks down the negative \<open>z\<close> axis (the configured camera: position
  \<open>(0, 6, 40)\<close>, looking at \<open>(0, 6, 0)\<close>, near \<open>0.1\<close>, far \<open>260\<close>) the library computes the
  following, with \<open>f = 1 / tan(fov / 2)\<close>; the division by \<open>w\<close> is made whatever its sign.
\<close>

definition perspectiveProject :: "vec3 \<Rightarrow> real \<Rightarrow> real \<Rightarrow> real \<Rightarrow> real \<Rightarrow> vec3 \<Rightarrow> vec3" where
  "perspectiveProject cam f aspect near far v =
     (let x = vec_x v - vec_x cam;
          y = vec_y v - vec_y cam;
          z = vec_z v - vec_z cam;
          w = - z
      in Vector3 ((f / aspect) * x / w)
                 (f * y / w)
                 ((- ((far + near) / (far - near)) * z - 2 * far * near / (far - near)) / w))"

text \<open>
  The camera of the balloon program is built once from \<open>CONFIG.camera3d\<close> (field of view
  55 degrees, near 0.1, far 260, position \<open>(0, 6, 40)\<close>, looking at \<open>(0, 6, 0)\<close>) and only
  its aspect ratio changes afterwards, on a resize of the window. \<open>worldToNDC\<close> with that
  camera:
\<close>

definition worldToNDC :: "real \<Rightarrow> vec3 \<Rightarrow> vec3" where
  "worldToNDC aspect v =
     perspectiveProject (Vector3 0 6 40) (1 / tan (MathUtils_degToRad 55 / 2)) aspect 0.1 260 v"

record ndc_box =
  minX :: real
  maxX :: real
  minY :: real
  maxY :: real

text \<open>The clamped screen radius \<open>rN\<close> of \<open>applyOrbInfluence\<close>, with the defaults of \<open>??\<close>.\<close>

definition screenRadius :: "balloon_config \<Rightarrow> real" where
  "screenRadius cfg =
     MathUtils_clamp (case screenRadiusNDC cfg of None \<Rightarrow> 0.065 | Some r \<Rightarrow> r)
                     (case screenRadiusMin cfg of None \<Rightarrow> 0.03 | Some r \<Rightarrow> r)
                     (case screenRadiusMax cfg of None \<Rightarrow> 0.10 | Some r \<Rightarrow> r)"

text \<open>
  The bodies of the two loops over the orbs: whether orb \<open>j\<close> sets \<open>hovered\<close> (and breaks
  the loop), in screen space and in world space.
\<close>

definition orbHitScreen :: "(vec3 \<Rightarrow> vec3) \<Rightarrow> orbs \<Rightarrow> vec3 \<Rightarrow> real \<Rightarrow> nat \<Rightarrow> bool" where
  "orbHitScreen project ob tmpNdcB rNSq j =
     (if orbTTL ob ! j \<le> 0 then False
      else
        (let tmpNdcO = project (orbPositions ob ! j) in
         if vec_z tmpNdcO < -1 \<or> vec_z tmpNdcO > 1 then False
         else
           (let dx = vec_x tmpNdcB - vec_x tmpNdcO;
                dy = vec_y tmpNdcB - vec_y tmpNdcO
            in dx * dx + dy * dy < rNSq)))"

definition orbHitWorld :: "orbs \<Rightarrow> vec3 \<Rightarrow> real \<Rightarrow> nat \<Rightarrow> bool" where
  "orbHitWorld ob bw rWSq j =
     (if orbTTL ob ! j \<le> 0 then False
      else
        (let op = orbPositions ob ! j;
             dx = vec_x bw - vec_x op;
             dy = vec_y bw - vec_y op;
             dz = vec_z bw - vec_z op
         in dx * dx + dy * dy + dz * dz < rWSq))"

text \<open>
  The value of \<open>hovered\<close> for a balloon at the world position \<open>tmpBalloonW\<close>: the three
  modes of \<open>applyOrbInfluence\<close>. A loop that sets the flag and breaks at the first hit is
  \<open>list_ex\<close>.
\<close>

definition hoverTest ::
  "balloon_config \<Rightarrow> (vec3 \<Rightarrow> vec3) \<Rightarrow> ndc_box list \<Rightarrow> orbs \<Rightarrow> vec3 \<Rightarrow> bool" where
  "hoverTest cfg project poseBoxesNDC ob tmpBalloonW =
     (let rW = hoverRadiusWorld cfg;
          rWSq = rW * rW;
          rN = screenRadius cfg;
          rNSq = rN * rN
      in if trackMode cfg = ''fullBody'' then
           (if poseBoxesNDC \<noteq> [] then
              (let tmpNdcB = project tmpBalloonW;
                   balloonClipOK = (vec_z tmpNdcB \<ge> -1 \<and> vec_z tmpNdcB \<le> 1)
               in if balloonClipOK then
                    list_ex (\<lambda>bb2. vec_x tmpNdcB \<ge> minX bb2 \<and> vec_x tmpNdcB \<le> maxX bb2 \<and>
                                    vec_y tmpNdcB \<ge> minY bb2 \<and> vec_y tmpNdcB \<le> maxY bb2)
                            poseBoxesNDC
                  else False)
            else False)
         else if useScreenSpaceHit cfg then
           (let tmpNdcB = project tmpBalloonW;
                balloonClipOK = (vec_z tmpNdcB \<ge> -1 \<and> vec_z tmpNdcB \<le> 1)
            in if balloonClipOK
               then list_ex (orbHitScreen project ob tmpNdcB rNSq) [0 ..< MAX_ORBS cfg]
               else False)
         else list_ex (orbHitWorld ob tmpBalloonW rWSq) [0 ..< MAX_ORBS cfg])"

text \<open>
  The body of the loop of \<open>applyOrbInfluence(dt)\<close> for instance \<open>i\<close>. After the hover test
  the statements on the buoyancy are those of the lantern program, \<open>updateBuoyancy\<close>.
\<close>

definition applyOrbInfluence_step ::
  "balloon_config \<Rightarrow> bounds \<Rightarrow> (vec3 \<Rightarrow> vec3) \<Rightarrow> ndc_box list \<Rightarrow> orbs \<Rightarrow> real \<Rightarrow> nat \<Rightarrow>
   balloons \<Rightarrow> rng \<Rightarrow> balloons \<times> rng" where
  "applyOrbInfluence_step cfg bnd project poseBoxesNDC ob dt i s g =
     (let isHov = hoverTest cfg project poseBoxesNDC ob
                    (Vector3 (posX s ! i) (posY s ! i) (posZ s ! i));
          (b, g1) = updateBuoyancy cfg bnd dt g isHov (buoy s ! i) (decay s ! i) (posY s ! i)
      in (s\<lparr>buoy := (buoy s)[i := b], iBuoy := (iBuoy s)[i := b]\<rparr>, g1))"

definition applyOrbInfluence ::
  "balloon_config \<Rightarrow> bounds \<Rightarrow> (vec3 \<Rightarrow> vec3) \<Rightarrow> ndc_box list \<Rightarrow> orbs \<Rightarrow> real \<Rightarrow>
   rng \<Rightarrow> balloons \<Rightarrow> balloons \<times> rng" where
  "applyOrbInfluence cfg bnd project poseBoxesNDC ob dt g s =
     fold (\<lambda>i (s1, g1). applyOrbInfluence_step cfg bnd project poseBoxesNDC ob dt i s1 g1)
          [0 ..< count cfg] (s, g)"

text \<open>
  The body of the loop of \<open>updatePhysics(dt, t)\<close> for instance \<open>i\<close>, in the three phases of
  the source: integration, recycling, depth walls. The depth velocity is stored twice
  (\<open>velZ[i] += ...\<close>, then \<open>velZ[i] *= ...\<close>) and the depth once (\<open>posZ[i] += ...\<close>), each
  store in single precision.
\<close>

definition integrateInstance :: "'a config_scheme \<Rightarrow> real \<Rightarrow> real \<Rightarrow> nat \<Rightarrow> balloons \<Rightarrow> balloons" where
  "integrateInstance cfg dt t i s =
     (let b = buoy s ! i;
          vy1 = velY s ! i + (gravity cfg + liftStrength cfg * b) * dt;
          vx1 = velX s ! i + sin (t * wSpdX s ! i + wPhX s ! i) * wAmpX s ! i * dt;
          vz1 = fround (velZ s ! i + cos (t * wSpdZ s ! i + wPhZ s ! i) * wAmpZ s ! i * dt);
          vx2 = vx1 * horizontalDrag cfg;
          vy2 = vy1 * verticalDrag cfg;
          vz2 = fround (vz1 * horizontalDrag cfg);
          vy3 = MathUtils_clamp vy2 (- maxVerticalSpeed cfg) (maxVerticalSpeed cfg)
      in s\<lparr> velX := (velX s)[i := vx2],
             velY := (velY s)[i := vy3],
             velZ := (velZ s)[i := vz2],
             posX := (posX s)[i := posX s ! i + vx2 * dt],
             posY := (posY s)[i := posY s ! i + vy3 * dt],
             posZ := (posZ s)[i := fround (posZ s ! i + vz2 * dt)],
             rotY := (rotY s)[i := rotY s ! i + angY s ! i * dt] \<rparr>)"

definition depthWalls :: "bounds \<Rightarrow> nat \<Rightarrow> balloons \<Rightarrow> balloons" where
  "depthWalls bnd i s =
     (if posZ s ! i < zMin bnd then
        s\<lparr> posZ := (posZ s)[i := fround (zMin bnd)],
           velZ := (velZ s)[i := fround (\<bar>velZ s ! i\<bar> * 0.6)] \<rparr>
      else if posZ s ! i > zMax bnd then
        s\<lparr> posZ := (posZ s)[i := fround (zMax bnd)],
           velZ := (velZ s)[i := fround (- \<bar>velZ s ! i\<bar> * 0.6)] \<rparr>
      else s)"

definition updatePhysics_step ::
  "'a config_scheme \<Rightarrow> bounds \<Rightarrow> real \<Rightarrow> real \<Rightarrow> nat \<Rightarrow> balloons \<Rightarrow> rng \<Rightarrow> balloons \<times> rng" where
  "updatePhysics_step cfg bnd dt t i s g =
     (let s1 = integrateInstance cfg dt t i s;
          (s2, g2) =
            (if outOfBounds bnd (posX s1 ! i) (posY s1 ! i)
             then resetInstance cfg bnd g s1 i False
             else (s1, g))
      in (depthWalls bnd i s2, g2))"

definition updatePhysics ::
  "balloon_config \<Rightarrow> bounds \<Rightarrow> real \<Rightarrow> real \<Rightarrow> rng \<Rightarrow> balloons \<Rightarrow> balloons \<times> rng" where
  "updatePhysics cfg bnd dt t g s =
     fold (\<lambda>i (s1, g1). updatePhysics_step cfg bnd dt t i s1 g1) [0 ..< count cfg] (s, g)"

text \<open>
  One frame of \<open>animate(now)\<close>. The tracking sources and the pointer are outside the
  core: what they report this frame is the list \<open>orbUpdates\<close> of calls of \<open>setOrb\<close> and the
  list of pose boxes.
\<close>

definition animate_balloon ::
  "balloon_config \<Rightarrow> bounds \<Rightarrow> (vec3 \<Rightarrow> vec3) \<Rightarrow> real \<Rightarrow> real \<Rightarrow>
   (int \<times> vec3 \<times> real option) list \<Rightarrow> ndc_box list \<Rightarrow> rng \<Rightarrow> orbs \<Rightarrow> balloons \<Rightarrow>
   orbs \<times> balloons \<times> rng" where
  "animate_balloon cfg bnd project lastTime now orbUpdates poseBoxesNDC g ob s =
     (let dt = animate_dt (Num (now - lastTime));
          t = now * 0.001;
          ob1 = decayTTL cfg dt ob;
          ob2 = fold (\<lambda>(slot, worldPos, strength) ob0. setOrb cfg ob0 slot worldPos strength)
                     orbUpdates ob1;
          alpha = orbAlpha cfg dt;
          ob3 = smoothOrbs cfg alpha ob2;
          (s1, g1) = applyOrbInfluence cfg bnd project poseBoxesNDC ob3 dt g s;
          (s2, g2) = updatePhysics cfg bnd dt t g1 s1
      in (ob3, s2, g2))"

text \<open>The arrays of the instances all have the length \<open>n\<close>.\<close>

definition wf_balloons :: "nat \<Rightarrow> balloons \<Rightarrow> bool" where
  "wf_balloons n s \<longleftrightarrow>
     length (posX s) = n \<and> length (posY s) = n \<and> length (posZ s) = n \<and>
     length (velX s) = n \<and> length (velY s) = n \<and> length (velZ s) = n \<and>
     length (buoy s) = n \<and> length (iBuoy s) = n"

text \<open>The four arrays of the orbs all have the length \<open>MAX_ORBS\<close>, as allocated.\<close>

definition wf_orbs :: "balloon_config \<Rightarrow> orbs \<Rightarrow> bool" where
  "wf_orbs cfg ob \<longleftrightarrow>
     length (orbPositions ob) = MAX_ORBS cfg \<and> length (orbTargets ob) = MAX_ORBS cfg \<and>
     length (orbBuoy ob) = MAX_ORBS cfg \<and> length (orbTTL ob) = MAX_ORBS cfg"

section \<open>Measurements used in the statements\<close>

text \<open>The distance of two positions, and the velocity of \<open>b\<close> relative to \<open>a\<close> along the
  unit normal from \<open>a\<close> to \<open>b\<close> (negative when the two approach).\<close>

definition dist3 :: "vec3 \<Rightarrow> vec3 \<Rightarrow> real" where
  "dist3 p q = sqrt ((vec_x q - vec_x p) * (vec_x q - vec_x p) +
                     (vec_y q - vec_y p) * (vec_y q - vec_y p) +
                     (vec_z q - vec_z p) * (vec_z q - vec_z p))"

definition normalVelocity :: "lantern \<Rightarrow> lantern \<Rightarrow> real" where
  "normalVelocity a b =
     (vec_x (velocity b) - vec_x (velocity a)) *
       ((vec_x (position b) - vec_x (position a)) / dist3 (position a) (position b)) +
     (vec_y (velocity b) - vec_y (velocity a)) *
       ((vec_y (position b) - vec_y (position a)) / dist3 (position a) (position b)) +
     (vec_z (velocity b) - vec_z (velocity a)) *
       ((vec_z (position b) - vec_z (position a)) / dist3 (position a) (position b))"

text \<open>The unit normal from \<open>p\<close> to \<open>q\<close>, and a vector added to a position or velocity.\<close>

definition unitNormal :: "vec3 \<Rightarrow> vec3 \<Rightarrow> vec3" where
  "unitNormal p q =
     Vector3 ((vec_x q - vec_x p) / dist3 p q)
             ((vec_y q - vec_y p) / dist3 p q)
             ((vec_z q - vec_z p) / dist3 p q)"

definition addScaled :: "vec3 \<Rightarrow> real \<Rightarrow> vec3 \<Rightarrow> vec3" where
  "addScaled p k n =
     Vector3 (vec_x p + k * vec_x n) (vec_y p + k * vec_y n) (vec_z p + k * vec_z n)"

text \<open>Every position of a list lies at a depth between \<open>lo\<close> and \<open>hi\<close>.\<close>

definition depthsWithin :: "real \<Rightarrow> real \<Rightarrow> vec3 list \<Rightarrow> bool" where
  "depthsWithin lo hi ps \<longleftrightarrow> (\<forall>p \<in> set ps. lo \<le> vec_z p \<and> vec_z p \<le> hi)"

section \<open>Concrete inputs\<close>

text \<open>
  A random source that always draws \<open>c\<close>; a lantern as \<open>spawnLantern\<close> makes one, at a
  given position, velocity, buoyancy and hover state (its wobble terms vanish at the time
  \<open>1\<close>, where \<open>sin pi = 0\<close> and \<open>cos (pi / 2) = 0\<close>); and the bounds of the lantern program
  for a view centre at height 5, a visible half-height of 9 and an aspect ratio of 2.
\<close>

definition const_rng :: "real \<Rightarrow> rng" where
  "const_rng c = (\<lambda>k. c)"

definition lanternAt :: "vec3 \<Rightarrow> vec3 \<Rightarrow> real \<Rightarrow> bool \<Rightarrow> lantern" where
  "lanternAt p v b h =
     \<lparr> position = p, rotation_y = 0, velocity = v, buoyancy = b, hovered = h,
       decayRate = 0.4,
       angularVelocity = Some (Vector3 0 0.1 0),
       wobble = Some \<lparr> ampX = 0.5, ampZ = 0.5, speedX = 0.5, speedZ = 0.5,
                        phaseX = pi - 1 / 2, phaseZ = pi / 2 - 1 / 2 \<rparr> \<rparr>"

definition stage_bounds :: bounds where
  "stage_bounds = updateVisibleBounds CONFIG_lantern 5 9 2"

text \<open>
  The typed arrays of the balloon program as they are allocated, filled with zeros, and
  the camera of the balloon program with a focal factor of 2 and an aspect ratio of 16:9.
\<close>

definition allocBalloons :: "nat \<Rightarrow> balloons" where
  "allocBalloons n =
     \<lparr> posX = replicate n 0, posY = replicate n 0, posZ = replicate n 0,
       velX = replicate n 0, velY = replicate n 0, velZ = replicate n 0,
       rotY = replicate n 0, angY = replicate n 0,
       buoy = replicate n 0, decay = replicate n 0,
       wAmpX = replicate n 0, wAmpZ = replicate n 0,
       wSpdX = replicate n 0, wSpdZ = replicate n 0,
       wPhX = replicate n 0, wPhZ = replicate n 0,
       iBuoy = replicate n 0, iPatternType = replicate n 0, iSeed = replicate n 0 \<rparr>"

definition allocOrbs :: "balloon_config \<Rightarrow> orbs" where
  "allocOrbs cfg =
     \<lparr> orbPositions = replicate (MAX_ORBS cfg) (Vector3 0 0 0),
       orbTargets = replicate (MAX_ORBS cfg) (Vector3 0 0 0),
       orbBuoy = replicate (MAX_ORBS cfg) 0,
       orbTTL = replicate (MAX_ORBS cfg) 0 \<rparr>"

text \<open>
  The bounds as \<open>updateVisibleBounds\<close> computes them from the cameras of the two programs,
  for an aspect ratio of the window: the lantern camera looks at the view centre
  \<open>(0, 5, 0)\<close> from a distance of 22 with a field of view of 45 degrees, the balloon camera
  at \<open>(0, 6, 0)\<close> from a distance of 40 with 55 degrees.
\<close>

definition lantern_view_bounds :: "real \<Rightarrow> bounds" where
  "lantern_view_bounds aspect =
     updateVisibleBounds CONFIG_lantern 5 (tan (MathUtils_degToRad 45 / 2) * 22) aspect"

definition balloon_view_bounds :: "real \<Rightarrow> bounds" where
  "balloon_view_bounds aspect =
     updateVisibleBounds CONFIG_balloon 6 (tan (MathUtils_degToRad 55 / 2) * 40) aspect"

definition stage_camera :: "vec3 \<Rightarrow> vec3" where
  "stage_camera = perspectiveProject (Vector3 0 6 40) 2 (16 / 9) 0.1 260"

definition sky_bounds :: bounds where
  "sky_bounds = updateVisibleBounds CONFIG_balloon 6 20 (16 / 9)"

section \<open>Auxiliary facts\<close>

subsection \<open>Random draws, clamps and remainders\<close>

lemma unit_rng_nth: "unit_rng g \<Longrightarrow> 0 \<le> g k \<and> g k < 1"
  by (simp add: unit_rng_def)

lemma unit_rng_drop: "unit_rng g \<Longrightarrow> unit_rng (drop_rng n g)"
  by (simp add: unit_rng_def drop_rng_def)

lemma clamp_bounds: "lo \<le> hi \<Longrightarrow> lo \<le> MathUtils_clamp v lo hi \<and> MathUtils_clamp v lo hi \<le> hi"
  by (simp add: MathUtils_clamp_def)

lemma randFloat_bounds:
  assumes "0 \<le> r" "r < 1" "lo \<le> hi"
  shows "lo \<le> randFloat r lo hi \<and> randFloat r lo hi \<le> hi"
proof -
  have "0 \<le> r * (hi - lo)" using assms by simp
  moreover have "r * (hi - lo) \<le> 1 * (hi - lo)"
    using assms by (intro mult_right_mono) auto
  ultimately show ?thesis by (simp add: randFloat_def)
qed

lemma js_rem_bounds:
  assumes "0 < n"
  shows "- n < js_rem a n \<and> js_rem a n < n"
proof (cases "a < 0")
  case True
  have "0 \<le> (- a) mod n" "(- a) mod n < n" using assms by simp_all
  moreover have "js_rem a n = - ((- a) mod n)" using True assms by (simp add: js_rem_def)
  ultimately show ?thesis using assms by linarith
next
  case False
  have "0 \<le> a mod n" "a mod n < n" using assms by simp_all
  moreover have "js_rem a n = a mod n" using False assms by (simp add: js_rem_def)
  ultimately show ?thesis using assms by linarith
qed

lemma js_rem_nonneg:
  assumes "0 < n" "0 \<le> a"
  shows "0 \<le> js_rem a n \<and> js_rem a n < n"
  using assms by (simp add: js_rem_def)

lemma patternIdx_lower:
  assumes "0 < len"
  shows "- len < patternIdx p d h a len"
  unfolding patternIdx_def Let_def using js_rem_bounds[OF assms] by simp

lemma paletteIndex_range:
  assumes "0 < len"
  shows "0 \<le> paletteIndex p d h a len \<and> paletteIndex p d h a len < len"
proof -
  have "0 \<le> patternIdx p d h a len + len"
    using patternIdx_lower[OF assms, of p d h a] by linarith
  from js_rem_nonneg[OF assms this] show ?thesis by (simp add: paletteIndex_def)
qed

lemma MAX_ORBS_CONFIG: "MAX_ORBS CONFIG_balloon = 29"
  by (simp add: MAX_ORBS_def CONFIG_balloon_def FINGERTIPS_PER_HAND_def)

lemma smoothOrb_fold:
  "n \<le> length (orbPositions ob) \<Longrightarrow>
   orbTTL (fold (smoothOrb alpha) [0 ..< n] ob) = orbTTL ob \<and>
   orbTargets (fold (smoothOrb alpha) [0 ..< n] ob) = orbTargets ob \<and>
   orbBuoy (fold (smoothOrb alpha) [0 ..< n] ob) = orbBuoy ob \<and>
   length (orbPositions (fold (smoothOrb alpha) [0 ..< n] ob)) = length (orbPositions ob) \<and>
   (\<forall>i. orbPositions (fold (smoothOrb alpha) [0 ..< n] ob) ! i =
        (if i < n \<and> orbTTL ob ! i > 0
         then lerp (orbPositions ob ! i) (orbTargets ob ! i) alpha
         else orbPositions ob ! i))"
proof (induction n)
  case 0
  then show ?case by simp
next
  case (Suc n)
  define r where "r = fold (smoothOrb alpha) [0 ..< n] ob"
  have IH: "orbTTL r = orbTTL ob" "orbTargets r = orbTargets ob" "orbBuoy r = orbBuoy ob"
    "length (orbPositions r) = length (orbPositions ob)"
    "\<And>i. orbPositions r ! i =
        (if i < n \<and> orbTTL ob ! i > 0
         then lerp (orbPositions ob ! i) (orbTargets ob ! i) alpha
         else orbPositions ob ! i)"
    using Suc by (simp_all add: r_def)
  have n: "n < length (orbPositions ob)" using Suc.prems by simp
  have step: "fold (smoothOrb alpha) [0 ..< Suc n] ob = smoothOrb alpha n r"
    by (simp add: r_def)
  show ?case
    unfolding step using IH n
    by (auto simp: smoothOrb_def nth_list_update less_Suc_eq)
qed

subsection \<open>Single-precision stores\<close>

lemma pow2_powr: "pow2 e = 2 powr (of_int e)"
  by (simp add: pow2_def powr_int)

lemma pow2_pos: "0 < pow2 e"
  by (simp add: pow2_powr)

lemma pow2_add: "pow2 (a + b) = pow2 a * pow2 b"
  by (simp add: pow2_powr powr_add)

lemma pow2_less_iff: "pow2 a < pow2 b \<longleftrightarrow> a < b"
  by (simp add: pow2_powr)

lemma pow2_le_iff: "pow2 a \<le> pow2 b \<longleftrightarrow> a \<le> b"
  by (simp add: pow2_powr)

lemma fexp_from_eq:
  "e0 \<le> e \<Longrightarrow> e \<le> e0 + int n \<Longrightarrow> pow2 e \<le> a \<Longrightarrow> a < pow2 (e + 1) \<Longrightarrow>
   fexp_from n e0 a = e"
proof (induction n arbitrary: e0)
  case 0
  then show ?case by simp
next
  case (Suc n)
  show ?case
  proof (cases "pow2 (e0 + 1) \<le> a")
    case True
    then have "pow2 (e0 + 1) < pow2 (e + 1)" using Suc.prems(4) by linarith
    then have "e0 + 1 \<le> e" by (simp add: pow2_less_iff)
    then have "fexp_from n (e0 + 1) a = e"
      using Suc.IH[of "e0 + 1"] Suc.prems by simp
    then show ?thesis using True by simp
  next
    case False
    then have "pow2 e < pow2 (e0 + 1)" using Suc.prems(3) by linarith
    then have "e \<le> e0" by (simp add: pow2_less_iff)
    then show ?thesis using False Suc.prems(1) by simp
  qed
qed

lemma fexp_eq:
  "- 126 \<le> e \<Longrightarrow> e \<le> 127 \<Longrightarrow> pow2 e \<le> a \<Longrightarrow> a < pow2 (e + 1) \<Longrightarrow> fexp a = e"
  unfolding fexp_def by (rule fexp_from_eq) simp_all

lemma fexp_from_ge: "e \<le> fexp_from n e a"
proof (induction n arbitrary: e)
  case 0 then show ?case by simp
next
  case (Suc n)
  show ?case using Suc.IH[of "e + 1"] by simp
qed

lemma fexp_from_lb: "pow2 e \<le> a \<Longrightarrow> pow2 (fexp_from n e a) \<le> a"
  by (induction n arbitrary: e) simp_all

lemma fexp_from_ub: "a < pow2 (e + int n + 1) \<Longrightarrow> a < pow2 (fexp_from n e a + 1)"
proof (induction n arbitrary: e)
  case 0 then show ?case by simp
next
  case (Suc n)
  show ?case
  proof (cases "pow2 (e + 1) \<le> a")
    case True
    have "a < pow2 (e + 1 + int n + 1)" using Suc.prems by (simp add: add.commute add.left_commute)
    then show ?thesis using True Suc.IH[of "e + 1"] by simp
  next
    case False then show ?thesis by simp
  qed
qed

lemma fexp_ge: "- 126 \<le> fexp a"
  unfolding fexp_def by (rule fexp_from_ge)

lemma fexp_lb: "pow2 (- 126) \<le> a \<Longrightarrow> pow2 (fexp a) \<le> a"
  unfolding fexp_def by (rule fexp_from_lb)

lemma fexp_ub: "a < pow2 128 \<Longrightarrow> a < pow2 (fexp a + 1)"
  unfolding fexp_def by (rule fexp_from_ub) simp

lemma fexp_sub: "a < pow2 (- 125) \<Longrightarrow> fexp a = - 126"
  unfolding fexp_def by (simp add: numeral_eq_Suc)

lemma rte_err: "\<bar>of_int (roundTiesToEven y) - y\<bar> \<le> 1 / 2"
  unfolding roundTiesToEven_def Let_def by (auto; linarith)

lemma rte_of_int: "roundTiesToEven (of_int n) = n"
  by (simp add: roundTiesToEven_def)

lemma rte_ge: "of_int n \<le> y \<Longrightarrow> n \<le> roundTiesToEven y"
  unfolding roundTiesToEven_def Let_def
  by (auto simp: le_floor_iff; linarith)

lemma rte_le: "y \<le> of_int n \<Longrightarrow> roundTiesToEven y \<le> n"
  unfolding roundTiesToEven_def Let_def
  by (auto; linarith)

lemma rte_zero: "roundTiesToEven 0 = 0"
  using rte_of_int[of 0] by simp

lemma fround_zero: "fround 0 = 0"
  by (simp add: fround_def Let_def rte_zero)

lemma fround_nonneg: "0 \<le> x \<Longrightarrow> 0 \<le> fround x"
proof -
  assume x: "0 \<le> x"
  have "0 \<le> x / pow2 (fexp \<bar>x\<bar> - 23)" using x pow2_pos[of "fexp \<bar>x\<bar> - 23"] by simp
  then have "0 \<le> roundTiesToEven (\<bar>x\<bar> / pow2 (fexp \<bar>x\<bar> - 23))"
    using rte_ge[of 0] x by simp
  then show ?thesis
    using x pow2_pos[of "fexp \<bar>x\<bar> - 23"] by (simp add: fround_def Let_def)
qed

lemma fround_minus: "fround (- x) = - fround x"
  by (cases "x = 0") (auto simp: fround_def Let_def rte_zero)

lemma fround_nonpos: "x \<le> 0 \<Longrightarrow> fround x \<le> 0"
  using fround_nonneg[of "- x"] by (simp add: fround_minus)

lemma fround_abs: "fround \<bar>x\<bar> = \<bar>fround x\<bar>"
  using fround_nonneg[of x] fround_nonpos[of x] fround_minus[of x]
  by (cases "0 \<le> x") (simp_all add: abs_if)

lemma fround_ge_pow2:
  assumes "pow2 (- 126) \<le> x"
  shows "pow2 (fexp x) \<le> fround x"
proof -
  have x0: "0 < x" using assms pow2_pos[of "- 126"] by linarith
  let ?e = "fexp x" and ?q = "pow2 (fexp x - 23)"
  have q: "0 < ?q" by (rule pow2_pos)
  have e: "pow2 ?e \<le> x" using fexp_lb[OF assms] .
  have pe: "pow2 ?e = ?q * 8388608"
    using pow2_add[of "?e - 23" 23] by (simp add: pow2_def)
  then have "of_int 8388608 \<le> x / ?q" using e q by (simp add: field_simps)
  then have "8388608 \<le> roundTiesToEven (x / ?q)" by (rule rte_ge)
  then have "(8388608::real) \<le> of_int (roundTiesToEven (x / ?q))" by linarith
  then have "?q * 8388608 \<le> ?q * of_int (roundTiesToEven (x / ?q))"
    using q by simp
  then show ?thesis using x0 pe by (simp add: fround_def Let_def)
qed

lemma fround_pos: "pow2 (- 126) \<le> x \<Longrightarrow> 0 < fround x"
  using fround_ge_pow2[of x] pow2_pos[of "fexp x"] by linarith

lemma fround_lower:
  assumes "pow2 (- 126) \<le> x"
  shows "x * (1 - 1 / 2 ^ 24) \<le> fround x"
proof -
  have x0: "0 < x" using assms pow2_pos[of "- 126"] by linarith
  let ?e = "fexp x" and ?q = "pow2 (fexp x - 23)"
  have q: "0 < ?q" by (rule pow2_pos)
  have e: "pow2 ?e \<le> x" using fexp_lb[OF assms] .
  have pe: "pow2 ?e = ?q * 2 ^ 23"
    using pow2_add[of "?e - 23" 23] by (simp add: pow2_def)
  have qx: "?q \<le> x / 2 ^ 23" using e pe by (simp add: field_simps)
  have "x / ?q - 1 / 2 \<le> of_int (roundTiesToEven (x / ?q))"
    using rte_err[of "x / ?q"] by linarith
  then have "?q * (x / ?q - 1 / 2) \<le> ?q * of_int (roundTiesToEven (x / ?q))"
    using q by simp
  moreover have "?q * (x / ?q - 1 / 2) = x - ?q / 2"
    using q by (simp add: field_simps)
  moreover have "fround x = ?q * of_int (roundTiesToEven (x / ?q))"
    using x0 by (simp add: fround_def Let_def)
  ultimately have "x - ?q / 2 \<le> fround x"
    by simp
  then show ?thesis using qx by (simp add: field_simps)
qed

lemma fround_upper:
  assumes "pow2 (- 126) \<le> x"
  shows "fround x \<le> x * (1 + 1 / 2 ^ 24)"
proof -
  have x0: "0 < x" using assms pow2_pos[of "- 126"] by linarith
  let ?e = "fexp x" and ?q = "pow2 (fexp x - 23)"
  have q: "0 < ?q" by (rule pow2_pos)
  have e: "pow2 ?e \<le> x" using fexp_lb[OF assms] .
  have pe: "pow2 ?e = ?q * 2 ^ 23"
    using pow2_add[of "?e - 23" 23] by (simp add: pow2_def)
  have qx: "?q \<le> x / 2 ^ 23" using e pe by (simp add: field_simps)
  have "of_int (roundTiesToEven (x / ?q)) \<le> x / ?q + 1 / 2"
    using rte_err[of "x / ?q"] by linarith
  then have "?q * of_int (roundTiesToEven (x / ?q)) \<le> ?q * (x / ?q + 1 / 2)"
    using q by simp
  moreover have "?q * (x / ?q + 1 / 2) = x + ?q / 2"
    using q by (simp add: field_simps)
  moreover have "fround x = ?q * of_int (roundTiesToEven (x / ?q))"
    using x0 by (simp add: fround_def Let_def)
  ultimately have "fround x \<le> x + ?q / 2"
    by simp
  then show ?thesis using qx by (simp add: field_simps)
qed

lemma fround_eval:
  assumes "- 126 \<le> e" "e \<le> 127" "pow2 e \<le> \<bar>x\<bar>" "\<bar>x\<bar> < pow2 (e + 1)"
  shows "fround x = (if x < 0 then - 1 else 1) * (pow2 (e - 23) *
                      of_int (roundTiesToEven (\<bar>x\<bar> / pow2 (e - 23))))"
proof -
  have e: "fexp \<bar>x\<bar> = e" using fexp_eq[OF assms] .
  show ?thesis unfolding fround_def Let_def e by simp
qed

lemma rte_mono: "y1 \<le> y2 \<Longrightarrow> roundTiesToEven y1 \<le> roundTiesToEven y2"
proof (cases "\<lfloor>y1\<rfloor> < \<lfloor>y2\<rfloor>")
  case True
  assume "y1 \<le> y2"
  have "y1 \<le> of_int (\<lfloor>y1\<rfloor> + 1)" by linarith
  then have "roundTiesToEven y1 \<le> \<lfloor>y1\<rfloor> + 1" by (rule rte_le)
  moreover have "\<lfloor>y2\<rfloor> \<le> roundTiesToEven y2" by (rule rte_ge) simp
  ultimately show ?thesis using True by linarith
next
  case False
  assume le: "y1 \<le> y2"
  then have "\<lfloor>y1\<rfloor> \<le> \<lfloor>y2\<rfloor>" by (rule floor_mono)
  then have eq: "\<lfloor>y1\<rfloor> = \<lfloor>y2\<rfloor>" using False by linarith
  show ?thesis
    using le unfolding roundTiesToEven_def Let_def eq by auto
qed

lemma fexp_from_mono: "a \<le> b \<Longrightarrow> fexp_from n e a \<le> fexp_from n e b"
proof (induction n arbitrary: e)
  case 0 then show ?case by simp
next
  case (Suc n)
  show ?case
  proof (cases "pow2 (e + 1) \<le> a")
    case True
    then have "pow2 (e + 1) \<le> b" using Suc.prems by linarith
    then show ?thesis using True Suc.IH[OF Suc.prems, of "e + 1"] by simp
  next
    case False
    have "e \<le> fexp_from (Suc n) e b" by (rule fexp_from_ge)
    then show ?thesis using False by simp
  qed
qed

lemma fexp_mono: "a \<le> b \<Longrightarrow> fexp a \<le> fexp b"
  unfolding fexp_def by (rule fexp_from_mono)

lemma fexp_from_below: "fexp_from n e a < e + int n \<Longrightarrow> a < pow2 (fexp_from n e a + 1)"
proof (induction n arbitrary: e)
  case 0 then show ?case by simp
next
  case (Suc n)
  show ?case
  proof (cases "pow2 (e + 1) \<le> a")
    case True
    then have "fexp_from n (e + 1) a < (e + 1) + int n" using Suc.prems by simp
    then show ?thesis using True Suc.IH[of "e + 1"] by simp
  next
    case False then show ?thesis by simp
  qed
qed

lemma fexp_le: "fexp a \<le> 127"
proof -
  have "fexp_from n e a \<le> e + int n" for n e
  proof (induction n arbitrary: e)
    case 0 then show ?case by simp
  next
    case (Suc n)
    show ?case using Suc.IH[of "e + 1"] by simp
  qed
  from this[of 253 "- 126"] show ?thesis by (simp add: fexp_def)
qed

lemma fexp_below: "fexp a < 127 \<Longrightarrow> a < pow2 (fexp a + 1)"
  unfolding fexp_def using fexp_from_below[of 253 "- 126" a] by simp

lemma fround_le_pow2:
  assumes "0 \<le> x" "x < pow2 (fexp x + 1)"
  shows "fround x \<le> pow2 (fexp x + 1)"
proof -
  let ?q = "pow2 (fexp x - 23)"
  have q: "0 < ?q" by (rule pow2_pos)
  have "pow2 24 = 16777216" by (simp add: pow2_def)
  moreover have "fexp x + 1 = (fexp x - 23) + 24" by simp
  then have "pow2 (fexp x + 1) = ?q * pow2 24" by (simp only: pow2_add)
  ultimately have pe: "pow2 (fexp x + 1) = ?q * 16777216" by simp
  then have "x / ?q \<le> of_int 16777216" using assms(2) q by (simp add: field_simps)
  then have "roundTiesToEven (x / ?q) \<le> 16777216" by (rule rte_le)
  then have "of_int (roundTiesToEven (x / ?q)) \<le> (16777216::real)" by linarith
  then have "?q * of_int (roundTiesToEven (x / ?q)) \<le> ?q * 16777216"
    using q by simp
  then show ?thesis using assms(1) pe by (simp add: fround_def Let_def)
qed

lemma fround_mono_nonneg:
  assumes "0 \<le> x" "x \<le> y"
  shows "fround x \<le> fround y"
proof (cases "fexp x = fexp y")
  case True
  let ?q = "pow2 (fexp y - 23)"
  have q: "0 < ?q" by (rule pow2_pos)
  have "x / ?q \<le> y / ?q" using assms(2) q by (simp add: divide_right_mono)
  then have "roundTiesToEven (x / ?q) \<le> roundTiesToEven (y / ?q)" by (rule rte_mono)
  then have "?q * of_int (roundTiesToEven (x / ?q)) \<le> ?q * of_int (roundTiesToEven (y / ?q))"
    using q by simp
  then show ?thesis using assms True by (simp add: fround_def Let_def)
next
  case False
  then have lt: "fexp x < fexp y" using fexp_mono[OF assms(2)] by linarith
  then have "fexp x < 127" using fexp_le[of y] by linarith
  then have "x < pow2 (fexp x + 1)" by (rule fexp_below)
  then have a: "fround x \<le> pow2 (fexp x + 1)" by (rule fround_le_pow2[OF assms(1)])
  have b: "pow2 (fexp x + 1) \<le> pow2 (fexp y)" using lt by (simp add: pow2_le_iff)
  have "- 126 < fexp y" using lt fexp_ge[of x] by linarith
  have "pow2 (- 126) \<le> y"
  proof (rule ccontr)
    assume "\<not> pow2 (- 126) \<le> y"
    then have "y < pow2 (- 125)" using pow2_less_iff[of "- 126" "- 125"] by linarith
    then have "fexp y = - 126" by (rule fexp_sub)
    then show False using \<open>- 126 < fexp y\<close> by simp
  qed
  then have "pow2 (fexp y) \<le> fround y" by (rule fround_ge_pow2)
  then show ?thesis using a b by linarith
qed

lemma fround_mono: "x \<le> y \<Longrightarrow> fround x \<le> fround y"
proof -
  assume le: "x \<le> y"
  consider "0 \<le> x" | "x < 0" "0 \<le> y" | "y < 0" by linarith
  then show ?thesis
  proof cases
    case 1 then show ?thesis using le by (rule fround_mono_nonneg)
  next
    case 2
    then show ?thesis using fround_nonpos[of x] fround_nonneg[of y] by linarith
  next
    case 3
    then have "fround (- y) \<le> fround (- x)" using le by (intro fround_mono_nonneg) simp_all
    then show ?thesis by (simp add: fround_minus)
  qed
qed

lemma fround_values:
  "fround 1 = 1" "fround (- 18) = - 18" "fround 10 = 10"
  "fround 0.12 = 16106127 / 134217728" "fround 0.01 = 5368709 / 536870912"
  using fround_eval[of 0 1] fround_eval[of 4 "- 18"] fround_eval[of 3 10]
        fround_eval[of "- 4" "0.12"] fround_eval[of "- 7" "0.01"]
  by (simp_all add: pow2_def roundTiesToEven_def Let_def)

lemma pow2_floor: "pow2 (- 126) \<le> 0.01"
  by (simp add: pow2_def)

subsection \<open>One lantern update\<close>

lemma unit_product:
  assumes "0 \<le> (a::real)" "a < 1" "0 \<le> b" "b < 1" "0 \<le> m" "m \<le> 1"
  shows "0 \<le> a * b * m \<and> a * b * m \<le> 1"
proof -
  have "a * b \<le> 1" using assms by (intro mult_le_one) auto
  moreover have "0 \<le> a * b" using assms by simp
  ultimately have "a * b * m \<le> 1" using assms by (intro mult_le_one) auto
  moreover have "0 \<le> a * b * m" using assms by simp
  ultimately show ?thesis by simp
qed

lemma updateBuoyancy_unit:
  "0 \<le> fst (updateBuoyancy cfg bnd dt g h b0 d py) \<and> fst (updateBuoyancy cfg bnd dt g h b0 d py) \<le> 1"
  using clamp_bounds[of 0 1]
  by (simp add: updateBuoyancy_def Let_def split: prod.splits)

lemma updateBuoyancy_rng:
  "unit_rng g \<Longrightarrow> unit_rng (snd (updateBuoyancy cfg bnd dt g h b0 d py))"
  by (auto simp: updateBuoyancy_def Let_def unit_rng_drop split: prod.splits if_splits)

lemma resetLantern_buoyancy:
  assumes "unit_rng g" "0 \<le> initialBuoyancy_maxFactor cfg" "initialBuoyancy_maxFactor cfg \<le> 1"
  shows "0 \<le> buoyancy (fst (resetLantern cfg bnd g l isInitial)) \<and>
         buoyancy (fst (resetLantern cfg bnd g l isInitial)) \<le> 1"
  using unit_product[of "g 6" "g 7" "initialBuoyancy_maxFactor cfg"] unit_rng_nth[OF assms(1)] assms(2,3)
  by (simp add: resetLantern_def Let_def)

lemma resetLantern_rng: "unit_rng g \<Longrightarrow> unit_rng (snd (resetLantern cfg bnd g l isInitial))"
  by (simp add: resetLantern_def Let_def unit_rng_drop)



lemma resetLantern_z:
  assumes "unit_rng g" "zMin bnd \<le> zMax bnd"
  shows "zMin bnd \<le> vec_z (position (fst (resetLantern cfg bnd g l isInitial))) \<and>
         vec_z (position (fst (resetLantern cfg bnd g l isInitial))) \<le> zMax bnd"
  using randFloat_bounds[of "g 2" "zMin bnd" "zMax bnd"] unit_rng_nth[OF assms(1)] assms(2)
  by (simp add: resetLantern_def Let_def)

lemma resetLantern_vy:
  assumes "unit_rng g" "initialVelocity_y_min cfg \<le> initialVelocity_y_max cfg"
  shows "initialVelocity_y_min cfg \<le> vec_y (velocity (fst (resetLantern cfg bnd g l isInitial))) \<and>
         vec_y (velocity (fst (resetLantern cfg bnd g l isInitial))) \<le> initialVelocity_y_max cfg"
  using randFloat_bounds[of "g 4" "initialVelocity_y_min cfg" "initialVelocity_y_max cfg"]
    unit_rng_nth[OF assms(1)] assms(2)
  by (simp add: resetLantern_def Let_def)

lemma integrateLantern_buoyancy: "buoyancy (integrateLantern cfg dt time b l) = b"
  by (simp add: integrateLantern_def Let_def split: prod.splits)

lemma integrateLantern_hovered: "hovered (integrateLantern cfg dt time b l) = hovered l"
  by (simp add: integrateLantern_def Let_def split: prod.splits)

lemma integrateLantern_vy:
  assumes "0 \<le> maxVerticalSpeed cfg"
  shows "\<bar>vec_y (velocity (integrateLantern cfg dt time b l))\<bar> \<le> maxVerticalSpeed cfg"
  using clamp_bounds[of "- maxVerticalSpeed cfg" "maxVerticalSpeed cfg"] assms
  by (simp add: integrateLantern_def Let_def abs_le_iff split: prod.splits) (smt (verit))

lemma bounceDepth_keeps:
  "buoyancy (bounceDepth bnd l) = buoyancy l"
  "hovered (bounceDepth bnd l) = hovered l"
  "vec_y (velocity (bounceDepth bnd l)) = vec_y (velocity l)"
  "vec_y (position (bounceDepth bnd l)) = vec_y (position l)"
  "vec_x (position (bounceDepth bnd l)) = vec_x (position l)"
  by (simp_all add: bounceDepth_def Let_def)

lemma bounceDepth_z:
  "zMin bnd \<le> zMax bnd \<Longrightarrow>
   zMin bnd \<le> vec_z (position (bounceDepth bnd l)) \<and> vec_z (position (bounceDepth bnd l)) \<le> zMax bnd"
  by (simp add: bounceDepth_def Let_def)

text \<open>The two outcomes of one lantern update: recycled or not.\<close>

lemma updateLantern_eq:
  "updateLantern cfg bnd dt time g l =
     (let ub = updateBuoyancy cfg bnd dt g (hovered l) (buoyancy l) (decayRate l) (vec_y (position l));
          l1 = integrateLantern cfg dt time (fst ub) l
      in if outOfBounds bnd (vec_x (position l1)) (vec_y (position l1))
         then (bounceDepth bnd (fst (resetLantern cfg bnd (snd ub) l1 False)),
               snd (resetLantern cfg bnd (snd ub) l1 False))
         else (bounceDepth bnd l1, snd ub))"
  by (simp add: updateLantern_def Let_def split: prod.splits)

lemma updateLantern_rng:
  "unit_rng g \<Longrightarrow> unit_rng (snd (updateLantern cfg bnd dt time g l))"
  by (simp add: updateLantern_eq Let_def resetLantern_rng updateBuoyancy_rng)

lemma updateLantern_buoyancy:
  assumes "unit_rng g" "0 \<le> initialBuoyancy_maxFactor cfg" "initialBuoyancy_maxFactor cfg \<le> 1"
  shows "0 \<le> buoyancy (fst (updateLantern cfg bnd dt time g l)) \<and>
         buoyancy (fst (updateLantern cfg bnd dt time g l)) \<le> 1"
proof -
  let ?ub = "updateBuoyancy cfg bnd dt g (hovered l) (buoyancy l) (decayRate l) (vec_y (position l))"
  let ?l1 = "integrateLantern cfg dt time (fst ?ub) l"
  have g1: "unit_rng (snd ?ub)" using assms(1) by (rule updateBuoyancy_rng)
  have r: "0 \<le> buoyancy (fst (resetLantern cfg bnd (snd ?ub) ?l1 False)) \<and>
           buoyancy (fst (resetLantern cfg bnd (snd ?ub) ?l1 False)) \<le> 1"
    using g1 assms(2,3) by (rule resetLantern_buoyancy)
  have u: "0 \<le> fst ?ub \<and> fst ?ub \<le> 1" by (rule updateBuoyancy_unit)
  show ?thesis
    using r u by (simp add: updateLantern_eq Let_def bounceDepth_keeps integrateLantern_buoyancy)
qed

lemma updateLantern_vy:
  assumes "unit_rng g" "0 \<le> maxVerticalSpeed cfg"
    "- maxVerticalSpeed cfg \<le> initialVelocity_y_min cfg"
    "initialVelocity_y_min cfg \<le> initialVelocity_y_max cfg"
    "initialVelocity_y_max cfg \<le> maxVerticalSpeed cfg"
  shows "\<bar>vec_y (velocity (fst (updateLantern cfg bnd dt time g l)))\<bar> \<le> maxVerticalSpeed cfg"
proof -
  let ?ub = "updateBuoyancy cfg bnd dt g (hovered l) (buoyancy l) (decayRate l) (vec_y (position l))"
  let ?l1 = "integrateLantern cfg dt time (fst ?ub) l"
  have g1: "unit_rng (snd ?ub)" using assms(1) by (rule updateBuoyancy_rng)
  have "initialVelocity_y_min cfg \<le> vec_y (velocity (fst (resetLantern cfg bnd (snd ?ub) ?l1 False))) \<and>
        vec_y (velocity (fst (resetLantern cfg bnd (snd ?ub) ?l1 False))) \<le> initialVelocity_y_max cfg"
    using g1 assms(4) by (rule resetLantern_vy)
  then have r: "\<bar>vec_y (velocity (fst (resetLantern cfg bnd (snd ?ub) ?l1 False)))\<bar> \<le> maxVerticalSpeed cfg"
    using assms(3,5) by (simp add: abs_le_iff)
  have i: "\<bar>vec_y (velocity ?l1)\<bar> \<le> maxVerticalSpeed cfg"
    using assms(2) by (rule integrateLantern_vy)
  show ?thesis
    using r i by (simp add: updateLantern_eq Let_def bounceDepth_keeps)
qed

lemma updateLanterns_inv:
  assumes "\<And>g l. unit_rng g \<Longrightarrow> P (fst (updateLantern cfg bnd dt time g l))"
  shows "unit_rng g \<Longrightarrow> \<forall>l' \<in> set (fst (updateLanterns cfg bnd dt time g ls)). P l'"
proof (induction ls arbitrary: g)
  case Nil
  then show ?case by simp
next
  case (Cons l ls)
  have g1: "unit_rng (snd (updateLantern cfg bnd dt time g l))"
    using Cons.prems by (rule updateLantern_rng)
  show ?case
    using assms[OF Cons.prems, of l] Cons.IH[OF g1]
    by (simp add: Let_def split: prod.splits) (metis fst_conv snd_conv)
qed

subsection \<open>One pair of lanterns\<close>

lemma resolvePair_far:
  assumes "dist3 (position a) (position b) = 0 \<or> minDist \<le> dist3 (position a) (position b)"
  shows "resolvePair minDist e a b = (a, b)"
proof -
  let ?q = "(vec_x (position b) - vec_x (position a)) * (vec_x (position b) - vec_x (position a)) +
            (vec_y (position b) - vec_y (position a)) * (vec_y (position b) - vec_y (position a)) +
            (vec_z (position b) - vec_z (position a)) * (vec_z (position b) - vec_z (position a))"
  have d: "dist3 (position a) (position b) = sqrt ?q" by (simp add: dist3_def)
  from assms show ?thesis
  proof
    assume "dist3 (position a) (position b) = 0"
    then have "?q = 0" unfolding d by simp
    then show ?thesis by (simp add: resolvePair_def Let_def)
  next
    assume "minDist \<le> dist3 (position a) (position b)"
    then have "minDist - sqrt ?q \<le> 0" unfolding d by simp
    then show ?thesis by (simp add: resolvePair_def Let_def)
  qed
qed

lemma contact_conditions:
  fixes a b :: lantern
  defines "q \<equiv> (vec_x (position b) - vec_x (position a)) * (vec_x (position b) - vec_x (position a)) +
            (vec_y (position b) - vec_y (position a)) * (vec_y (position b) - vec_y (position a)) +
            (vec_z (position b) - vec_z (position a)) * (vec_z (position b) - vec_z (position a))"
  assumes "0 < dist3 (position a) (position b)" "dist3 (position a) (position b) < minDist"
  shows "q \<noteq> 0" "\<not> q > minDist * minDist" "\<not> minDist - sqrt q \<le> 0"
proof -
  let ?d = "dist3 (position a) (position b)"
  have d: "?d = sqrt q" by (simp add: dist3_def q_def)
  show "q \<noteq> 0" using assms(2) unfolding d by auto
  have q0: "0 \<le> q" unfolding q_def by (simp add: sum_nonneg)
  have qd: "q = ?d * ?d" unfolding d using q0 by simp
  have "?d * ?d < minDist * minDist" using assms(2,3) by (intro mult_strict_mono) auto
  then show "\<not> q > minDist * minDist" unfolding qd by simp
  show "\<not> minDist - sqrt q \<le> 0" using assms(3) unfolding d by simp
qed

lemma resolvePair_separating:
  assumes "0 < dist3 (position a) (position b)" "dist3 (position a) (position b) < minDist"
    and "0 < normalVelocity a b"
  shows "resolvePair minDist e a b =
     (a\<lparr>position := addScaled (position a) (- ((minDist - dist3 (position a) (position b)) * 0.5))
                       (unitNormal (position a) (position b))\<rparr>,
      b\<lparr>position := addScaled (position b) ((minDist - dist3 (position a) (position b)) * 0.5)
                       (unitNormal (position a) (position b))\<rparr>)"
  using contact_conditions[OF assms(1,2)] assms(3)
  unfolding resolvePair_def Let_def normalVelocity_def dist3_def addScaled_def unitNormal_def
  by (simp add: mult_ac)

lemma resolvePair_approaching_raw:
  assumes "0 < dist3 (position a) (position b)" "dist3 (position a) (position b) < minDist"
    and "\<not> 0 < normalVelocity a b"
  shows "resolvePair minDist e a b =
     (a\<lparr>position := addScaled (position a) (- ((minDist - dist3 (position a) (position b)) * 0.5))
                       (unitNormal (position a) (position b)),
        velocity := addScaled (velocity a) (- (- (1 + e) * normalVelocity a b * 0.5))
                       (unitNormal (position a) (position b))\<rparr>,
      b\<lparr>position := addScaled (position b) ((minDist - dist3 (position a) (position b)) * 0.5)
                       (unitNormal (position a) (position b)),
        velocity := addScaled (velocity b) (- (1 + e) * normalVelocity a b * 0.5)
                       (unitNormal (position a) (position b))\<rparr>)"
  using contact_conditions[OF assms(1,2)] assms(3)
  unfolding resolvePair_def Let_def normalVelocity_def dist3_def addScaled_def unitNormal_def
  by (simp add: mult_ac)

lemma resolvePair_approaching:
  assumes "0 < dist3 (position a) (position b)" "dist3 (position a) (position b) < minDist"
    and "normalVelocity a b \<le> 0"
  shows "resolvePair minDist e a b =
     (a\<lparr>position := addScaled (position a) (- ((minDist - dist3 (position a) (position b)) * 0.5))
                       (unitNormal (position a) (position b)),
        velocity := addScaled (velocity a) (- ((1 + e) * \<bar>normalVelocity a b\<bar> * 0.5))
                       (unitNormal (position a) (position b))\<rparr>,
      b\<lparr>position := addScaled (position b) ((minDist - dist3 (position a) (position b)) * 0.5)
                       (unitNormal (position a) (position b)),
        velocity := addScaled (velocity b) ((1 + e) * \<bar>normalVelocity a b\<bar> * 0.5)
                       (unitNormal (position a) (position b))\<rparr>)"
proof -
  have j: "(1 + e) * \<bar>normalVelocity a b\<bar> * 0.5 = - (1 + e) * normalVelocity a b * 0.5"
    using assms(3) by (simp add: algebra_simps)
  have nv: "\<not> 0 < normalVelocity a b" using assms(3) by simp
  show ?thesis
    unfolding j by (rule resolvePair_approaching_raw[OF assms(1,2) nv])
qed


lemma dist3_sq:
  "dist3 p q * dist3 p q =
     (vec_x q - vec_x p) * (vec_x q - vec_x p) + (vec_y q - vec_y p) * (vec_y q - vec_y p) +
     (vec_z q - vec_z p) * (vec_z q - vec_z p)"
  by (simp add: dist3_def sum_nonneg)

lemma pushed_diff:
  assumes "0 < dist3 p q"
  shows "(c + h * ((c - c') / dist3 p q)) - (c' + (- h) * ((c - c') / dist3 p q))
         = (c - c') * ((dist3 p q + 2 * h) / dist3 p q)"
  using assms by (simp add: field_simps)

lemma pushed_apart:
  assumes d: "0 < dist3 p q" and m: "dist3 p q < m"
  shows "dist3 (addScaled p (- ((m - dist3 p q) * 0.5)) (unitNormal p q))
               (addScaled q ((m - dist3 p q) * 0.5) (unitNormal p q)) = m"
    and "unitNormal (addScaled p (- ((m - dist3 p q) * 0.5)) (unitNormal p q))
                    (addScaled q ((m - dist3 p q) * 0.5) (unitNormal p q)) = unitNormal p q"
proof -
  let ?d = "dist3 p q"
  let ?h = "(m - ?d) * 0.5"
  let ?p' = "addScaled p (- ?h) (unitNormal p q)"
  let ?q' = "addScaled q ?h (unitNormal p q)"
  have d0: "?d \<noteq> 0" using d by simp
  have x: "vec_x ?q' - vec_x ?p' = (vec_x q - vec_x p) * (m / ?d)"
    using d0 by (simp add: addScaled_def unitNormal_def field_simps)
  have y: "vec_y ?q' - vec_y ?p' = (vec_y q - vec_y p) * (m / ?d)"
    using d0 by (simp add: addScaled_def unitNormal_def field_simps)
  have z: "vec_z ?q' - vec_z ?p' = (vec_z q - vec_z p) * (m / ?d)"
    using d0 by (simp add: addScaled_def unitNormal_def field_simps)
  have alg: "(A * k) * (A * k) + (B * k) * (B * k) + (C * k) * (C * k)
             = (A * A + B * B + C * C) * (k * k)" for A B C k :: real
    by (simp add: algebra_simps)
  have "dist3 ?p' ?q' * dist3 ?p' ?q' = (?d * ?d) * ((m / ?d) * (m / ?d))"
    unfolding dist3_sq[of ?p' ?q'] x y z dist3_sq[of p q] by (rule alg)
  also have "\<dots> = m * m" using d by simp
  finally have sq: "dist3 ?p' ?q' * dist3 ?p' ?q' = m * m" .
  have nn: "0 \<le> dist3 ?p' ?q'" by (simp add: dist3_def sum_nonneg)
  have mp: "0 < m" using d m by linarith
  have "(dist3 ?p' ?q' - m) * (dist3 ?p' ?q' + m) = 0" using sq by (simp add: algebra_simps)
  then show D: "dist3 ?p' ?q' = m" using nn mp by auto
  show "unitNormal ?p' ?q' = unitNormal p q"
    unfolding unitNormal_def[of ?p' ?q'] x y z D using mp d by (simp add: unitNormal_def)
qed

lemma unitNormal_unit:
  assumes "0 < dist3 p q"
  shows "vec_x (unitNormal p q) * vec_x (unitNormal p q) +
         vec_y (unitNormal p q) * vec_y (unitNormal p q) +
         vec_z (unitNormal p q) * vec_z (unitNormal p q) = 1"
proof -
  have "vec_x (unitNormal p q) * vec_x (unitNormal p q) +
         vec_y (unitNormal p q) * vec_y (unitNormal p q) +
         vec_z (unitNormal p q) * vec_z (unitNormal p q)
        = ((vec_x q - vec_x p) * (vec_x q - vec_x p) + (vec_y q - vec_y p) * (vec_y q - vec_y p) +
           (vec_z q - vec_z p) * (vec_z q - vec_z p)) / (dist3 p q * dist3 p q)"
    by (simp add: unitNormal_def add_divide_distrib)
  also have "\<dots> = 1" unfolding dist3_sq[symmetric] using assms by simp
  finally show ?thesis .
qed

lemma normalVelocity_unitNormal:
  "normalVelocity a b =
     (vec_x (velocity b) - vec_x (velocity a)) * vec_x (unitNormal (position a) (position b)) +
     (vec_y (velocity b) - vec_y (velocity a)) * vec_y (unitNormal (position a) (position b)) +
     (vec_z (velocity b) - vec_z (velocity a)) * vec_z (unitNormal (position a) (position b))"
  by (simp add: normalVelocity_def unitNormal_def)

lemma impulse_normalVelocity:
  assumes d: "0 < dist3 (position a) (position b)" and m: "dist3 (position a) (position b) < m"
  defines "n \<equiv> unitNormal (position a) (position b)"
  defines "h \<equiv> (m - dist3 (position a) (position b)) * 0.5"
  shows "normalVelocity
           (a\<lparr>position := addScaled (position a) (- h) n, velocity := addScaled (velocity a) (- j) n\<rparr>)
           (b\<lparr>position := addScaled (position b) h n, velocity := addScaled (velocity b) j n\<rparr>)
         = normalVelocity a b + 2 * j"
proof -
  have n': "unitNormal (addScaled (position a) (- h) n) (addScaled (position b) h n) = n"
    unfolding n_def h_def using d m by (rule pushed_apart(2))
  have u: "vec_x n * vec_x n + vec_y n * vec_y n + vec_z n * vec_z n = 1"
    unfolding n_def using d by (rule unitNormal_unit)
  have "normalVelocity
           (a\<lparr>position := addScaled (position a) (- h) n, velocity := addScaled (velocity a) (- j) n\<rparr>)
           (b\<lparr>position := addScaled (position b) h n, velocity := addScaled (velocity b) j n\<rparr>)
        = (vec_x (addScaled (velocity b) j n) - vec_x (addScaled (velocity a) (- j) n)) * vec_x n +
          (vec_y (addScaled (velocity b) j n) - vec_y (addScaled (velocity a) (- j) n)) * vec_y n +
          (vec_z (addScaled (velocity b) j n) - vec_z (addScaled (velocity a) (- j) n)) * vec_z n"
    by (simp add: normalVelocity_unitNormal n')
  also have "\<dots> = normalVelocity a b +
                 2 * j * (vec_x n * vec_x n + vec_y n * vec_y n + vec_z n * vec_z n)"
    by (simp add: normalVelocity_unitNormal n_def[symmetric] addScaled_def algebra_simps)
  finally show ?thesis unfolding u by simp
qed

subsection \<open>The loops over the instances\<close>

lemma fold_upt_invariant:
  assumes base: "P 0 st"
    and step: "\<And>i st. i < n \<Longrightarrow> P i st \<Longrightarrow> P (Suc i) (f i st)"
  shows "P n (fold f [0 ..< n] st)"
proof -
  have "k \<le> n \<Longrightarrow> P k (fold f [0 ..< k] st)" for k
  proof (induction k)
    case 0
    then show ?case using base by simp
  next
    case (Suc k)
    then have "P k (fold f [0 ..< k] st)" by simp
    moreover have "k < n" using Suc.prems by simp
    ultimately have "P (Suc k) (f k (fold f [0 ..< k] st))" using step by blast
    then show ?case by simp
  qed
  then show ?thesis by simp
qed

lemma resetInstance_fields:
  "posX (fst (resetInstance cfg bnd g s i b)) = (posX s)[i := randFloatSpread (g 0) (xVisible bnd * 2)]"
  "posY (fst (resetInstance cfg bnd g s i b)) =
     (posY s)[i := randFloat (g 1) (if b then yOffBottom bnd else yMax bnd + 2) (ySpawnTop bnd)]"
  "posZ (fst (resetInstance cfg bnd g s i b)) =
     (posZ s)[i := fround (randFloat (g 2) (zMin bnd) (zMax bnd))]"
  "velX (fst (resetInstance cfg bnd g s i b)) =
     (velX s)[i := randFloatSpread (g 3) (initialVelocity_x_spread cfg)]"
  "velY (fst (resetInstance cfg bnd g s i b)) =
     (velY s)[i := randFloat (g 4) (initialVelocity_y_min cfg) (initialVelocity_y_max cfg)]"
  "velZ (fst (resetInstance cfg bnd g s i b)) =
     (velZ s)[i := fround (randFloatSpread (g 5) (initialVelocity_z_spread cfg))]"
  "buoy (fst (resetInstance cfg bnd g s i b)) = (buoy s)[i := g 6 * g 7 * initialBuoyancy_maxFactor cfg]"
  "iBuoy (fst (resetInstance cfg bnd g s i b)) = (iBuoy s)[i := g 6 * g 7 * initialBuoyancy_maxFactor cfg]"
  "snd (resetInstance cfg bnd g s i b) = drop_rng 20 g"
  by (simp_all add: resetInstance_def Let_def)

lemma integrateInstance_fields:
  "buoy (integrateInstance cfg dt t i s) = buoy s"
  "iBuoy (integrateInstance cfg dt t i s) = iBuoy s"
  "velY (integrateInstance cfg dt t i s) =
     (velY s)[i := MathUtils_clamp ((velY s ! i + (gravity cfg + liftStrength cfg * buoy s ! i) * dt)
                                     * verticalDrag cfg)
                                   (- maxVerticalSpeed cfg) (maxVerticalSpeed cfg)]"
  "length (posX (integrateInstance cfg dt t i s)) = length (posX s)"
  "length (posY (integrateInstance cfg dt t i s)) = length (posY s)"
  "length (posZ (integrateInstance cfg dt t i s)) = length (posZ s)"
  "length (velX (integrateInstance cfg dt t i s)) = length (velX s)"
  "length (velZ (integrateInstance cfg dt t i s)) = length (velZ s)"
  by (simp_all add: integrateInstance_def Let_def)

lemma depthWalls_fields:
  "buoy (depthWalls bnd i s) = buoy s"
  "iBuoy (depthWalls bnd i s) = iBuoy s"
  "velY (depthWalls bnd i s) = velY s"
  "velX (depthWalls bnd i s) = velX s"
  "posX (depthWalls bnd i s) = posX s"
  "posY (depthWalls bnd i s) = posY s"
  "length (posZ (depthWalls bnd i s)) = length (posZ s)"
  "length (velZ (depthWalls bnd i s)) = length (velZ s)"
  by (simp_all add: depthWalls_def)

lemma updatePhysics_step_eq:
  "updatePhysics_step cfg bnd dt t i s g =
     (let s1 = integrateInstance cfg dt t i s
      in if outOfBounds bnd (posX s1 ! i) (posY s1 ! i)
         then (depthWalls bnd i (fst (resetInstance cfg bnd g s1 i False)), drop_rng 20 g)
         else (depthWalls bnd i s1, g))"
  by (cases "outOfBounds bnd (posX (integrateInstance cfg dt t i s) ! i)
                             (posY (integrateInstance cfg dt t i s) ! i)")
     (simp_all add: updatePhysics_step_def Let_def case_prod_beta resetInstance_fields)

lemma wf_balloons_steps:
  "wf_balloons n s \<Longrightarrow> wf_balloons n (fst (resetInstance cfg bnd g s i b))"
  "wf_balloons n s \<Longrightarrow> wf_balloons n (integrateInstance cfg dt t i s)"
  "wf_balloons n s \<Longrightarrow> wf_balloons n (depthWalls bnd i s)"
  by (simp_all add: wf_balloons_def resetInstance_fields integrateInstance_fields depthWalls_fields)

lemma updatePhysics_step_wf:
  "wf_balloons n s \<Longrightarrow> wf_balloons n (fst (updatePhysics_step cfg bnd dt t i s g))"
  by (simp add: updatePhysics_step_eq Let_def wf_balloons_steps)

lemma updatePhysics_step_rng:
  "unit_rng g \<Longrightarrow> unit_rng (snd (updatePhysics_step cfg bnd dt t i s g))"
  by (simp add: updatePhysics_step_eq Let_def unit_rng_drop)

lemma applyOrbInfluence_step_fields:
  "buoy (fst (applyOrbInfluence_step cfg bnd project boxes ob dt i s g)) =
     (buoy s)[i := fst (updateBuoyancy cfg bnd dt g
                          (hoverTest cfg project boxes ob (Vector3 (posX s ! i) (posY s ! i) (posZ s ! i)))
                          (buoy s ! i) (decay s ! i) (posY s ! i))]"
  "iBuoy (fst (applyOrbInfluence_step cfg bnd project boxes ob dt i s g)) =
     (iBuoy s)[i := fst (updateBuoyancy cfg bnd dt g
                          (hoverTest cfg project boxes ob (Vector3 (posX s ! i) (posY s ! i) (posZ s ! i)))
                          (buoy s ! i) (decay s ! i) (posY s ! i))]"
  "snd (applyOrbInfluence_step cfg bnd project boxes ob dt i s g) =
     snd (updateBuoyancy cfg bnd dt g
            (hoverTest cfg project boxes ob (Vector3 (posX s ! i) (posY s ! i) (posZ s ! i)))
            (buoy s ! i) (decay s ! i) (posY s ! i))"
  "posX (fst (applyOrbInfluence_step cfg bnd project boxes ob dt i s g)) = posX s"
  "posY (fst (applyOrbInfluence_step cfg bnd project boxes ob dt i s g)) = posY s"
  "posZ (fst (applyOrbInfluence_step cfg bnd project boxes ob dt i s g)) = posZ s"
  "velX (fst (applyOrbInfluence_step cfg bnd project boxes ob dt i s g)) = velX s"
  "velY (fst (applyOrbInfluence_step cfg bnd project boxes ob dt i s g)) = velY s"
  "velZ (fst (applyOrbInfluence_step cfg bnd project boxes ob dt i s g)) = velZ s"
  by (simp_all add: applyOrbInfluence_step_def Let_def split: prod.splits)

lemma applyOrbInfluence_step_wf:
  "wf_balloons n s \<Longrightarrow> wf_balloons n (fst (applyOrbInfluence_step cfg bnd project boxes ob dt i s g))"
  by (simp add: wf_balloons_def applyOrbInfluence_step_fields)

text \<open>After the loop every buoyancy is in the unit interval and mirrored in \<open>iBuoy\<close>.\<close>

lemma applyOrbInfluence_unit:
  assumes "wf_balloons (count cfg) s" "unit_rng g"
  shows "wf_balloons (count cfg) (fst (applyOrbInfluence cfg bnd project boxes ob dt g s)) \<and>
         unit_rng (snd (applyOrbInfluence cfg bnd project boxes ob dt g s)) \<and>
         (\<forall>i < count cfg.
            0 \<le> buoy (fst (applyOrbInfluence cfg bnd project boxes ob dt g s)) ! i \<and>
            buoy (fst (applyOrbInfluence cfg bnd project boxes ob dt g s)) ! i \<le> 1 \<and>
            iBuoy (fst (applyOrbInfluence cfg bnd project boxes ob dt g s)) ! i =
              buoy (fst (applyOrbInfluence cfg bnd project boxes ob dt g s)) ! i)"
proof -
  let ?f = "\<lambda>i (s1, g1). applyOrbInfluence_step cfg bnd project boxes ob dt i s1 g1"
  let ?P = "\<lambda>k st. wf_balloons (count cfg) (fst st) \<and> unit_rng (snd st) \<and>
                     (\<forall>i < k. 0 \<le> buoy (fst st) ! i \<and> buoy (fst st) ! i \<le> 1 \<and>
                               iBuoy (fst st) ! i = buoy (fst st) ! i)"
  have "?P (count cfg) (fold ?f [0 ..< count cfg] (s, g))"
  proof (rule fold_upt_invariant[where P = ?P and f = ?f and n = "count cfg"])
    show "?P 0 (s, g)" using assms by simp
  next
    fix i st
    assume i: "i < count cfg" and P: "?P i st"
    obtain s1 g1 where st: "st = (s1, g1)" by (cases st)
    have wf: "wf_balloons (count cfg) s1" and g1: "unit_rng g1" using P st by simp_all
    have len: "length (buoy s1) = count cfg" "length (iBuoy s1) = count cfg"
      using wf by (simp_all add: wf_balloons_def)
    show "?P (Suc i) (?f i st)"
      using P i len g1
      by (auto simp: st applyOrbInfluence_step_fields applyOrbInfluence_step_wf nth_list_update
                     less_Suc_eq updateBuoyancy_unit updateBuoyancy_rng)
  qed
  then show ?thesis by (simp add: applyOrbInfluence_def)
qed


lemma updatePhysics_invariant:
  assumes wf: "wf_balloons (count cfg) s" and g: "unit_rng g"
    and base: "\<forall>i < count cfg. I s i"
    and keep: "\<And>i j s g. i < count cfg \<Longrightarrow> j < count cfg \<Longrightarrow> wf_balloons (count cfg) s \<Longrightarrow>
                 unit_rng g \<Longrightarrow> I s j \<Longrightarrow> I (fst (updatePhysics_step cfg bnd dt t i s g)) j"
    and est: "\<And>i s g. i < count cfg \<Longrightarrow> wf_balloons (count cfg) s \<Longrightarrow> unit_rng g \<Longrightarrow>
                 Q (fst (updatePhysics_step cfg bnd dt t i s g)) i"
    and frame: "\<And>i j s g. i < count cfg \<Longrightarrow> j < i \<Longrightarrow> wf_balloons (count cfg) s \<Longrightarrow>
                 unit_rng g \<Longrightarrow> Q s j \<Longrightarrow> Q (fst (updatePhysics_step cfg bnd dt t i s g)) j"
  shows "wf_balloons (count cfg) (fst (updatePhysics cfg bnd dt t g s)) \<and>
         unit_rng (snd (updatePhysics cfg bnd dt t g s)) \<and>
         (\<forall>i < count cfg. I (fst (updatePhysics cfg bnd dt t g s)) i \<and>
                           Q (fst (updatePhysics cfg bnd dt t g s)) i)"
proof -
  let ?f = "\<lambda>i (s1, g1). updatePhysics_step cfg bnd dt t i s1 g1"
  let ?P = "\<lambda>k st. wf_balloons (count cfg) (fst st) \<and> unit_rng (snd st) \<and>
                     (\<forall>i < count cfg. I (fst st) i) \<and> (\<forall>i < k. Q (fst st) i)"
  have "?P (count cfg) (fold ?f [0 ..< count cfg] (s, g))"
  proof (rule fold_upt_invariant[where P = ?P and f = ?f and n = "count cfg"])
    show "?P 0 (s, g)" using wf g base by simp
  next
    fix i st
    assume i: "i < count cfg" and P: "?P i st"
    obtain s1 g1 where st: "st = (s1, g1)" by (cases st)
    have wf1: "wf_balloons (count cfg) s1" and g1: "unit_rng g1"
      and I1: "\<forall>j < count cfg. I s1 j" and Q1: "\<forall>j < i. Q s1 j"
      using P st by simp_all
    have "wf_balloons (count cfg) (fst (updatePhysics_step cfg bnd dt t i s1 g1))"
      using wf1 by (rule updatePhysics_step_wf)
    moreover have "unit_rng (snd (updatePhysics_step cfg bnd dt t i s1 g1))"
      using g1 by (rule updatePhysics_step_rng)
    moreover have "\<forall>j < count cfg. I (fst (updatePhysics_step cfg bnd dt t i s1 g1)) j"
      using keep[OF i _ wf1 g1] I1 by blast
    moreover have "\<forall>j < Suc i. Q (fst (updatePhysics_step cfg bnd dt t i s1 g1)) j"
      using est[OF i wf1 g1] frame[OF i _ wf1 g1] Q1 by (auto simp: less_Suc_eq)
    ultimately show "?P (Suc i) (?f i st)" by (simp add: st)
  qed
  then show ?thesis by (simp add: updatePhysics_def)
qed

lemma updatePhysics_step_velY:
  assumes i: "i < n" and wf: "wf_balloons n s" and g: "unit_rng g"
    and cfg: "0 \<le> maxVerticalSpeed cfg" "- maxVerticalSpeed cfg \<le> initialVelocity_y_min cfg"
      "initialVelocity_y_min cfg \<le> initialVelocity_y_max cfg"
      "initialVelocity_y_max cfg \<le> maxVerticalSpeed cfg"
  shows "\<bar>velY (fst (updatePhysics_step cfg bnd dt t i s g)) ! i\<bar> \<le> maxVerticalSpeed cfg"
proof -
  have len: "i < length (velY s)" using i wf by (simp add: wf_balloons_def)
  have r: "\<bar>randFloat (g 4) (initialVelocity_y_min cfg) (initialVelocity_y_max cfg)\<bar>
             \<le> maxVerticalSpeed cfg"
    using randFloat_bounds[of "g 4" "initialVelocity_y_min cfg" "initialVelocity_y_max cfg"]
      unit_rng_nth[OF g, of 4] cfg by (simp add: abs_le_iff)
  have c: "\<bar>MathUtils_clamp v (- maxVerticalSpeed cfg) (maxVerticalSpeed cfg)\<bar> \<le> maxVerticalSpeed cfg"
    for v
    using clamp_bounds[of "- maxVerticalSpeed cfg" "maxVerticalSpeed cfg" v] cfg(1)
    by (simp add: abs_le_iff)
  show ?thesis
    using len r c
    by (simp add: updatePhysics_step_eq Let_def depthWalls_fields resetInstance_fields
                  integrateInstance_fields)
qed

lemma updatePhysics_step_velY_other:
  "j \<noteq> i \<Longrightarrow> velY (fst (updatePhysics_step cfg bnd dt t i s g)) ! j = velY s ! j"
  by (simp add: updatePhysics_step_eq Let_def depthWalls_fields resetInstance_fields
                integrateInstance_fields)

lemma updatePhysics_step_buoy:
  assumes j: "j < n" and wf: "wf_balloons n s" and g: "unit_rng g"
    and cfg: "0 \<le> initialBuoyancy_maxFactor cfg" "initialBuoyancy_maxFactor cfg \<le> 1"
    and b: "0 \<le> buoy s ! j \<and> buoy s ! j \<le> 1 \<and> iBuoy s ! j = buoy s ! j"
  shows "0 \<le> buoy (fst (updatePhysics_step cfg bnd dt t i s g)) ! j \<and>
         buoy (fst (updatePhysics_step cfg bnd dt t i s g)) ! j \<le> 1 \<and>
         iBuoy (fst (updatePhysics_step cfg bnd dt t i s g)) ! j =
           buoy (fst (updatePhysics_step cfg bnd dt t i s g)) ! j"
proof -
  have len: "j < length (buoy s)" "j < length (iBuoy s)" using j wf by (simp_all add: wf_balloons_def)
  have u: "0 \<le> g 6 * g 7 * initialBuoyancy_maxFactor cfg \<and>
           g 6 * g 7 * initialBuoyancy_maxFactor cfg \<le> 1"
    using unit_product[of "g 6" "g 7" "initialBuoyancy_maxFactor cfg"] unit_rng_nth[OF g] cfg
    by simp
  show ?thesis
    using len u b
    by (cases "i = j")
       (simp_all add: updatePhysics_step_eq Let_def depthWalls_fields resetInstance_fields
                      integrateInstance_fields)
qed

subsection \<open>Buoyancy through the collision pass and the initial fill\<close>

lemma map_update_same: "(map f xs)[i := f (xs ! i)] = map f xs"
  by (cases "i < length xs") (simp_all add: list_update_same_conv list_update_beyond)

lemma resolvePair_buoyancy:
  "buoyancy (fst (resolvePair m e a b)) = buoyancy a \<and>
   buoyancy (snd (resolvePair m e a b)) = buoyancy b"
  by (simp add: resolvePair_def Let_def)

lemma collidePair_buoyancy: "map buoyancy (collidePair m e i j ls) = map buoyancy ls"
proof -
  obtain a b where r: "resolvePair m e (ls ! i) (ls ! j) = (a, b)" by (cases "resolvePair m e (ls ! i) (ls ! j)")
  have ab: "buoyancy a = buoyancy (ls ! i)" "buoyancy b = buoyancy (ls ! j)"
    using resolvePair_buoyancy[of m e "ls ! i" "ls ! j"] r by simp_all
  have "map buoyancy (ls[i := a, j := b]) = ((map buoyancy ls)[i := buoyancy (ls ! i)])[j := buoyancy (ls ! j)]"
    by (simp add: map_update ab)
  also have "\<dots> = map buoyancy ls"
    by (simp add: map_update_same)
  finally show ?thesis by (simp add: collidePair_def r)
qed

lemma fold_keeps:
  assumes "\<And>x s. h (f x s) = h s"
  shows "h (fold f xs s) = h s"
  using assms by (induction xs arbitrary: s) simp_all

lemma collideAll_buoyancy: "map buoyancy (collideAll m e ls) = map buoyancy ls"
proof -
  have inner: "map buoyancy (fold (collidePair m e i) js ls1) = map buoyancy ls1" for i js ls1
    by (rule fold_keeps) (rule collidePair_buoyancy)
  have "map buoyancy (fold (\<lambda>i ls1. fold (collidePair m e i) [i + 1 ..< length ls1] ls1) is ls)
        = map buoyancy ls" for "is"
    by (rule fold_keeps) (rule inner)
  then show ?thesis by (simp add: collideAll_def)
qed

lemma handleCollisions_buoyancy:
  "l' \<in> set (handleCollisions cfg ls) \<Longrightarrow> \<exists>l \<in> set ls. buoyancy l' = buoyancy l"
proof -
  assume "l' \<in> set (handleCollisions cfg ls)"
  then have "buoyancy l' \<in> set (map buoyancy (handleCollisions cfg ls))" by simp
  then have "buoyancy l' \<in> set (map buoyancy ls)"
    by (simp only: handleCollisions_def Let_def collideAll_buoyancy)
  then show ?thesis by auto
qed

lemma initialFill_unit:
  assumes wf: "wf_balloons (count cfg) s" and g: "unit_rng g"
    and cfg: "0 \<le> initialBuoyancy_maxFactor cfg" "initialBuoyancy_maxFactor cfg \<le> 1"
  shows "\<forall>i < count cfg. 0 \<le> buoy (fst (initialFill cfg bnd g s)) ! i \<and>
                           buoy (fst (initialFill cfg bnd g s)) ! i \<le> 1"
proof -
  let ?f = "\<lambda>i (s1, g1). resetInstance cfg bnd g1 s1 i True"
  let ?P = "\<lambda>k st. wf_balloons (count cfg) (fst st) \<and> unit_rng (snd st) \<and>
                     (\<forall>i < k. 0 \<le> buoy (fst st) ! i \<and> buoy (fst st) ! i \<le> 1)"
  have "?P (count cfg) (fold ?f [0 ..< count cfg] (s, g))"
  proof (rule fold_upt_invariant[where P = ?P and f = ?f and n = "count cfg"])
    show "?P 0 (s, g)" using wf g by simp
  next
    fix i st
    assume i: "i < count cfg" and P: "?P i st"
    obtain s1 g1 where st: "st = (s1, g1)" by (cases st)
    have wf1: "wf_balloons (count cfg) s1" and g1: "unit_rng g1" using P st by simp_all
    have len: "length (buoy s1) = count cfg" using wf1 by (simp add: wf_balloons_def)
    have u: "0 \<le> g1 6 * g1 7 * initialBuoyancy_maxFactor cfg \<and>
             g1 6 * g1 7 * initialBuoyancy_maxFactor cfg \<le> 1"
      using unit_product[of "g1 6" "g1 7" "initialBuoyancy_maxFactor cfg"] unit_rng_nth[OF g1] cfg
      by simp
    show "?P (Suc i) (?f i st)"
      using P i len g1 u
      by (auto simp: st resetInstance_fields wf_balloons_steps nth_list_update less_Suc_eq
                     unit_rng_drop)
  qed
  then show ?thesis by (simp add: initialFill_def)
qed

subsection \<open>Vertical speed; a frame with two lanterns\<close>

lemma updatePhysics_velY:
  assumes wf: "wf_balloons (count cfg) s" and g: "unit_rng g"
    and cfg: "0 \<le> maxVerticalSpeed cfg" "- maxVerticalSpeed cfg \<le> initialVelocity_y_min cfg"
      "initialVelocity_y_min cfg \<le> initialVelocity_y_max cfg"
      "initialVelocity_y_max cfg \<le> maxVerticalSpeed cfg"
  shows "\<forall>i < count cfg. \<bar>velY (fst (updatePhysics cfg bnd dt t g s)) ! i\<bar> \<le> maxVerticalSpeed cfg"
proof -
  let ?Q = "\<lambda>s i. \<bar>velY s ! i\<bar> \<le> maxVerticalSpeed cfg"
  have "wf_balloons (count cfg) (fst (updatePhysics cfg bnd dt t g s)) \<and>
        unit_rng (snd (updatePhysics cfg bnd dt t g s)) \<and>
        (\<forall>i < count cfg. True \<and> ?Q (fst (updatePhysics cfg bnd dt t g s)) i)"
  proof (rule updatePhysics_invariant[where I = "\<lambda>s i. True" and Q = ?Q, OF wf g])
    fix i s' g'
    assume "i < count cfg" "wf_balloons (count cfg) s'" "unit_rng g'"
    then show "?Q (fst (updatePhysics_step cfg bnd dt t i s' g')) i"
      using cfg by (rule updatePhysics_step_velY)
  next
    fix i j :: nat and s' :: balloons and g' :: rng
    assume "j < i" "?Q s' j"
    then show "?Q (fst (updatePhysics_step cfg bnd dt t i s' g')) j"
      by (simp add: updatePhysics_step_velY_other)
  qed simp_all
  then show ?thesis by simp
qed

lemma speed_config:
  "maxVerticalSpeed CONFIG_lantern = 4" "initialVelocity_y_min CONFIG_lantern = - 0.9"
  "initialVelocity_y_max CONFIG_lantern = - 0.1"
  "maxVerticalSpeed CONFIG_balloon = 5.6" "initialVelocity_y_min CONFIG_balloon = - 0.48"
  "initialVelocity_y_max CONFIG_balloon = - 0.06"
  by (simp_all add: CONFIG_lantern_def CONFIG_balloon_def)

lemma drop_const_rng: "drop_rng n (const_rng c) = const_rng c"
  by (simp add: drop_rng_def const_rng_def)

lemma stage_bounds_eval:
  "stage_bounds = \<lparr>yMin = - 4, yMax = 14, ySpawnTop = 18, yOffBottom = - 8, xVisible = 18,
                   xOff = 234 / 10, zMin = - 8, zMax = 4\<rparr>"
  by (simp add: stage_bounds_def updateVisibleBounds_def CONFIG_lantern_def Let_def)

lemma lower_lantern_step:
  "updateLantern CONFIG_lantern stage_bounds 0.05 1 (const_rng (1 / 2))
     (lanternAt (Vector3 0 10 0) (Vector3 1 0 0) 0 False)
   = ((lanternAt (Vector3 0.04745 9.9995025 0) (Vector3 0.949 (- 0.00995) 0) 0 False)
        \<lparr>rotation_y := 0.005\<rparr>, const_rng (1 / 2))"
  by (simp add: updateLantern_def updateBuoyancy_def integrateLantern_def bounceDepth_def
      outOfBounds_def stage_bounds_eval CONFIG_lantern_def lanternAt_def MathUtils_clamp_def
      Let_def drop_const_rng) (simp add: const_rng_def)

lemma upper_lantern_step:
  "updateLantern CONFIG_lantern stage_bounds 0.05 1 (const_rng (1 / 2))
     (lanternAt (Vector3 0.72745 9.9525025 0) (Vector3 0 4 0) 1 True)
   = ((lanternAt (Vector3 0.72745 10.1525025 0) (Vector3 0 4 0) 1 True)
        \<lparr>rotation_y := 0.005\<rparr>, const_rng (1 / 2))"
  by (simp add: updateLantern_def updateBuoyancy_def integrateLantern_def bounceDepth_def
      outOfBounds_def stage_bounds_eval CONFIG_lantern_def lanternAt_def MathUtils_clamp_def
      Let_def drop_const_rng)


lemma handleCollisions_two:
  "handleCollisions cfg [a, b] =
     [fst (resolvePair (collisionRadius cfg * 2) (collisionRestitution cfg) a b),
      snd (resolvePair (collisionRadius cfg * 2) (collisionRestitution cfg) a b)]"
  by (simp add: handleCollisions_def collideAll_def collidePair_def Let_def case_prod_beta upt_rec)

lemma contact_sqrt: "sqrt (485809 / 1000000) = 697 / 1000"
  by (rule real_sqrt_unique) (simp_all add: power2_eq_square)

lemma contact_vy:
  "vec_y (velocity (snd (resolvePair (collisionRadius CONFIG_lantern * 2)
                            (collisionRestitution CONFIG_lantern)
       ((lanternAt (Vector3 0.04745 9.9995025 0) (Vector3 0.949 (- 0.00995) 0) 0 False)
                     \<lparr>rotation_y := 0.005\<rparr>)
       ((lanternAt (Vector3 0.72745 10.1525025 0) (Vector3 0 4 0) 1 True)
                     \<lparr>rotation_y := 0.005\<rparr>))))
   = 4 + 13 / 20 * (187045 / 4100000) * (9 / 41)"
  by (simp add: resolvePair_def Let_def lanternAt_def collisionRadius_def CONFIG_lantern_def
                contact_sqrt)

subsection \<open>Recycled instances\<close>

lemma integrateInstance_lengths:
  "wf_balloons n s \<Longrightarrow> length (posY (integrateInstance cfg dt t i s)) = n"
  "wf_balloons n s \<Longrightarrow> length (posZ (integrateInstance cfg dt t i s)) = n"
  "wf_balloons n s \<Longrightarrow> length (velZ (integrateInstance cfg dt t i s)) = n"
  by (simp_all add: wf_balloons_def integrateInstance_fields)






subsection \<open>Depth walls\<close>

lemma bounceDepth_low:
  "vec_z (position l) < zMin bnd \<Longrightarrow>
   vec_z (position (bounceDepth bnd l)) = zMin bnd \<and>
   vec_z (velocity (bounceDepth bnd l)) = \<bar>vec_z (velocity l)\<bar> * 0.6"
  by (simp add: bounceDepth_def Let_def)

lemma bounceDepth_high:
  "\<not> vec_z (position l) < zMin bnd \<Longrightarrow> zMax bnd < vec_z (position l) \<Longrightarrow>
   vec_z (position (bounceDepth bnd l)) = zMax bnd \<and>
   vec_z (velocity (bounceDepth bnd l)) = - \<bar>vec_z (velocity l)\<bar> * 0.6"
  by (simp add: bounceDepth_def Let_def)

lemma bounceDepth_inside:
  "\<not> vec_z (position l) < zMin bnd \<Longrightarrow> \<not> zMax bnd < vec_z (position l) \<Longrightarrow>
   bounceDepth bnd l = l"
  by (simp add: bounceDepth_def Let_def)

lemma depthWalls_low:
  "i < length (posZ s) \<Longrightarrow> i < length (velZ s) \<Longrightarrow> posZ s ! i < zMin bnd \<Longrightarrow>
   posZ (depthWalls bnd i s) ! i = fround (zMin bnd) \<and>
   velZ (depthWalls bnd i s) ! i = fround (\<bar>velZ s ! i\<bar> * 0.6)"
  by (simp add: depthWalls_def)

lemma depthWalls_high:
  "i < length (posZ s) \<Longrightarrow> i < length (velZ s) \<Longrightarrow> \<not> posZ s ! i < zMin bnd \<Longrightarrow>
   zMax bnd < posZ s ! i \<Longrightarrow>
   posZ (depthWalls bnd i s) ! i = fround (zMax bnd) \<and>
   velZ (depthWalls bnd i s) ! i = fround (- \<bar>velZ s ! i\<bar> * 0.6)"
  by (simp add: depthWalls_def)

lemma depthWalls_z:
  "i < length (posZ s) \<Longrightarrow> zMin bnd \<le> zMax bnd \<Longrightarrow>
   fround (zMin bnd) = zMin bnd \<Longrightarrow> fround (zMax bnd) = zMax bnd \<Longrightarrow>
   zMin bnd \<le> posZ (depthWalls bnd i s) ! i \<and> posZ (depthWalls bnd i s) ! i \<le> zMax bnd"
  by (simp add: depthWalls_def)

text \<open>After a step, and so after the loop and after a frame, every instance lies between
  the depth walls, when these are single-precision numbers.\<close>

lemma updatePhysics_step_z:
  assumes "i < n" "wf_balloons n s" "unit_rng g" "zMin bnd \<le> zMax bnd"
    and "fround (zMin bnd) = zMin bnd" "fround (zMax bnd) = zMax bnd"
  shows "zMin bnd \<le> posZ (fst (updatePhysics_step cfg bnd dt t i s g)) ! i \<and>
         posZ (fst (updatePhysics_step cfg bnd dt t i s g)) ! i \<le> zMax bnd"
proof -
  let ?s1 = "integrateInstance cfg dt t i s"
  have len1: "i < length (posZ ?s1)"
    using assms(1,2) by (simp add: wf_balloons_def integrateInstance_fields)
  have len2: "i < length (posZ (fst (resetInstance cfg bnd g ?s1 i False)))"
    using len1 by (simp add: resetInstance_fields)
  show ?thesis
    using depthWalls_z[OF len1 assms(4,5,6)] depthWalls_z[OF len2 assms(4,5,6)]
    by (simp add: updatePhysics_step_eq Let_def)
qed

lemma integrateInstance_posZ_other:
  "j \<noteq> i \<Longrightarrow> posZ (integrateInstance cfg dt t i s) ! j = posZ s ! j"
  by (simp add: integrateInstance_def Let_def)

lemma depthWalls_posZ_other:
  "j \<noteq> i \<Longrightarrow> posZ (depthWalls bnd i s) ! j = posZ s ! j"
  by (simp add: depthWalls_def)

lemma updatePhysics_step_posZ_other:
  "j \<noteq> i \<Longrightarrow> posZ (fst (updatePhysics_step cfg bnd dt t i s g)) ! j = posZ s ! j"
  by (simp add: updatePhysics_step_eq Let_def depthWalls_posZ_other resetInstance_fields
                integrateInstance_posZ_other)

lemma updatePhysics_depth:
  assumes "wf_balloons (count cfg) s" "unit_rng g" "zMin bnd \<le> zMax bnd"
    and "fround (zMin bnd) = zMin bnd" "fround (zMax bnd) = zMax bnd"
  shows "\<forall>i < count cfg. zMin bnd \<le> posZ (fst (updatePhysics cfg bnd dt t g s)) ! i \<and>
                           posZ (fst (updatePhysics cfg bnd dt t g s)) ! i \<le> zMax bnd"
proof -
  let ?Q = "\<lambda>(s :: balloons) (i :: nat). zMin bnd \<le> posZ s ! i \<and> posZ s ! i \<le> zMax bnd"
  have "wf_balloons (count cfg) (fst (updatePhysics cfg bnd dt t g s)) \<and>
        unit_rng (snd (updatePhysics cfg bnd dt t g s)) \<and>
        (\<forall>i < count cfg. True \<and> ?Q (fst (updatePhysics cfg bnd dt t g s)) i)"
  proof (rule updatePhysics_invariant[where I = "\<lambda>(s :: balloons) (i :: nat). True" and Q = ?Q, OF assms(1,2)])
    show "\<forall>i < count cfg. True" by simp
  next
    fix i :: nat and s :: balloons and g :: rng
    assume "i < count cfg" "wf_balloons (count cfg) s" "unit_rng g"
    then show "?Q (fst (updatePhysics_step cfg bnd dt t i s g)) i"
      using assms(3,4,5) by (intro updatePhysics_step_z)
  next
    fix i j :: nat and s :: balloons and g :: rng
    assume "j < i" "?Q s j"
    then show "?Q (fst (updatePhysics_step cfg bnd dt t i s g)) j"
      by (simp add: updatePhysics_step_posZ_other)
  qed simp
  then show ?thesis by simp
qed

lemma animate_balloon_depth:
  assumes "wf_balloons (count cfg) s" "unit_rng g" "zMin bnd \<le> zMax bnd"
    and "fround (zMin bnd) = zMin bnd" "fround (zMax bnd) = zMax bnd"
  shows "\<forall>i < count cfg.
           zMin bnd \<le> posZ (fst (snd (animate_balloon cfg bnd project lastTime now ups boxes g ob s))) ! i \<and>
           posZ (fst (snd (animate_balloon cfg bnd project lastTime now ups boxes g ob s))) ! i \<le> zMax bnd"
proof -
  let ?dt = "animate_dt (Num (now - lastTime))"
  let ?ob3 = "smoothOrbs cfg (orbAlpha cfg ?dt)
                (fold (\<lambda>(slot, worldPos, strength) ob0. setOrb cfg ob0 slot worldPos strength) ups
                   (decayTTL cfg ?dt ob))"
  let ?A = "applyOrbInfluence cfg bnd project boxes ?ob3 ?dt g s"
  have fr: "fst (snd (animate_balloon cfg bnd project lastTime now ups boxes g ob s)) =
            fst (updatePhysics cfg bnd ?dt (now * 0.001) (snd ?A) (fst ?A))"
    by (simp add: animate_balloon_def Let_def case_prod_beta)
  have A: "wf_balloons (count cfg) (fst ?A)" "unit_rng (snd ?A)"
    using applyOrbInfluence_unit[OF assms(1,2), of bnd project boxes ?ob3 ?dt] by blast+
  show ?thesis
    unfolding fr using A assms(3,4,5) by (rule updatePhysics_depth)
qed

subsection \<open>The bounds of the two cameras\<close>

text \<open>Half the field of view of the lantern camera is \<open>pi / 8\<close>, whose tangent is
  \<open>sqrt 2 - 1\<close>; that of the balloon camera only needs to be positive.\<close>

lemma tan_pi_8: "tan (pi / 8) = sqrt 2 - 1"
proof -
  have "tan (pi / 8) = sin (pi / 4) / (cos (pi / 4) + 1)"
    using tan_half[of "pi / 8"] by simp
  also have "\<dots> = (sqrt 2 / 2) / (sqrt 2 / 2 + 1)"
    by (simp add: sin_45 cos_45)
  also have "\<dots> = sqrt 2 - 1"
  proof -
    have s: "sqrt 2 * sqrt 2 = 2" by simp
    have p: "0 < sqrt 2 / 2 + 1" by (simp add: add_pos_pos)
    have g: "(r - 1) * (r / 2 + 1) = r / 2" if "r * r = 2" for r :: real
    proof -
      have "(r - 1) * (r / 2 + 1) = (r * r) / 2 + r / 2 - 1"
        by (simp add: field_simps)
      then show ?thesis using that by simp
    qed
    have "(sqrt 2 / 2) / (sqrt 2 / 2 + 1) = ((sqrt 2 - 1) * (sqrt 2 / 2 + 1)) / (sqrt 2 / 2 + 1)"
      by (simp only: g[OF s])
    also have "\<dots> = sqrt 2 - 1"
    proof (rule nonzero_mult_div_cancel_right)
      show "sqrt 2 / 2 + 1 \<noteq> 0" using p by auto
    qed
    finally show ?thesis .
  qed
  finally show ?thesis .
qed

lemma sqrt2_bounds: "1.414 < sqrt 2" "sqrt 2 < 1.415"
proof -
  show "1.414 < sqrt 2" by (rule real_less_rsqrt) (simp add: power2_eq_square)
  show "sqrt 2 < 1.415" by (rule real_less_lsqrt) (simp_all add: power2_eq_square)
qed

lemma lantern_vHalf:
  "tan (MathUtils_degToRad 45 / 2) * 22 = 22 * sqrt 2 - 22"
proof -
  have "MathUtils_degToRad 45 / 2 = pi / 8" by (simp add: MathUtils_degToRad_def)
  then have "tan (MathUtils_degToRad 45 / 2) = sqrt 2 - 1" by (simp only: tan_pi_8)
  then show ?thesis by (simp add: algebra_simps)
qed

lemma balloon_vHalf_pos: "0 < tan (MathUtils_degToRad 55 / 2) * 40"
proof -
  have "0 < tan (MathUtils_degToRad 55 / 2)"
    by (rule tan_gt_zero) (simp_all add: MathUtils_degToRad_def)
  then show ?thesis by simp
qed

lemma lantern_view_bounds_eval:
  "yOffBottom (lantern_view_bounds a) = 23 - 22 * sqrt 2"
  "ySpawnTop (lantern_view_bounds a) = 22 * sqrt 2 - 13"
  "yMax (lantern_view_bounds a) = 22 * sqrt 2 - 17"
  "xOff (lantern_view_bounds a) = (22 * sqrt 2 - 22) * a * 1.3"
  "zMin (lantern_view_bounds a) = - 8" "zMax (lantern_view_bounds a) = 4"
  by (simp_all add: lantern_view_bounds_def updateVisibleBounds_def CONFIG_lantern_def Let_def
      lantern_vHalf)

lemma lantern_view_bounds_facts:
  "yOffBottom (lantern_view_bounds 2) < - 8"
  "18.1 < ySpawnTop (lantern_view_bounds 2)" "ySpawnTop (lantern_view_bounds 2) < 18.13"
  "0 < xOff (lantern_view_bounds 2)"
  using sqrt2_bounds by (simp_all add: lantern_view_bounds_eval)

lemma balloon_view_bounds_facts:
  "yOffBottom (balloon_view_bounds (16 / 9)) < - 2"
  "14 < ySpawnTop (balloon_view_bounds (16 / 9))"
  "0 < xOff (balloon_view_bounds (16 / 9))"
  "zMin (balloon_view_bounds (16 / 9)) = - 18" "zMax (balloon_view_bounds (16 / 9)) = 10"
  using balloon_vHalf_pos
  by (simp_all add: balloon_view_bounds_def updateVisibleBounds_def CONFIG_balloon_def Let_def)

subsection \<open>Steps at the depth walls\<close>

lemma rising_lantern:
  "updateBuoyancy CONFIG_lantern bnd 0.05 g True 1 0.4 18 = (1, g)"
  "position (integrateLantern CONFIG_lantern 0.05 1 1
               (lanternAt (Vector3 0 18 (- 7.99)) (Vector3 0 4 (- 0.3)) 1 True))
     = Vector3 0 18.2 (- 8.004235)"
  by (simp_all add: updateBuoyancy_def integrateLantern_def CONFIG_lantern_def lanternAt_def
      MathUtils_clamp_def Let_def)

lemma recycled_at_wall:
  "vec_z (position (fst (updateLantern CONFIG_lantern (lantern_view_bounds 2) 0.05 1
                           (const_rng (3 / 4))
                           (lanternAt (Vector3 0 18 (- 7.99)) (Vector3 0 4 (- 0.3)) 1 True)))) = 1"
  "vec_z (velocity (fst (updateLantern CONFIG_lantern (lantern_view_bounds 2) 0.05 1
                           (const_rng (3 / 4))
                           (lanternAt (Vector3 0 18 (- 7.99)) (Vector3 0 4 (- 0.3)) 1 True))))
     = - 0.15"
proof -
  let ?L = "lanternAt (Vector3 0 18 (- 7.99)) (Vector3 0 4 (- 0.3)) 1 True"
  let ?bnd = "lantern_view_bounds 2"
  let ?g = "const_rng (3 / 4)"
  have ub: "updateBuoyancy CONFIG_lantern ?bnd 0.05 ?g (hovered ?L) (buoyancy ?L) (decayRate ?L)
              (vec_y (position ?L)) = (1, ?g)"
    using rising_lantern(1)[of ?bnd ?g] by (simp add: lanternAt_def)
  have oob: "outOfBounds ?bnd (vec_x (position (integrateLantern CONFIG_lantern 0.05 1 1 ?L)))
                              (vec_y (position (integrateLantern CONFIG_lantern 0.05 1 1 ?L)))"
    using lantern_view_bounds_facts(3) unfolding rising_lantern(2) by (simp add: outOfBounds_def)
  let ?r = "fst (resetLantern CONFIG_lantern ?bnd ?g (integrateLantern CONFIG_lantern 0.05 1 1 ?L) False)"
  have rz: "vec_z (position ?r) = 1" "vec_z (velocity ?r) = - 0.15"
    by (simp_all add: resetLantern_def Let_def randFloat_def randFloatSpread_def const_rng_def
        lantern_view_bounds_eval CONFIG_lantern_def)
  have in_walls: "\<not> vec_z (position ?r) < zMin ?bnd" "\<not> zMax ?bnd < vec_z (position ?r)"
    unfolding rz lantern_view_bounds_eval by simp_all
  have "fst (updateLantern CONFIG_lantern ?bnd 0.05 1 ?g ?L) = bounceDepth ?bnd ?r"
    unfolding updateLantern_eq ub Let_def using oob by simp
  then have "fst (updateLantern CONFIG_lantern ?bnd 0.05 1 ?g ?L) = ?r"
    using bounceDepth_inside[OF in_walls] by simp
  then show
    "vec_z (position (fst (updateLantern CONFIG_lantern ?bnd 0.05 1 ?g ?L))) = 1"
    "vec_z (velocity (fst (updateLantern CONFIG_lantern ?bnd 0.05 1 ?g ?L))) = - 0.15"
    using rz by simp_all
qed

lemma fround_sinking:
  "fround (3 / 4) = 3 / 4"
  "fround (2871 / 4000) = 12041847 / 16777216"
  "fround (6046596727 / 335544320) = 9447807 / 524288"
  "fround (36125541 / 83886080) = 1806277 / 4194304"
  using fround_eval[of "- 1" "3 / 4"] fround_eval[of "- 1" "2871 / 4000"]
        fround_eval[of 4 "6046596727 / 335544320"] fround_eval[of "- 2" "36125541 / 83886080"]
  by (simp_all add: pow2_def roundTiesToEven_def Let_def)

lemma lit_lantern:
  "updateBuoyancy CONFIG_lantern bnd 0.05 g True 1 0.4 10 = (1, g)"
  "integrateLantern CONFIG_lantern 0.05 1 1
     (lanternAt (Vector3 0 10 (- 7.99)) (Vector3 0 0 (- 0.3)) 1 True)
   = (lanternAt (Vector3 0 10.0024875 (- 8.004235)) (Vector3 0 0.04975 (- 0.2847)) 1 True)
       \<lparr>rotation_y := 0.005\<rparr>"
  "integrateLantern CONFIG_lantern 0.05 1 1
     (lanternAt (Vector3 0 10 3.99) (Vector3 0 0 0.3) 1 True)
   = (lanternAt (Vector3 0 10.0024875 4.004235) (Vector3 0 0.04975 0.2847) 1 True)
       \<lparr>rotation_y := 0.005\<rparr>"
  by (simp_all add: updateBuoyancy_def integrateLantern_def CONFIG_lantern_def lanternAt_def
      MathUtils_clamp_def Let_def)

lemma sinking_balloon:
  "posX (integrateInstance CONFIG_balloon 0.05 1 0
          ((allocBalloons 1)\<lparr>posY := [10], posZ := [- (1151 / 64)], velZ := [- (3 / 4)]\<rparr>)) ! 0 = 0"
  "posY (integrateInstance CONFIG_balloon 0.05 1 0
          ((allocBalloons 1)\<lparr>posY := [10], posZ := [- (1151 / 64)], velZ := [- (3 / 4)]\<rparr>)) ! 0
     = 9.999602400"
  "posZ (integrateInstance CONFIG_balloon 0.05 1 0
          ((allocBalloons 1)\<lparr>posY := [10], posZ := [- (1151 / 64)], velZ := [- (3 / 4)]\<rparr>)) ! 0
     = - (9447807 / 524288)"
  "velZ (integrateInstance CONFIG_balloon 0.05 1 0
          ((allocBalloons 1)\<lparr>posY := [10], posZ := [- (1151 / 64)], velZ := [- (3 / 4)]\<rparr>)) ! 0
     = - (12041847 / 16777216)"
  by (simp_all add: integrateInstance_def CONFIG_balloon_def allocBalloons_def MathUtils_clamp_def
      Let_def fround_minus fround_sinking)

subsection \<open>The clip range of the camera\<close>

text \<open>A position between the near and the far plane of a camera that looks down the negative
  \<open>z\<close> axis projects to a depth within \<open>[-1, 1]\<close>; for the camera of the balloon program
  these are the depths from \<open>-220\<close> to \<open>39.9\<close>.\<close>

lemma screenRadius_pos:
  assumes "0 < (case screenRadiusNDC cfg of None \<Rightarrow> 0.065 | Some r \<Rightarrow> r)"
    and "0 < (case screenRadiusMax cfg of None \<Rightarrow> 0.10 | Some r \<Rightarrow> r)"
  shows "0 < screenRadius cfg"
  using assms by (simp add: screenRadius_def MathUtils_clamp_def max_def min_def)

lemma perspective_clip:
  assumes "0 < near" "near < far"
    and "vec_z cam - far \<le> vec_z v" "vec_z v \<le> vec_z cam - near"
  shows "- 1 \<le> vec_z (perspectiveProject cam f aspect near far v) \<and>
         vec_z (perspectiveProject cam f aspect near far v) \<le> 1"
proof -
  define w where "w = vec_z cam - vec_z v"
  have w: "near \<le> w" "w \<le> far" "0 < w" using assms by (simp_all add: w_def)
  have d: "0 < far - near" using assms by simp
  have alg: "(- (a / b) * c - t / b) / (- c) = (a * (- c) - t) / (b * (- c))"
    if "b \<noteq> 0" "c \<noteq> 0" for a b c t :: real
    using that by (simp add: field_simps)
  have zw: "vec_z v - vec_z cam = - w" by (simp add: w_def)
  have "vec_z (perspectiveProject cam f aspect near far v)
          = (- ((far + near) / (far - near)) * (- w) - 2 * far * near / (far - near)) / (- (- w))"
    unfolding perspectiveProject_def Let_def zw by simp
  also have "\<dots> = ((far + near) * (- (- w)) - 2 * far * near) / ((far - near) * (- (- w)))"
    using d w(3) by (intro alg) simp_all
  finally have z: "vec_z (perspectiveProject cam f aspect near far v)
             = ((far + near) * w - 2 * far * near) / ((far - near) * w)"
    by simp
  have p: "0 < (far - near) * w" using d w(3) by simp
  have "- ((far - near) * w) \<le> (far + near) * w - 2 * far * near"
  proof -
    have "far * near \<le> far * w" using w(1) assms by (intro mult_left_mono) simp_all
    then show ?thesis by (simp add: algebra_simps)
  qed
  moreover have "(far + near) * w - 2 * far * near \<le> (far - near) * w"
  proof -
    have "near * w \<le> near * far" using w(2) assms by (intro mult_left_mono) simp_all
    then show ?thesis by (simp add: algebra_simps)
  qed
  ultimately show ?thesis
    unfolding z using p by (simp add: pos_le_divide_eq pos_divide_le_eq)
qed

lemma worldToNDC_clip:
  assumes "- 220 \<le> vec_z v" "vec_z v \<le> 39.9"
  shows "- 1 \<le> vec_z (worldToNDC aspect v) \<and> vec_z (worldToNDC aspect v) \<le> 1"
  unfolding worldToNDC_def using assms by (intro perspective_clip) simp_all

text \<open>The two depth tests of the loop: a position that projects to a depth outside
  \<open>[-1, 1]\<close> is skipped.\<close>

lemma orbHitScreen_clipped:
  "vec_z (project (orbPositions ob ! j)) < - 1 \<or> 1 < vec_z (project (orbPositions ob ! j)) \<Longrightarrow>
   \<not> orbHitScreen project ob ndcB rNSq j"
  by (auto simp: orbHitScreen_def Let_def)

lemma hoverTest_clipped:
  "trackMode cfg \<noteq> ''fullBody'' \<Longrightarrow> useScreenSpaceHit cfg \<Longrightarrow>
   vec_z (project bw) < - 1 \<or> 1 < vec_z (project bw) \<Longrightarrow>
   \<not> hoverTest cfg project boxes ob bw"
  by (auto simp: hoverTest_def Let_def)

subsection \<open>The depths of the orbs\<close>

text \<open>An orb is written by \<open>setOrb\<close> and then only interpolated towards its target: when
  every position written lies at a depth between \<open>lo\<close> and \<open>hi\<close>, so does every orb after
  the frame.\<close>

lemma lerp_depth:
  assumes "lo \<le> vec_z p" "vec_z p \<le> hi" "lo \<le> vec_z v" "vec_z v \<le> hi"
    and "0 \<le> alpha" "alpha \<le> 1"
  shows "lo \<le> vec_z (lerp p v alpha) \<and> vec_z (lerp p v alpha) \<le> hi"
proof -
  have e: "vec_z (lerp p v alpha) = (1 - alpha) * vec_z p + alpha * vec_z v"
    by (simp add: lerp_def algebra_simps)
  have a: "(1 - alpha) * lo \<le> (1 - alpha) * vec_z p" "alpha * lo \<le> alpha * vec_z v"
    "(1 - alpha) * vec_z p \<le> (1 - alpha) * hi" "alpha * vec_z v \<le> alpha * hi"
    using assms by (simp_all add: mult_left_mono)
  have "lo = (1 - alpha) * lo + alpha * lo" "hi = (1 - alpha) * hi + alpha * hi"
    by (simp_all add: algebra_simps)
  then show ?thesis unfolding e using a by linarith
qed

lemma orbAlpha_unit:
  assumes "0 \<le> orbSmoothing cfg" "orbSmoothing cfg \<le> 1"
  shows "0 \<le> orbAlpha cfg dt \<and> orbAlpha cfg dt \<le> 1"
proof -
  have "(1 - orbSmoothing cfg) powr (max 1 (dt * 60)) \<le> 1"
    using assms by (intro powr_le1) simp_all
  moreover have "0 \<le> (1 - orbSmoothing cfg) powr (max 1 (dt * 60))" by simp
  ultimately show ?thesis by (simp add: orbAlpha_def Math_pow_def)
qed

lemma depthsWithin_update:
  "depthsWithin lo hi ps \<Longrightarrow> lo \<le> vec_z v \<Longrightarrow> vec_z v \<le> hi \<Longrightarrow> depthsWithin lo hi (ps[k := v])"
  unfolding depthsWithin_def using set_update_subset_insert[of ps k v] by auto

lemma setOrb_depths:
  assumes "depthsWithin lo hi (orbPositions ob)" "depthsWithin lo hi (orbTargets ob)"
    and "lo \<le> vec_z worldPos" "vec_z worldPos \<le> hi"
  shows "depthsWithin lo hi (orbPositions (setOrb cfg ob slot worldPos strength)) \<and>
         depthsWithin lo hi (orbTargets (setOrb cfg ob slot worldPos strength)) \<and>
         length (orbPositions (setOrb cfg ob slot worldPos strength)) = length (orbPositions ob) \<and>
         length (orbTargets (setOrb cfg ob slot worldPos strength)) = length (orbTargets ob)"
  using assms by (simp add: setOrb_def Let_def depthsWithin_update)

lemma decayTTL_positions:
  "orbPositions (decayTTL cfg dt ob) = orbPositions ob"
  "orbTargets (decayTTL cfg dt ob) = orbTargets ob"
  unfolding decayTTL_def by (rule fold_keeps, simp)+

lemma smoothOrbs_depths:
  assumes "MAX_ORBS cfg \<le> length (orbPositions ob)"
    and "depthsWithin lo hi (orbPositions ob)" "depthsWithin lo hi (orbTargets ob)"
    and "length (orbTargets ob) = length (orbPositions ob)"
    and "0 \<le> alpha" "alpha \<le> 1"
  shows "depthsWithin lo hi (orbPositions (smoothOrbs cfg alpha ob)) \<and>
         depthsWithin lo hi (orbTargets (smoothOrbs cfg alpha ob))"
proof -
  note F = smoothOrb_fold[OF assms(1), of alpha, folded smoothOrbs_def]
  have t: "orbTargets (smoothOrbs cfg alpha ob) = orbTargets ob"
    using F by (elim conjE)
  have l: "length (orbPositions (smoothOrbs cfg alpha ob)) = length (orbPositions ob)"
    using F by (elim conjE)
  have "\<forall>i. orbPositions (smoothOrbs cfg alpha ob) ! i =
        (if i < MAX_ORBS cfg \<and> orbTTL ob ! i > 0
         then lerp (orbPositions ob ! i) (orbTargets ob ! i) alpha
         else orbPositions ob ! i)"
    using F by (elim conjE)
  then have p: "orbPositions (smoothOrbs cfg alpha ob) ! i =
        (if i < MAX_ORBS cfg \<and> orbTTL ob ! i > 0
         then lerp (orbPositions ob ! i) (orbTargets ob ! i) alpha
         else orbPositions ob ! i)" for i
    by (rule spec)
  have q: "lo \<le> vec_z (orbPositions (smoothOrbs cfg alpha ob) ! i) \<and>
           vec_z (orbPositions (smoothOrbs cfg alpha ob) ! i) \<le> hi"
    if i: "i < length (orbPositions ob)" for i
  proof -
    have a: "lo \<le> vec_z (orbPositions ob ! i) \<and> vec_z (orbPositions ob ! i) \<le> hi"
      using assms(2) i unfolding depthsWithin_def all_set_conv_all_nth by blast
    have b: "lo \<le> vec_z (orbTargets ob ! i) \<and> vec_z (orbTargets ob ! i) \<le> hi"
      using assms(3) i unfolding depthsWithin_def all_set_conv_all_nth assms(4) by blast
    show ?thesis
    proof (cases "i < MAX_ORBS cfg \<and> orbTTL ob ! i > 0")
      case True
      have "orbPositions (smoothOrbs cfg alpha ob) ! i
              = lerp (orbPositions ob ! i) (orbTargets ob ! i) alpha"
        unfolding p using True by (rule if_P)
      then show ?thesis
        using a b lerp_depth[of lo "orbPositions ob ! i" hi "orbTargets ob ! i" alpha] assms(5,6)
        by presburger
    next
      case False
      have "orbPositions (smoothOrbs cfg alpha ob) ! i = orbPositions ob ! i"
        unfolding p using False by (rule if_not_P)
      then show ?thesis using a by presburger
    qed
  qed
  have "depthsWithin lo hi (orbPositions (smoothOrbs cfg alpha ob))"
    unfolding depthsWithin_def all_set_conv_all_nth l using q by blast
  then show ?thesis using assms(3) unfolding t by blast
qed

lemma setOrbs_depths:
  assumes "depthsWithin lo hi (orbPositions ob)" "depthsWithin lo hi (orbTargets ob)"
    and "\<forall>u \<in> set ups. lo \<le> vec_z (fst (snd u)) \<and> vec_z (fst (snd u)) \<le> hi"
  shows "depthsWithin lo hi
           (orbPositions (fold (\<lambda>(slot, worldPos, strength) ob0. setOrb cfg ob0 slot worldPos strength)
                            ups ob)) \<and>
         depthsWithin lo hi
           (orbTargets (fold (\<lambda>(slot, worldPos, strength) ob0. setOrb cfg ob0 slot worldPos strength)
                          ups ob)) \<and>
         length (orbPositions (fold (\<lambda>(slot, worldPos, strength) ob0. setOrb cfg ob0 slot worldPos strength)
                                ups ob)) = length (orbPositions ob) \<and>
         length (orbTargets (fold (\<lambda>(slot, worldPos, strength) ob0. setOrb cfg ob0 slot worldPos strength)
                               ups ob)) = length (orbTargets ob)"
  using assms
proof (induction ups arbitrary: ob)
  case Nil
  then show ?case by simp
next
  case (Cons u ups)
  obtain slot worldPos strength where u: "u = (slot, worldPos, strength)" by (cases u)
  have w: "lo \<le> vec_z worldPos" "vec_z worldPos \<le> hi" using Cons.prems(3) u by simp_all
  note S = setOrb_depths[OF Cons.prems(1,2) w, of cfg slot strength]
  have r: "\<forall>u \<in> set ups. lo \<le> vec_z (fst (snd u)) \<and> vec_z (fst (snd u)) \<le> hi"
    using Cons.prems(3) by simp
  show ?case
    using Cons.IH[of "setOrb cfg ob slot worldPos strength"] S r by (simp add: u)
qed

lemma animate_balloon_orb_depths:
  assumes "wf_orbs cfg ob"
    and "depthsWithin lo hi (orbPositions ob)" "depthsWithin lo hi (orbTargets ob)"
    and "\<forall>u \<in> set ups. lo \<le> vec_z (fst (snd u)) \<and> vec_z (fst (snd u)) \<le> hi"
    and "0 \<le> orbSmoothing cfg" "orbSmoothing cfg \<le> 1"
  shows "depthsWithin lo hi
           (orbPositions (fst (animate_balloon cfg bnd project lastTime now ups boxes g ob s))) \<and>
         depthsWithin lo hi
           (orbTargets (fst (animate_balloon cfg bnd project lastTime now ups boxes g ob s)))"
proof -
  let ?dt = "animate_dt (Num (now - lastTime))"
  let ?ob1 = "decayTTL cfg ?dt ob"
  let ?ob2 = "fold (\<lambda>(slot, worldPos, strength) ob0. setOrb cfg ob0 slot worldPos strength) ups ?ob1"
  have fr: "fst (animate_balloon cfg bnd project lastTime now ups boxes g ob s) =
            smoothOrbs cfg (orbAlpha cfg ?dt) ?ob2"
    by (simp add: animate_balloon_def Let_def split: prod.splits)
  have d1: "depthsWithin lo hi (orbPositions ?ob1)" "depthsWithin lo hi (orbTargets ?ob1)"
    using assms(2,3) by (simp_all add: decayTTL_positions)
  note S = setOrbs_depths[OF d1 assms(4), of cfg]
  have len: "MAX_ORBS cfg \<le> length (orbPositions ?ob2)"
    "length (orbTargets ?ob2) = length (orbPositions ?ob2)"
    using S assms(1) by (simp_all add: decayTTL_positions wf_orbs_def)
  have a: "0 \<le> orbAlpha cfg ?dt" "orbAlpha cfg ?dt \<le> 1"
    using orbAlpha_unit[OF assms(5,6), of ?dt] by simp_all
  have d2: "depthsWithin lo hi (orbPositions ?ob2)" "depthsWithin lo hi (orbTargets ?ob2)"
    using S by blast+
  show ?thesis
    unfolding fr using len(1) d2 len(2) a by (rule smoothOrbs_depths)
qed

subsection \<open>An orb on the camera axis\<close>

lemma one_orb:
  "setOrb CONFIG_balloon (allocOrbs CONFIG_balloon) 0 p (Some 1)
   = \<lparr>orbPositions = p # replicate 28 (Vector3 0 0 0),
      orbTargets = p # replicate 28 (Vector3 0 0 0),
      orbBuoy = 1 # replicate 28 0,
      orbTTL = (16106127 / 134217728) # replicate 28 0\<rparr>"
proof -
  have r: "replicate 29 x = x # replicate 28 x" for x :: 'a
    by (simp add: numeral_eq_Suc)
  have t: "fround (max 0.01 (orbMaxTTL CONFIG_balloon)) = 16106127 / 134217728"
  proof -
    have m: "max 0.01 (orbMaxTTL CONFIG_balloon) = 0.12" by (simp add: CONFIG_balloon_def)
    show ?thesis unfolding m by (rule fround_values)
  qed
  show ?thesis
    unfolding setOrb_def t
    by (simp add: allocOrbs_def MAX_ORBS_CONFIG Let_def lengthSq_def r fround_values)
qed

lemma camera_axis:
  "vec_x (perspectiveProject (Vector3 cx cy cz) f a n r (Vector3 cx cy z)) = 0"
  "vec_y (perspectiveProject (Vector3 cx cy cz) f a n r (Vector3 cx cy z)) = 0"
  by (simp_all add: perspectiveProject_def Let_def)

lemma hover_config:
  "trackMode CONFIG_balloon \<noteq> ''fullBody''" "useScreenSpaceHit CONFIG_balloon"
  "screenRadiusNDC CONFIG_balloon = Some 0.065" "screenRadiusMax CONFIG_balloon = Some 0.10"
  "screenRadius CONFIG_balloon = 0.065"
  by (simp_all add: CONFIG_balloon_def screenRadius_def MathUtils_clamp_def)

section \<open>Frame time\<close>

text \<open>
  A negative elapsed time is not replaced: five milliseconds backwards give a negative
  time step.
\<close>

theorem animate_dt_negative_counterexample:
  "animate_dt (Num (- 5)) = - 0.005 \<and> \<not> 0 < animate_dt (Num (- 5))"
  by (simp add: animate_dt_def)

text \<open>
  C6 (as amended). The time step never exceeds 0.05 seconds. An elapsed time that is zero
  or not a number is replaced by the default step 0.016. A positive elapsed time gives
  \<open>min (elapsed / 1000) 0.05\<close>, a positive step; an absurdly large one is capped at 0.05,
  not replaced by the default. A negative elapsed time is used as it is.
\<close>

theorem animate_dt_range:
  "animate_dt e \<le> 0.05 \<and>
   (e = NaN \<or> e = Num 0 \<longrightarrow> animate_dt e = 0.016) \<and>
   (\<forall>x. e = Num x \<and> 0 < x \<longrightarrow> animate_dt e = min (x / 1000) 0.05 \<and> 0 < animate_dt e) \<and>
   (\<forall>x. e = Num x \<and> x < 0 \<longrightarrow> animate_dt e = x / 1000)"
  by (cases e) (auto simp: animate_dt_def Let_def min_def)

theorem animate_dt_range_witness:
  "animate_dt (Num 20) = 0.02 \<and> animate_dt (Num 1000000) = 0.05 \<and> animate_dt (Num 0) = 0.016"
  using animate_dt_range[of "Num 20"] animate_dt_range[of "Num 1000000"]
        animate_dt_range[of "Num 0"]
  by simp

section \<open>Pattern index\<close>

text \<open>
  C9. For a palette of size \<open>len > 0\<close> the index of the palette lookup lies in
  \<open>[0, len)\<close> for every pattern type, height factor, angle factor and density, negative
  intermediate values included, so \<open>applyPatternColor\<close> returns a colour of the palette;
  with a missing descriptor, a missing palette or an empty palette it returns white.
\<close>

theorem pattern_index_in_palette:
  "(0 < len \<longrightarrow> 0 \<le> paletteIndex p d h a len \<and> paletteIndex p d h a len < len) \<and>
   (palette p = Some pal \<and> pal \<noteq> [] \<and> vertexIndex < length hs \<and> vertexIndex < length as \<longrightarrow>
      (\<exists>k < length pal.
         int k = paletteIndex p (case dens of None \<Rightarrow> 1 | Some x \<Rightarrow> x)
                   (hs ! vertexIndex) (as ! vertexIndex) (int (length pal)) \<and>
         applyPatternColor dens hs as (Some p) vertexIndex = Inr (pal ! k))) \<and>
   applyPatternColor dens hs as None vertexIndex = Inr 0xffffff \<and>
   (palette p = None \<or> palette p = Some [] \<longrightarrow>
      applyPatternColor dens hs as (Some p) vertexIndex = Inr 0xffffff)"
proof (intro conjI impI)
  assume "0 < len"
  then show "0 \<le> paletteIndex p d h a len" "paletteIndex p d h a len < len"
    using paletteIndex_range by blast+
next
  assume A: "palette p = Some pal \<and> pal \<noteq> [] \<and> vertexIndex < length hs \<and> vertexIndex < length as"
  let ?len = "int (length pal)"
  let ?k = "paletteIndex p (case dens of None \<Rightarrow> 1 | Some x \<Rightarrow> x)
              (hs ! vertexIndex) (as ! vertexIndex) ?len"
  have len: "0 < ?len" using A by simp
  have k: "0 \<le> ?k" "?k < ?len" using paletteIndex_range[OF len] by blast+
  have "applyPatternColor dens hs as (Some p) vertexIndex = Inr (pal ! nat ?k)"
    using A k by (simp add: applyPatternColor_def Let_def)
  moreover have "nat ?k < length pal" "int (nat ?k) = ?k" using k by simp_all
  ultimately show "\<exists>k < length pal.
         int k = ?k \<and> applyPatternColor dens hs as (Some p) vertexIndex = Inr (pal ! k)"
    by blast
next
  show "applyPatternColor dens hs as None vertexIndex = Inr 0xffffff"
    by (simp add: applyPatternColor_def)
next
  assume "palette p = None \<or> palette p = Some []"
  then show "applyPatternColor dens hs as (Some p) vertexIndex = Inr 0xffffff"
    by (auto simp: applyPatternColor_def)
qed

theorem pattern_index_in_palette_witness:
  "paletteIndex \<lparr>ptype = ''checker'', palette = Some [0xff0000, 0x00ff00, 0x0000ff],
                 stripes = 8, cellsY = 6, cellsA = 8\<rparr> 1 (- 0.5) 0.2 3 = 1 \<and>
   applyPatternColor None [- 0.5] [0.2]
      (Some \<lparr>ptype = ''checker'', palette = Some [0xff0000, 0x00ff00, 0x0000ff],
             stripes = 8, cellsY = 6, cellsA = 8\<rparr>) 0 = Inr 0x00ff00 \<and>
   applyPatternColor None [- 0.5] [0.2]
      (Some \<lparr>ptype = ''checker'', palette = Some [], stripes = 8, cellsY = 6, cellsA = 8\<rparr>) 0
     = Inr 0xffffff"
  using pattern_index_in_palette
    [where p = "\<lparr>ptype = ''checker'', palette = Some [0xff0000, 0x00ff00, 0x0000ff],
                 stripes = 8, cellsY = 6, cellsA = 8\<rparr>"
       and pal = "[0xff0000, 0x00ff00, 0x0000ff]" and len = 3 and d = 1 and h = "- 0.5" and a = "0.2"
       and vertexIndex = 0 and hs = "[- 0.5]" and as = "[0.2]" and dens = None]
  by (simp add: paletteIndex_def patternIdx_def js_rem_def applyPatternColor_def)

section \<open>Orbs\<close>

text \<open>
  C10. \<open>setOrb\<close> with a slot outside \<open>[0, MAX_ORBS)\<close> returns the orb state unchanged.
  With a slot inside the range, every array is indexed within its length, the arrays keep
  their length, and the time to live written is \<open>max 0.01 orbMaxTTL\<close> as the
  single-precision array \<open>orbTTL\<close> holds it: it is positive, so the orb is live; it is
  never below the single-precision number nearest to 0.01; and it is at least 0.01 for an
  \<open>orbMaxTTL\<close> of 0.010000001 or more, as the 0.12 of the configuration is.
\<close>

theorem setOrb_guard:
  "(slot < 0 \<or> int (MAX_ORBS cfg) \<le> slot \<longrightarrow> setOrb cfg ob slot worldPos strength = ob) \<and>
   (0 \<le> slot \<and> slot < int (MAX_ORBS cfg) \<and> wf_orbs cfg ob \<longrightarrow>
      nat slot < length (orbTTL ob) \<and> nat slot < length (orbTargets ob) \<and>
      nat slot < length (orbPositions ob) \<and> nat slot < length (orbBuoy ob) \<and>
      wf_orbs cfg (setOrb cfg ob slot worldPos strength) \<and>
      orbTTL (setOrb cfg ob slot worldPos strength) ! nat slot
        = fround (max 0.01 (orbMaxTTL cfg)) \<and>
      0 < orbTTL (setOrb cfg ob slot worldPos strength) ! nat slot \<and>
      fround 0.01 \<le> orbTTL (setOrb cfg ob slot worldPos strength) ! nat slot \<and>
      (0.010000001 \<le> orbMaxTTL cfg \<longrightarrow>
         0.01 \<le> orbTTL (setOrb cfg ob slot worldPos strength) ! nat slot))"
proof (intro conjI impI)
  assume "slot < 0 \<or> int (MAX_ORBS cfg) \<le> slot"
  then show "setOrb cfg ob slot worldPos strength = ob"
    by (auto simp: setOrb_def)
next
  assume A: "0 \<le> slot \<and> slot < int (MAX_ORBS cfg) \<and> wf_orbs cfg ob"
  then have k: "nat slot < MAX_ORBS cfg" by linarith
  have len: "length (orbPositions ob) = MAX_ORBS cfg" "length (orbTargets ob) = MAX_ORBS cfg"
    "length (orbBuoy ob) = MAX_ORBS cfg" "length (orbTTL ob) = MAX_ORBS cfg"
    using A by (simp_all add: wf_orbs_def)
  show "nat slot < length (orbTTL ob)" "nat slot < length (orbTargets ob)"
    "nat slot < length (orbPositions ob)" "nat slot < length (orbBuoy ob)"
    using k len by simp_all
  have ttl: "orbTTL (setOrb cfg ob slot worldPos strength) ! nat slot
               = fround (max 0.01 (orbMaxTTL cfg))"
    using A k len by (simp add: setOrb_def Let_def)
  show "orbTTL (setOrb cfg ob slot worldPos strength) ! nat slot
          = fround (max 0.01 (orbMaxTTL cfg))"
    by (rule ttl)
  have n: "pow2 (- 126) \<le> max 0.01 (orbMaxTTL cfg)"
    using pow2_floor by simp
  show "0 < orbTTL (setOrb cfg ob slot worldPos strength) ! nat slot"
    unfolding ttl using n by (rule fround_pos)
  show "fround 0.01 \<le> orbTTL (setOrb cfg ob slot worldPos strength) ! nat slot"
    unfolding ttl by (rule fround_mono) simp
  show "wf_orbs cfg (setOrb cfg ob slot worldPos strength)"
    using len by (simp add: setOrb_def Let_def wf_orbs_def)
  {
    assume m: "0.010000001 \<le> orbMaxTTL cfg"
    let ?x = "max 0.01 (orbMaxTTL cfg)"
    have x: "0.010000001 \<le> ?x" using m by simp
    have "0.010000001 * (1 - 1 / 2 ^ 24) \<le> ?x * (1 - 1 / 2 ^ 24)"
      using x by (intro mult_right_mono) simp_all
    moreover have "?x * (1 - 1 / 2 ^ 24) \<le> fround ?x"
      using n by (rule fround_lower)
    moreover have "(0.01::real) \<le> 0.010000001 * (1 - 1 / 2 ^ 24)" by simp
    ultimately show "0.01 \<le> orbTTL (setOrb cfg ob slot worldPos strength) ! nat slot"
      unfolding ttl by linarith
  }
qed

theorem setOrb_guard_witness:
  "setOrb CONFIG_balloon
      \<lparr>orbPositions = replicate 29 (Vector3 0 0 0), orbTargets = replicate 29 (Vector3 0 0 0),
       orbBuoy = replicate 29 0, orbTTL = replicate 29 0\<rparr> 29 (Vector3 1 2 3) None
     = \<lparr>orbPositions = replicate 29 (Vector3 0 0 0), orbTargets = replicate 29 (Vector3 0 0 0),
        orbBuoy = replicate 29 0, orbTTL = replicate 29 0\<rparr> \<and>
   orbTTL (setOrb CONFIG_balloon
      \<lparr>orbPositions = replicate 29 (Vector3 0 0 0), orbTargets = replicate 29 (Vector3 0 0 0),
       orbBuoy = replicate 29 0, orbTTL = replicate 29 0\<rparr> 28 (Vector3 1 2 3) None) ! 28
     = 16106127 / 134217728 \<and>
   0.01 \<le> orbTTL (setOrb CONFIG_balloon
      \<lparr>orbPositions = replicate 29 (Vector3 0 0 0), orbTargets = replicate 29 (Vector3 0 0 0),
       orbBuoy = replicate 29 0, orbTTL = replicate 29 0\<rparr> 28 (Vector3 1 2 3) None) ! 28"
proof -
  let ?ob = "\<lparr>orbPositions = replicate 29 (Vector3 0 0 0), orbTargets = replicate 29 (Vector3 0 0 0),
       orbBuoy = replicate 29 (0::real), orbTTL = replicate 29 (0::real)\<rparr>"
  have wf: "wf_orbs CONFIG_balloon ?ob"
    by (simp add: wf_orbs_def MAX_ORBS_CONFIG)
  have m: "max 0.01 (orbMaxTTL CONFIG_balloon) = 0.12" "0.010000001 \<le> orbMaxTTL CONFIG_balloon"
    by (simp_all add: CONFIG_balloon_def)
  have out: "(29::int) < 0 \<or> int (MAX_ORBS CONFIG_balloon) \<le> 29"
    by (simp add: MAX_ORBS_CONFIG)
  have pre: "0 \<le> (28::int) \<and> 28 < int (MAX_ORBS CONFIG_balloon) \<and> wf_orbs CONFIG_balloon ?ob"
    using wf by (simp add: MAX_ORBS_CONFIG)
  have "setOrb CONFIG_balloon ?ob 29 (Vector3 1 2 3) None = ?ob"
    using setOrb_guard[of 29 CONFIG_balloon ?ob "Vector3 1 2 3" None] out by blast
  moreover have "orbTTL (setOrb CONFIG_balloon ?ob 28 (Vector3 1 2 3) None) ! nat 28
                   = fround (max 0.01 (orbMaxTTL CONFIG_balloon))"
    using setOrb_guard[of 28 CONFIG_balloon ?ob "Vector3 1 2 3" None] pre by blast
  then have "orbTTL (setOrb CONFIG_balloon ?ob 28 (Vector3 1 2 3) None) ! nat 28
               = 16106127 / 134217728"
    unfolding m(1) fround_values(4) .
  moreover have "0.01 \<le> orbTTL (setOrb CONFIG_balloon ?ob 28 (Vector3 1 2 3) None) ! nat 28"
    using setOrb_guard[of 28 CONFIG_balloon ?ob "Vector3 1 2 3" None] pre m(2) by blast
  ultimately show ?thesis by simp
qed

text \<open>
  At a frame of ten milliseconds the exponent of the source is \<open>max 1 0.6 = 1\<close>: the
  factor is the smoothing rate 0.14 itself, not the \<open>1 - 0.86 powr 0.6\<close> of the formula.
\<close>

theorem orbAlpha_short_frame_counterexample:
  "orbAlpha CONFIG_balloon 0.01 \<noteq> spec_alpha (orbSmoothing CONFIG_balloon) 0.01"
proof -
  have a: "orbAlpha CONFIG_balloon 0.01 = 0.14"
    by (simp add: orbAlpha_def CONFIG_balloon_def Math_pow_def)
  have "(0.86::real) powr 1 < 0.86 powr 0.6"
    by (rule powr_less_mono') simp_all
  then have "spec_alpha (orbSmoothing CONFIG_balloon) 0.01 < 0.14"
    by (simp add: spec_alpha_def CONFIG_balloon_def)
  with a show ?thesis by simp
qed

text \<open>
  C7 (as amended). Each frame \<open>smoothOrbs\<close> moves the smoothed position of every live orb
  towards its target by linear interpolation with the factor \<open>alpha\<close>, and leaves the
  other orbs, the targets and the times to live as they are; the main loop passes
  \<open>alpha = 1 - (1 - orbSmoothing) powr max 1 (dt * 60)\<close>. For a frame of at least one
  sixtieth of a second this is the formula \<open>1 - (1 - smoothingRate) powr (dt * 60)\<close>; for a
  shorter frame the exponent is held at 1 and the factor is the smoothing rate itself.
\<close>

theorem orb_smoothing_factor:
  "(wf_orbs cfg ob \<longrightarrow>
      (\<forall>i < MAX_ORBS cfg.
         orbPositions (smoothOrbs cfg alpha ob) ! i =
           (if 0 < orbTTL ob ! i then lerp (orbPositions ob ! i) (orbTargets ob ! i) alpha
            else orbPositions ob ! i)) \<and>
      orbTargets (smoothOrbs cfg alpha ob) = orbTargets ob \<and>
      orbTTL (smoothOrbs cfg alpha ob) = orbTTL ob) \<and>
   fst (animate_balloon cfg bnd project lastTime now orbUpdates poseBoxesNDC g ob s) =
     smoothOrbs cfg (orbAlpha cfg (animate_dt (Num (now - lastTime))))
       (fold (\<lambda>(slot, worldPos, strength) ob0. setOrb cfg ob0 slot worldPos strength) orbUpdates
          (decayTTL cfg (animate_dt (Num (now - lastTime))) ob)) \<and>
   orbAlpha cfg dt = 1 - (1 - orbSmoothing cfg) powr (max 1 (dt * 60)) \<and>
   (1 \<le> dt * 60 \<longrightarrow> orbAlpha cfg dt = spec_alpha (orbSmoothing cfg) dt) \<and>
   (dt * 60 < 1 \<and> orbSmoothing cfg \<le> 1 \<longrightarrow> orbAlpha cfg dt = orbSmoothing cfg)"
proof (intro conjI impI)
  assume wf: "wf_orbs cfg ob"
  then have n: "MAX_ORBS cfg \<le> length (orbPositions ob)" by (simp add: wf_orbs_def)
  note F = smoothOrb_fold[OF n, of alpha]
  show "\<forall>i < MAX_ORBS cfg.
         orbPositions (smoothOrbs cfg alpha ob) ! i =
           (if 0 < orbTTL ob ! i then lerp (orbPositions ob ! i) (orbTargets ob ! i) alpha
            else orbPositions ob ! i)"
    using F by (simp add: smoothOrbs_def)
  show "orbTargets (smoothOrbs cfg alpha ob) = orbTargets ob"
    using F by (simp add: smoothOrbs_def)
  show "orbTTL (smoothOrbs cfg alpha ob) = orbTTL ob"
    using F by (simp add: smoothOrbs_def)
next
  show "fst (animate_balloon cfg bnd project lastTime now orbUpdates poseBoxesNDC g ob s) =
     smoothOrbs cfg (orbAlpha cfg (animate_dt (Num (now - lastTime))))
       (fold (\<lambda>(slot, worldPos, strength) ob0. setOrb cfg ob0 slot worldPos strength) orbUpdates
          (decayTTL cfg (animate_dt (Num (now - lastTime))) ob))"
    by (simp add: animate_balloon_def Let_def split: prod.splits)
next
  show "orbAlpha cfg dt = 1 - (1 - orbSmoothing cfg) powr (max 1 (dt * 60))"
    by (simp add: orbAlpha_def Math_pow_def)
next
  assume "1 \<le> dt * 60"
  then show "orbAlpha cfg dt = spec_alpha (orbSmoothing cfg) dt"
    by (simp add: orbAlpha_def Math_pow_def spec_alpha_def max_def)
next
  assume "dt * 60 < 1 \<and> orbSmoothing cfg \<le> 1"
  then show "orbAlpha cfg dt = orbSmoothing cfg"
    by (simp add: orbAlpha_def Math_pow_def max_def)
qed

theorem orb_smoothing_factor_witness:
  "orbPositions (smoothOrbs CONFIG_balloon (1 / 2)
      \<lparr>orbPositions = replicate 29 (Vector3 0 0 0), orbTargets = replicate 29 (Vector3 2 4 6),
       orbBuoy = replicate 29 1, orbTTL = 0.12 # replicate 28 0\<rparr>) ! 0 = Vector3 1 2 3 \<and>
   orbAlpha CONFIG_balloon 0.05 = spec_alpha 0.14 0.05 \<and>
   orbAlpha CONFIG_balloon 0.01 = 0.14"
proof -
  let ?ob = "\<lparr>orbPositions = replicate 29 (Vector3 0 0 0), orbTargets = replicate 29 (Vector3 2 4 6),
       orbBuoy = replicate 29 (1::real), orbTTL = 0.12 # replicate 28 (0::real)\<rparr>"
  have wf: "wf_orbs CONFIG_balloon ?ob"
    by (simp add: wf_orbs_def MAX_ORBS_CONFIG)
  have s: "orbSmoothing CONFIG_balloon = 0.14"
    by (simp add: CONFIG_balloon_def)
  have "orbPositions (smoothOrbs CONFIG_balloon (1 / 2) ?ob) ! 0 = Vector3 1 2 3"
    using orb_smoothing_factor[of CONFIG_balloon ?ob "1 / 2"] wf
    by (simp add: MAX_ORBS_CONFIG lerp_def)
  moreover have "orbAlpha CONFIG_balloon 0.05 = spec_alpha 0.14 0.05"
  proof -
    have p: "(1::real) \<le> 0.05 * 60" by simp
    have "orbAlpha CONFIG_balloon 0.05 = spec_alpha (orbSmoothing CONFIG_balloon) 0.05"
      using orb_smoothing_factor[where cfg = CONFIG_balloon and dt = "0.05"] p by blast
    then show ?thesis unfolding s .
  qed
  moreover have "orbAlpha CONFIG_balloon 0.01 = 0.14"
  proof -
    have p: "(0.01::real) * 60 < 1 \<and> orbSmoothing CONFIG_balloon \<le> 1" by (simp add: s)
    have "orbAlpha CONFIG_balloon 0.01 = orbSmoothing CONFIG_balloon"
      using orb_smoothing_factor[where cfg = CONFIG_balloon and dt = "0.01"] p by blast
    then show ?thesis unfolding s .
  qed
  ultimately show ?thesis by simp
qed

section \<open>Collision resolution\<close>

text \<open>
  C3. In the lantern program's collision pass, a pair at a distance \<open>d\<close> with
  \<open>0 < d < 2 * collisionRadius\<close> is moved apart by half the overlap each along the unit
  normal, so the separation becomes \<open>2 * collisionRadius\<close>, larger than \<open>d\<close>. If the pair
  approaches (negative velocity along the normal) the two velocities receive opposite
  impulses of magnitude \<open>(1 + restitution) * \<bar>vn\<bar> * 0.5\<close> along the normal; the velocity
  along the normal becomes \<open>- restitution * vn\<close>, so the closing speed is reduced for a
  restitution above \<open>-1\<close> and the pair no longer approaches for a restitution of at least
  zero. A pair that does not approach keeps its velocities. A pair at a distance of zero,
  or of at least \<open>2 * collisionRadius\<close>, is left unchanged.
\<close>

theorem resolvePair_contact:
  fixes cfg :: lantern_config and a b :: lantern
  defines "minDist \<equiv> collisionRadius cfg * 2"
      and "e \<equiv> collisionRestitution cfg"
      and "d \<equiv> dist3 (position a) (position b)"
      and "n \<equiv> unitNormal (position a) (position b)"
      and "vn \<equiv> normalVelocity a b"
  defines "a' \<equiv> fst (resolvePair minDist e a b)"
      and "b' \<equiv> snd (resolvePair minDist e a b)"
  shows
    "(0 < d \<and> d < minDist \<longrightarrow>
        position a' = addScaled (position a) (- ((minDist - d) * 0.5)) n \<and>
        position b' = addScaled (position b) ((minDist - d) * 0.5) n \<and>
        dist3 (position a') (position b') = minDist \<and>
        d < dist3 (position a') (position b') \<and>
        (vn < 0 \<longrightarrow>
           velocity a' = addScaled (velocity a) (- ((1 + e) * \<bar>vn\<bar> * 0.5)) n \<and>
           velocity b' = addScaled (velocity b) ((1 + e) * \<bar>vn\<bar> * 0.5) n \<and>
           normalVelocity a' b' = - e * vn \<and>
           (- 1 < e \<longrightarrow> vn < normalVelocity a' b') \<and>
           (0 \<le> e \<longrightarrow> 0 \<le> normalVelocity a' b')) \<and>
        (0 \<le> vn \<longrightarrow> velocity a' = velocity a \<and> velocity b' = velocity b)) \<and>
     (d = 0 \<or> minDist \<le> d \<longrightarrow> a' = a \<and> b' = b) \<and>
     handleCollisions cfg [a, b] = [a', b']"
proof (intro conjI impI)
  show "handleCollisions cfg [a, b] = [a', b']"
    by (simp add: handleCollisions_two a'_def b'_def minDist_def e_def)
next
  assume "d = 0 \<or> minDist \<le> d"
  then have "resolvePair minDist e a b = (a, b)"
    unfolding d_def by (rule resolvePair_far)
  then show "a' = a" "b' = b" by (simp_all add: a'_def b'_def)
next
  assume c: "0 < d \<and> d < minDist"
  then have d0: "0 < dist3 (position a) (position b)"
    and d1: "dist3 (position a) (position b) < minDist"
    by (simp_all add: d_def)
  let ?h = "(minDist - d) * 0.5"
  have pos: "position a' = addScaled (position a) (- ?h) n \<and>
             position b' = addScaled (position b) ?h n"
  proof (cases "0 < vn")
    case True
    then show ?thesis
      unfolding a'_def b'_def n_def d_def
      using resolvePair_separating[OF d0 d1, of e] by (simp add: vn_def)
  next
    case False
    then have "normalVelocity a b \<le> 0" by (simp add: vn_def)
    then show ?thesis
      unfolding a'_def b'_def n_def d_def
      using resolvePair_approaching[OF d0 d1, of e] by simp
  qed
  show pa: "position a' = addScaled (position a) (- ?h) n"
    and pb: "position b' = addScaled (position b) ?h n"
    using pos by simp_all
  show D: "dist3 (position a') (position b') = minDist"
    unfolding pa pb n_def d_def using d0 d1 by (rule pushed_apart(1))
  show "d < dist3 (position a') (position b')"
    unfolding D using c by simp
  {
    assume neg: "vn < 0"
    then have le: "normalVelocity a b \<le> 0" by (simp add: vn_def)
    let ?j = "(1 + e) * \<bar>vn\<bar> * 0.5"
    have R: "resolvePair minDist e a b =
       (a\<lparr>position := addScaled (position a) (- ?h) n, velocity := addScaled (velocity a) (- ?j) n\<rparr>,
        b\<lparr>position := addScaled (position b) ?h n, velocity := addScaled (velocity b) ?j n\<rparr>)"
      unfolding n_def d_def vn_def by (rule resolvePair_approaching[OF d0 d1 le])
    show va: "velocity a' = addScaled (velocity a) (- ?j) n"
      and vb: "velocity b' = addScaled (velocity b) ?j n"
      by (simp_all add: a'_def b'_def R)
    have "normalVelocity a' b' = vn + 2 * ?j"
      unfolding a'_def b'_def R fst_conv snd_conv vn_def n_def d_def
      using d0 d1 by (rule impulse_normalVelocity)
    also have "\<dots> = - e * vn" using neg by (simp add: algebra_simps)
    finally show nv: "normalVelocity a' b' = - e * vn" .
    {
      assume "- 1 < e"
      then have "(1 + e) * vn < 0" using neg by (simp add: mult_pos_neg)
      then show "vn < normalVelocity a' b'" unfolding nv by (simp add: algebra_simps)
    }
    {
      assume "0 \<le> e"
      then have "e * vn \<le> 0" using neg by (simp add: mult_nonneg_nonpos)
      then show "0 \<le> normalVelocity a' b'" unfolding nv by simp
    }
  }
  {
    assume nn: "0 \<le> vn"
    show "velocity a' = velocity a" "velocity b' = velocity b"
    proof -
      have "velocity a' = velocity a \<and> velocity b' = velocity b"
      proof (cases "0 < vn")
        case True
        then show ?thesis
          unfolding a'_def b'_def
          using resolvePair_separating[OF d0 d1, of e] by (simp add: vn_def)
      next
        case False
        then have z: "normalVelocity a b = 0" using nn by (simp add: vn_def)
        then have "normalVelocity a b \<le> 0" by simp
        from resolvePair_approaching[OF d0 d1 this, of e] show ?thesis
          unfolding a'_def b'_def by (simp add: z addScaled_def)
      qed
      then show "velocity a' = velocity a" "velocity b' = velocity b" by simp_all
    qed
  }
qed

theorem resolvePair_contact_witness:
  "dist3 (Vector3 0 0 0) (Vector3 0 (1 / 2) 0) = 1 / 2 \<and>
   collisionRadius CONFIG_lantern * 2 = 7 / 10 \<and>
   normalVelocity (lanternAt (Vector3 0 0 0) (Vector3 0 1 0) 0 False)
                  (lanternAt (Vector3 0 (1 / 2) 0) (Vector3 0 (- 1) 0) 0 False) = - 2 \<and>
   position (fst (resolvePair (collisionRadius CONFIG_lantern * 2) (collisionRestitution CONFIG_lantern)
      (lanternAt (Vector3 0 0 0) (Vector3 0 1 0) 0 False)
      (lanternAt (Vector3 0 (1 / 2) 0) (Vector3 0 (- 1) 0) 0 False))) = Vector3 0 (- 1 / 10) 0 \<and>
   position (snd (resolvePair (collisionRadius CONFIG_lantern * 2) (collisionRestitution CONFIG_lantern)
      (lanternAt (Vector3 0 0 0) (Vector3 0 1 0) 0 False)
      (lanternAt (Vector3 0 (1 / 2) 0) (Vector3 0 (- 1) 0) 0 False))) = Vector3 0 (6 / 10) 0 \<and>
   velocity (fst (resolvePair (collisionRadius CONFIG_lantern * 2) (collisionRestitution CONFIG_lantern)
      (lanternAt (Vector3 0 0 0) (Vector3 0 1 0) 0 False)
      (lanternAt (Vector3 0 (1 / 2) 0) (Vector3 0 (- 1) 0) 0 False))) = Vector3 0 (- 3 / 10) 0 \<and>
   velocity (snd (resolvePair (collisionRadius CONFIG_lantern * 2) (collisionRestitution CONFIG_lantern)
      (lanternAt (Vector3 0 0 0) (Vector3 0 1 0) 0 False)
      (lanternAt (Vector3 0 (1 / 2) 0) (Vector3 0 (- 1) 0) 0 False))) = Vector3 0 (3 / 10) 0 \<and>
   normalVelocity
     (fst (resolvePair (collisionRadius CONFIG_lantern * 2) (collisionRestitution CONFIG_lantern)
        (lanternAt (Vector3 0 0 0) (Vector3 0 1 0) 0 False)
        (lanternAt (Vector3 0 (1 / 2) 0) (Vector3 0 (- 1) 0) 0 False)))
     (snd (resolvePair (collisionRadius CONFIG_lantern * 2) (collisionRestitution CONFIG_lantern)
        (lanternAt (Vector3 0 0 0) (Vector3 0 1 0) 0 False)
        (lanternAt (Vector3 0 (1 / 2) 0) (Vector3 0 (- 1) 0) 0 False))) = 6 / 10"
proof -
  let ?a = "lanternAt (Vector3 0 0 0) (Vector3 0 1 0) 0 False"
  let ?b = "lanternAt (Vector3 0 (1 / 2) 0) (Vector3 0 (- 1) 0) 0 False"
  let ?m = "collisionRadius CONFIG_lantern * 2"
  let ?e = "collisionRestitution CONFIG_lantern"
  let ?R = "resolvePair ?m ?e ?a ?b"
  have pa: "position ?a = Vector3 0 0 0" and pb: "position ?b = Vector3 0 (1 / 2) 0"
    and va: "velocity ?a = Vector3 0 1 0" and vb: "velocity ?b = Vector3 0 (- 1) 0"
    by (simp_all add: lanternAt_def)
  have d: "dist3 (Vector3 0 0 0) (Vector3 0 (1 / 2) 0) = 1 / 2"
    by (simp add: dist3_def real_sqrt_divide)
  have m: "?m = 7 / 10"
    by (simp add: collisionRadius_def CONFIG_lantern_def)
  have e: "?e = 3 / 10"
    by (simp add: CONFIG_lantern_def)
  have n: "unitNormal (Vector3 0 0 0) (Vector3 0 (1 / 2) 0) = Vector3 0 1 0"
    by (simp add: unitNormal_def d)
  have vn: "normalVelocity ?a ?b = - 2"
    by (simp add: normalVelocity_def pa pb va vb d)
  have hyp: "0 < dist3 (position ?a) (position ?b) \<and> dist3 (position ?a) (position ?b) < ?m"
    by (simp add: pa pb d m)
  have neg: "normalVelocity ?a ?b < 0" by (simp add: vn)
  note T = resolvePair_contact[of ?a ?b CONFIG_lantern, THEN conjunct1, rule_format, OF hyp]
  have P: "position (fst ?R) = Vector3 0 (- 1 / 10) 0" "position (snd ?R) = Vector3 0 (6 / 10) 0"
    using T by (simp_all add: pa pb d m n addScaled_def)
  have T2: "velocity (fst ?R) = addScaled (velocity ?a) (- ((1 + ?e) * \<bar>normalVelocity ?a ?b\<bar> * 0.5))
                                 (unitNormal (position ?a) (position ?b))"
           "velocity (snd ?R) = addScaled (velocity ?b) ((1 + ?e) * \<bar>normalVelocity ?a ?b\<bar> * 0.5)
                                 (unitNormal (position ?a) (position ?b))"
           "normalVelocity (fst ?R) (snd ?R) = - ?e * normalVelocity ?a ?b"
    using T neg by blast+
  have V: "velocity (fst ?R) = Vector3 0 (- 3 / 10) 0" "velocity (snd ?R) = Vector3 0 (3 / 10) 0"
    using T2(1,2) by (simp_all add: pa pb va vb vn e n addScaled_def)
  have N: "normalVelocity (fst ?R) (snd ?R) = 6 / 10"
    using T2(3) by (simp add: vn e)
  show ?thesis
    using d m vn P V N by simp
qed

section \<open>Buoyancy\<close>

text \<open>
  C1. With draws in \<open>[0, 1)\<close> and an initial buoyancy factor in \<open>[0, 1]\<close> (0.4 and 0.1 as
  shipped), the buoyancy of every instance lies in \<open>[0, 1]\<close>: in the lantern program when
  a lantern is spawned or reset, after \<open>updateLanterns\<close> and after the whole frame; in the
  balloon program after the initial fill, after \<open>applyOrbInfluence\<close> and after the whole
  frame, for every instance of arrays of the allocated length. The instanced attribute
  \<open>iBuoy\<close> carries the same value.
\<close>

theorem buoyancy_unit_interval:
  assumes "unit_rng g"
    and "0 \<le> initialBuoyancy_maxFactor lcfg" "initialBuoyancy_maxFactor lcfg \<le> 1"
    and "0 \<le> initialBuoyancy_maxFactor bcfg" "initialBuoyancy_maxFactor bcfg \<le> 1"
    and "wf_balloons (count bcfg) s"
  shows
    "(0 \<le> buoyancy (fst (spawnLantern lcfg bnd g isInitial)) \<and>
      buoyancy (fst (spawnLantern lcfg bnd g isInitial)) \<le> 1) \<and>
     (0 \<le> buoyancy (fst (resetLantern lcfg bnd g l isInitial)) \<and>
      buoyancy (fst (resetLantern lcfg bnd g l isInitial)) \<le> 1) \<and>
     (\<forall>l' \<in> set (fst (updateLanterns lcfg bnd dt time g ls)).
        0 \<le> buoyancy l' \<and> buoyancy l' \<le> 1) \<and>
     (\<forall>l' \<in> set (fst (animate_lantern lcfg bnd False lastTime now g ls)).
        0 \<le> buoyancy l' \<and> buoyancy l' \<le> 1) \<and>
     (\<forall>i < count bcfg. 0 \<le> buoy (fst (initialFill bcfg bnd g s)) ! i \<and>
                         buoy (fst (initialFill bcfg bnd g s)) ! i \<le> 1) \<and>
     (\<forall>i < count bcfg.
        0 \<le> buoy (fst (applyOrbInfluence bcfg bnd project boxes ob dt g s)) ! i \<and>
        buoy (fst (applyOrbInfluence bcfg bnd project boxes ob dt g s)) ! i \<le> 1) \<and>
     (\<forall>i < count bcfg.
        0 \<le> buoy (fst (snd (animate_balloon bcfg bnd project lastTime now ups boxes g ob s))) ! i \<and>
        buoy (fst (snd (animate_balloon bcfg bnd project lastTime now ups boxes g ob s))) ! i \<le> 1 \<and>
        iBuoy (fst (snd (animate_balloon bcfg bnd project lastTime now ups boxes g ob s))) ! i =
          buoy (fst (snd (animate_balloon bcfg bnd project lastTime now ups boxes g ob s))) ! i)"
proof (intro conjI)
  show "0 \<le> buoyancy (fst (spawnLantern lcfg bnd g isInitial))"
    "buoyancy (fst (spawnLantern lcfg bnd g isInitial)) \<le> 1"
    using resetLantern_buoyancy[OF unit_rng_drop[OF assms(1), of 9] assms(2,3)]
    by (simp_all add: spawnLantern_def Let_def)
  show "0 \<le> buoyancy (fst (resetLantern lcfg bnd g l isInitial))"
    "buoyancy (fst (resetLantern lcfg bnd g l isInitial)) \<le> 1"
    using resetLantern_buoyancy[OF assms(1,2,3)] by simp_all
  have U: "\<forall>l' \<in> set (fst (updateLanterns lcfg bnd dt time g ls)).
             0 \<le> buoyancy l' \<and> buoyancy l' \<le> 1" for dt time
    using assms(1)
  proof (rule updateLanterns_inv[where P = "\<lambda>l'. 0 \<le> buoyancy l' \<and> buoyancy l' \<le> 1", rotated])
    fix g' l'
    assume "unit_rng g'"
    then show "0 \<le> buoyancy (fst (updateLantern lcfg bnd dt time g' l')) \<and>
               buoyancy (fst (updateLantern lcfg bnd dt time g' l')) \<le> 1"
      using assms(2,3) by (rule updateLantern_buoyancy)
  qed
  show "\<forall>l' \<in> set (fst (updateLanterns lcfg bnd dt time g ls)).
          0 \<le> buoyancy l' \<and> buoyancy l' \<le> 1"
    by (rule U)
  show "\<forall>l' \<in> set (fst (animate_lantern lcfg bnd False lastTime now g ls)).
          0 \<le> buoyancy l' \<and> buoyancy l' \<le> 1"
  proof
    fix l'
    let ?dt = "animate_dt (Num (now - lastTime))"
    let ?ls1 = "fst (updateLanterns lcfg bnd ?dt (now * 0.001) g ls)"
    assume "l' \<in> set (fst (animate_lantern lcfg bnd False lastTime now g ls))"
    then have "l' \<in> set (handleCollisions lcfg ?ls1)"
      by (simp add: animate_lantern_def Let_def case_prod_beta)
    then obtain l1 where "l1 \<in> set ?ls1" "buoyancy l' = buoyancy l1"
      using handleCollisions_buoyancy by blast
    then show "0 \<le> buoyancy l' \<and> buoyancy l' \<le> 1" using U by simp
  qed
  show "\<forall>i < count bcfg. 0 \<le> buoy (fst (initialFill bcfg bnd g s)) ! i \<and>
                         buoy (fst (initialFill bcfg bnd g s)) ! i \<le> 1"
    using assms(6,1,4,5) by (rule initialFill_unit)
  have A: "wf_balloons (count bcfg) (fst (applyOrbInfluence bcfg bnd project boxes ob dt g s)) \<and>
         unit_rng (snd (applyOrbInfluence bcfg bnd project boxes ob dt g s)) \<and>
         (\<forall>i < count bcfg.
            0 \<le> buoy (fst (applyOrbInfluence bcfg bnd project boxes ob dt g s)) ! i \<and>
            buoy (fst (applyOrbInfluence bcfg bnd project boxes ob dt g s)) ! i \<le> 1 \<and>
            iBuoy (fst (applyOrbInfluence bcfg bnd project boxes ob dt g s)) ! i =
              buoy (fst (applyOrbInfluence bcfg bnd project boxes ob dt g s)) ! i)" for ob dt
    using assms(6,1) by (rule applyOrbInfluence_unit)
  show "\<forall>i < count bcfg.
        0 \<le> buoy (fst (applyOrbInfluence bcfg bnd project boxes ob dt g s)) ! i \<and>
        buoy (fst (applyOrbInfluence bcfg bnd project boxes ob dt g s)) ! i \<le> 1"
    using A by blast
  show "\<forall>i < count bcfg.
        0 \<le> buoy (fst (snd (animate_balloon bcfg bnd project lastTime now ups boxes g ob s))) ! i \<and>
        buoy (fst (snd (animate_balloon bcfg bnd project lastTime now ups boxes g ob s))) ! i \<le> 1 \<and>
        iBuoy (fst (snd (animate_balloon bcfg bnd project lastTime now ups boxes g ob s))) ! i =
          buoy (fst (snd (animate_balloon bcfg bnd project lastTime now ups boxes g ob s))) ! i"
  proof -
    let ?dt = "animate_dt (Num (now - lastTime))"
    let ?ob3 = "smoothOrbs bcfg (orbAlpha bcfg ?dt)
                  (fold (\<lambda>(slot, worldPos, strength) ob0. setOrb bcfg ob0 slot worldPos strength) ups
                     (decayTTL bcfg ?dt ob))"
    let ?A = "applyOrbInfluence bcfg bnd project boxes ?ob3 ?dt g s"
    let ?I = "\<lambda>s i. 0 \<le> buoy s ! i \<and> buoy s ! i \<le> 1 \<and> iBuoy s ! i = buoy s ! i"
    have fr: "fst (snd (animate_balloon bcfg bnd project lastTime now ups boxes g ob s)) =
              fst (updatePhysics bcfg bnd ?dt (now * 0.001) (snd ?A) (fst ?A))"
      by (simp add: animate_balloon_def Let_def case_prod_beta)
    have "wf_balloons (count bcfg) (fst (updatePhysics bcfg bnd ?dt (now * 0.001) (snd ?A) (fst ?A))) \<and>
          unit_rng (snd (updatePhysics bcfg bnd ?dt (now * 0.001) (snd ?A) (fst ?A))) \<and>
          (\<forall>i < count bcfg. ?I (fst (updatePhysics bcfg bnd ?dt (now * 0.001) (snd ?A) (fst ?A))) i \<and> True)"
    proof (rule updatePhysics_invariant[where I = ?I and Q = "\<lambda>s i. True"])
      show "wf_balloons (count bcfg) (fst ?A)" "unit_rng (snd ?A)" "\<forall>i < count bcfg. ?I (fst ?A) i"
        using A[of ?ob3 ?dt] by blast+
    next
      fix i j s' g'
      assume "j < count bcfg" "wf_balloons (count bcfg) s'" "unit_rng g'" "?I s' j"
      then show "?I (fst (updatePhysics_step bcfg bnd ?dt (now * 0.001) i s' g')) j"
        using assms(4,5) by (intro updatePhysics_step_buoy) simp_all
    qed simp_all
    then show ?thesis unfolding fr by simp
  qed
qed

theorem buoyancy_unit_interval_witness:
  "unit_rng (const_rng (1 / 2)) \<and>
   initialBuoyancy_maxFactor CONFIG_lantern = 0.4 \<and>
   initialBuoyancy_maxFactor CONFIG_balloon = 0.1 \<and>
   wf_balloons (count CONFIG_balloon) (allocBalloons 400) \<and>
   buoyancy (fst (resetLantern CONFIG_lantern stage_bounds (const_rng (1 / 2))
                    (lanternAt (Vector3 0 10 0) (Vector3 0 0 0) 1 True) False)) = 0.1 \<and>
   0 \<le> buoyancy (hd (fst (updateLanterns CONFIG_lantern stage_bounds 0.05 1 (const_rng (1 / 2))
                             [lanternAt (Vector3 0 10 0) (Vector3 0 0 0) 1 True]))) \<and>
   buoyancy (hd (fst (updateLanterns CONFIG_lantern stage_bounds 0.05 1 (const_rng (1 / 2))
                        [lanternAt (Vector3 0 10 0) (Vector3 0 0 0) 1 True]))) \<le> 1 \<and>
   0 \<le> buoy (fst (snd (animate_balloon CONFIG_balloon sky_bounds stage_camera 950 1000
                           [(0, Vector3 0 6 0, Some 1)] [] (const_rng (1 / 2))
                           (allocOrbs CONFIG_balloon) (allocBalloons 400)))) ! 0 \<and>
   buoy (fst (snd (animate_balloon CONFIG_balloon sky_bounds stage_camera 950 1000
                      [(0, Vector3 0 6 0, Some 1)] [] (const_rng (1 / 2))
                      (allocOrbs CONFIG_balloon) (allocBalloons 400)))) ! 0 \<le> 1"
proof -
  let ?L = "lanternAt (Vector3 0 10 0) (Vector3 0 0 0) 1 True"
  have h1: "unit_rng (const_rng (1 / 2))"
    by (simp add: unit_rng_def const_rng_def)
  have ml: "initialBuoyancy_maxFactor CONFIG_lantern = 0.4"
    by (simp add: CONFIG_lantern_def)
  have mb: "initialBuoyancy_maxFactor CONFIG_balloon = 0.1"
    by (simp add: CONFIG_balloon_def)
  have h2: "0 \<le> initialBuoyancy_maxFactor CONFIG_lantern"
    and h3: "initialBuoyancy_maxFactor CONFIG_lantern \<le> 1"
    and h4: "0 \<le> initialBuoyancy_maxFactor CONFIG_balloon"
    and h5: "initialBuoyancy_maxFactor CONFIG_balloon \<le> 1"
    by (simp_all add: ml mb)
  have h6: "wf_balloons (count CONFIG_balloon) (allocBalloons 400)"
    by (simp add: wf_balloons_def allocBalloons_def CONFIG_balloon_def)
  have v: "buoyancy (fst (resetLantern CONFIG_lantern stage_bounds (const_rng (1 / 2)) ?L False)) = 0.1"
    by (simp add: resetLantern_def Let_def const_rng_def ml)
  have m: "hd (fst (updateLanterns CONFIG_lantern stage_bounds 0.05 1 (const_rng (1 / 2)) [?L]))
           \<in> set (fst (updateLanterns CONFIG_lantern stage_bounds 0.05 1 (const_rng (1 / 2)) [?L]))"
    by (simp add: Let_def case_prod_beta)
  have c: "0 < count CONFIG_balloon"
    by (simp add: CONFIG_balloon_def)
  note T = buoyancy_unit_interval[OF h1 h2 h3 h4 h5 h6,
      where bnd = stage_bounds and dt = "0.05" and time = 1 and ls = "[?L]"]
  note T' = buoyancy_unit_interval[OF h1 h2 h3 h4 h5 h6,
      where bnd = sky_bounds and project = stage_camera and lastTime = 950 and now = 1000
        and ups = "[(0, Vector3 0 6 0, Some 1)]" and boxes = "[]" and ob = "allocOrbs CONFIG_balloon"]
  show ?thesis
    using h1 ml mb h6 v m c T T' by blast
qed

section \<open>Vertical speed\<close>

text \<open>
  Two lanterns within the speed limit of 4, the upper one lit and rising at the limit, the
  lower one drifting sideways into it. After one frame of 50 milliseconds the integration
  has clamped the upper lantern to 4 and the collision pass, which runs after the clamp,
  has added the vertical part of the impulse: its vertical speed is above the limit.
\<close>

theorem collision_exceeds_speed_counterexample:
  "\<bar>vec_y (velocity (lanternAt (Vector3 0 10 0) (Vector3 1 0 0) 0 False))\<bar>
      \<le> maxVerticalSpeed CONFIG_lantern \<and>
   \<bar>vec_y (velocity (lanternAt (Vector3 0.72745 9.9525025 0) (Vector3 0 4 0) 1 True))\<bar>
      \<le> maxVerticalSpeed CONFIG_lantern \<and>
   maxVerticalSpeed CONFIG_lantern <
     \<bar>vec_y (velocity (fst (animate_lantern CONFIG_lantern stage_bounds False 950 1000
                               (const_rng (1 / 2))
                               [lanternAt (Vector3 0 10 0) (Vector3 1 0 0) 0 False,
                                lanternAt (Vector3 0.72745 9.9525025 0) (Vector3 0 4 0) 1 True])
                          ! 1))\<bar>"
proof -
  have dt: "animate_dt (Num 50) = 1 / 20"
    by (simp add: animate_dt_def)
  have fr: "fst (animate_lantern CONFIG_lantern stage_bounds False 950 1000 (const_rng (1 / 2))
                   [lanternAt (Vector3 0 10 0) (Vector3 1 0 0) 0 False,
                    lanternAt (Vector3 0.72745 9.9525025 0) (Vector3 0 4 0) 1 True]) ! 1
            = snd (resolvePair (collisionRadius CONFIG_lantern * 2)
                            (collisionRestitution CONFIG_lantern)
       ((lanternAt (Vector3 0.04745 9.9995025 0) (Vector3 0.949 (- 0.00995) 0) 0 False)
                     \<lparr>rotation_y := 0.005\<rparr>)
       ((lanternAt (Vector3 0.72745 10.1525025 0) (Vector3 0 4 0) 1 True)
                     \<lparr>rotation_y := 0.005\<rparr>))"
    by (simp add: animate_lantern_def dt Let_def lower_lantern_step[simplified] upper_lantern_step[simplified]
                  handleCollisions_two)
  have m: "maxVerticalSpeed CONFIG_lantern = 4"
    by (simp add: CONFIG_lantern_def)
  have "maxVerticalSpeed CONFIG_lantern <
     \<bar>vec_y (velocity (fst (animate_lantern CONFIG_lantern stage_bounds False 950 1000
                               (const_rng (1 / 2))
                               [lanternAt (Vector3 0 10 0) (Vector3 1 0 0) 0 False,
                                lanternAt (Vector3 0.72745 9.9525025 0) (Vector3 0 4 0) 1 True])
                          ! 1))\<bar>"
    unfolding fr contact_vy m by simp
  then show ?thesis
    by (simp add: m lanternAt_def)
qed

text \<open>
  C2 (as amended). After the integration step of every instance (\<open>updateLanterns\<close> in the
  lantern program, \<open>updatePhysics\<close> and hence the whole frame in the balloon program) the
  magnitude of the vertical velocity does not exceed \<open>maxVerticalSpeed\<close>, provided the
  limit is not negative and the range of the spawn velocity lies within it (as shipped):
  an instance is either clamped or freshly reset. The collision pass of the lantern
  program runs after the clamp and is not covered.
\<close>

theorem vertical_speed_after_integration:
  assumes "unit_rng g"
    and "0 \<le> maxVerticalSpeed lcfg" "- maxVerticalSpeed lcfg \<le> initialVelocity_y_min lcfg"
      "initialVelocity_y_min lcfg \<le> initialVelocity_y_max lcfg"
      "initialVelocity_y_max lcfg \<le> maxVerticalSpeed lcfg"
    and "0 \<le> maxVerticalSpeed bcfg" "- maxVerticalSpeed bcfg \<le> initialVelocity_y_min bcfg"
      "initialVelocity_y_min bcfg \<le> initialVelocity_y_max bcfg"
      "initialVelocity_y_max bcfg \<le> maxVerticalSpeed bcfg"
    and "wf_balloons (count bcfg) s"
  shows
    "(\<forall>l' \<in> set (fst (updateLanterns lcfg bnd dt time g ls)).
        \<bar>vec_y (velocity l')\<bar> \<le> maxVerticalSpeed lcfg) \<and>
     (\<forall>i < count bcfg.
        \<bar>velY (fst (updatePhysics bcfg bnd dt time g s)) ! i\<bar> \<le> maxVerticalSpeed bcfg) \<and>
     (\<forall>i < count bcfg.
        \<bar>velY (fst (snd (animate_balloon bcfg bnd project lastTime now ups boxes g ob s))) ! i\<bar>
          \<le> maxVerticalSpeed bcfg)"
proof (intro conjI)
  show "\<forall>l' \<in> set (fst (updateLanterns lcfg bnd dt time g ls)).
        \<bar>vec_y (velocity l')\<bar> \<le> maxVerticalSpeed lcfg"
    using assms(1)
  proof (rule updateLanterns_inv[where P = "\<lambda>l'. \<bar>vec_y (velocity l')\<bar> \<le> maxVerticalSpeed lcfg", rotated])
    fix g' l'
    assume "unit_rng g'"
    then show "\<bar>vec_y (velocity (fst (updateLantern lcfg bnd dt time g' l')))\<bar> \<le> maxVerticalSpeed lcfg"
      using assms(2-5) by (rule updateLantern_vy)
  qed
  show "\<forall>i < count bcfg.
        \<bar>velY (fst (updatePhysics bcfg bnd dt time g s)) ! i\<bar> \<le> maxVerticalSpeed bcfg"
    using assms(10,1,6-9) by (rule updatePhysics_velY)
  show "\<forall>i < count bcfg.
        \<bar>velY (fst (snd (animate_balloon bcfg bnd project lastTime now ups boxes g ob s))) ! i\<bar>
          \<le> maxVerticalSpeed bcfg"
  proof -
    let ?dt = "animate_dt (Num (now - lastTime))"
    let ?ob3 = "smoothOrbs bcfg (orbAlpha bcfg ?dt)
                  (fold (\<lambda>(slot, worldPos, strength) ob0. setOrb bcfg ob0 slot worldPos strength) ups
                     (decayTTL bcfg ?dt ob))"
    let ?A = "applyOrbInfluence bcfg bnd project boxes ?ob3 ?dt g s"
    have fr: "fst (snd (animate_balloon bcfg bnd project lastTime now ups boxes g ob s)) =
              fst (updatePhysics bcfg bnd ?dt (now * 0.001) (snd ?A) (fst ?A))"
      by (simp add: animate_balloon_def Let_def case_prod_beta)
    have A: "wf_balloons (count bcfg) (fst ?A)" "unit_rng (snd ?A)"
      using applyOrbInfluence_unit[OF assms(10,1), of bnd project boxes ?ob3 ?dt] by blast+
    show ?thesis
      unfolding fr using A assms(6-9) by (rule updatePhysics_velY)
  qed
qed

theorem vertical_speed_after_integration_witness:
  "unit_rng (const_rng (1 / 2)) \<and>
   wf_balloons (count CONFIG_balloon) (allocBalloons 400) \<and>
   maxVerticalSpeed CONFIG_lantern = 4 \<and>
   maxVerticalSpeed CONFIG_balloon = 5.6 \<and>
   \<bar>vec_y (velocity (hd (fst (updateLanterns CONFIG_lantern stage_bounds 0.05 1 (const_rng (1 / 2))
                                [lanternAt (Vector3 0 10 0) (Vector3 0 4 0) 1 True]))))\<bar> \<le> 4 \<and>
   \<bar>velY (fst (snd (animate_balloon CONFIG_balloon sky_bounds stage_camera 950 1000
                       [(0, Vector3 0 6 0, Some 1)] [] (const_rng (1 / 2))
                       (allocOrbs CONFIG_balloon) (allocBalloons 400)))) ! 0\<bar> \<le> 5.6"
proof -
  let ?L = "lanternAt (Vector3 0 10 0) (Vector3 0 4 0) 1 True"
  have h1: "unit_rng (const_rng (1 / 2))"
    by (simp add: unit_rng_def const_rng_def)
  have h6: "wf_balloons (count CONFIG_balloon) (allocBalloons 400)"
    by (simp add: wf_balloons_def allocBalloons_def CONFIG_balloon_def)
  have l: "0 \<le> maxVerticalSpeed CONFIG_lantern"
      "- maxVerticalSpeed CONFIG_lantern \<le> initialVelocity_y_min CONFIG_lantern"
      "initialVelocity_y_min CONFIG_lantern \<le> initialVelocity_y_max CONFIG_lantern"
      "initialVelocity_y_max CONFIG_lantern \<le> maxVerticalSpeed CONFIG_lantern"
    by (simp_all add: speed_config)
  have b: "0 \<le> maxVerticalSpeed CONFIG_balloon"
      "- maxVerticalSpeed CONFIG_balloon \<le> initialVelocity_y_min CONFIG_balloon"
      "initialVelocity_y_min CONFIG_balloon \<le> initialVelocity_y_max CONFIG_balloon"
      "initialVelocity_y_max CONFIG_balloon \<le> maxVerticalSpeed CONFIG_balloon"
    by (simp_all add: speed_config)
  have m: "hd (fst (updateLanterns CONFIG_lantern stage_bounds 0.05 1 (const_rng (1 / 2)) [?L]))
           \<in> set (fst (updateLanterns CONFIG_lantern stage_bounds 0.05 1 (const_rng (1 / 2)) [?L]))"
    by (simp add: Let_def case_prod_beta)
  have c: "0 < count CONFIG_balloon"
    by (simp add: CONFIG_balloon_def)
  note T = vertical_speed_after_integration[OF h1 l b h6,
      where bnd = stage_bounds and dt = "0.05" and time = 1 and ls = "[?L]"]
  note T' = vertical_speed_after_integration[OF h1 l b h6,
      where bnd = sky_bounds and project = stage_camera and lastTime = 950 and now = 1000
        and ups = "[(0, Vector3 0 6 0, Some 1)]" and boxes = "[]" and ob = "allocOrbs CONFIG_balloon"]
  have "\<bar>vec_y (velocity (hd (fst (updateLanterns CONFIG_lantern stage_bounds 0.05 1
                                      (const_rng (1 / 2)) [?L]))))\<bar> \<le> maxVerticalSpeed CONFIG_lantern"
    using T m by blast
  moreover have "\<bar>velY (fst (snd (animate_balloon CONFIG_balloon sky_bounds stage_camera 950 1000
                       [(0, Vector3 0 6 0, Some 1)] [] (const_rng (1 / 2))
                       (allocOrbs CONFIG_balloon) (allocBalloons 400)))) ! 0\<bar>
                 \<le> maxVerticalSpeed CONFIG_balloon"
    using T' c by blast
  ultimately show ?thesis
    using h1 h6 by (simp add: speed_config)
qed

section \<open>Recycling\<close>



section \<open>Depth containment\<close>

text \<open>
  A lit lantern rises at the speed limit just below the spawn ceiling, close to the near
  depth wall and drifting towards it; the bounds are those of the camera of the lantern
  program, for an aspect ratio of 2. One integration step takes it to the height 18.2,
  above the ceiling \<open>22 * sqrt 2 - 13\<close> (about 18.11), and to the depth \<open>-8.004235\<close>, beyond
  the wall at \<open>-8\<close>. The recycle test comes first: the lantern is reset to a fresh depth
  inside the walls, so the bounce does not fire; it ends at depth 1, not at \<open>zMin\<close>, with
  a negative depth velocity.
\<close>

theorem recycled_at_wall_counterexample:
  "vec_z (position (integrateLantern CONFIG_lantern 0.05 1 1
                      (lanternAt (Vector3 0 18 (- 7.99)) (Vector3 0 4 (- 0.3)) 1 True)))
     < zMin (lantern_view_bounds 2) \<and>
   vec_z (position (fst (updateLantern CONFIG_lantern (lantern_view_bounds 2) 0.05 1
                           (const_rng (3 / 4))
                           (lanternAt (Vector3 0 18 (- 7.99)) (Vector3 0 4 (- 0.3)) 1 True))))
     \<noteq> zMin (lantern_view_bounds 2) \<and>
   vec_z (velocity (fst (updateLantern CONFIG_lantern (lantern_view_bounds 2) 0.05 1
                           (const_rng (3 / 4))
                           (lanternAt (Vector3 0 18 (- 7.99)) (Vector3 0 4 (- 0.3)) 1 True))))
     < 0"
  unfolding recycled_at_wall rising_lantern(2) by (simp add: lantern_view_bounds_eval)

text \<open>
  C8 (as amended). If an integration step drives the depth of an instance below \<open>zMin\<close>
  and the instance is not recycled in that step, the step leaves the instance at the
  wall with a depth velocity that is not negative; symmetrically above \<open>zMax\<close>, with a
  depth velocity that is not positive. A lantern ends at exactly \<open>zMin\<close> with the depth
  velocity \<open>0.6 * \<bar>v\<bar>\<close>. The arrays of a balloon are single-precision: it ends at
  \<open>fround zMin\<close>, which is \<open>zMin\<close> itself for the walls \<open>-18\<close> and \<open>10\<close> of the configuration,
  with the depth velocity \<open>fround (0.6 * \<bar>v\<bar>)\<close>. An instance recycled in that step gets a
  fresh depth instead. In every case the depth after the step lies within the two
  walls, for walls with \<open>zMin \<le> zMax\<close> that, in the balloon program, are single-precision
  numbers.
\<close>

theorem depth_containment:
  fixes l :: lantern and s :: balloons
    and lcfg :: "'a config_scheme" and bcfg :: "'b config_scheme"
    and bnd :: bounds and dt time :: real and g :: rng and i :: nat
  defines "l1 \<equiv> integrateLantern lcfg dt time
                    (fst (updateBuoyancy lcfg bnd dt g (hovered l) (buoyancy l) (decayRate l)
                            (vec_y (position l)))) l"
      and "l' \<equiv> fst (updateLantern lcfg bnd dt time g l)"
      and "s1 \<equiv> integrateInstance bcfg dt time i s"
      and "s' \<equiv> fst (updatePhysics_step bcfg bnd dt time i s g)"
  assumes "unit_rng g" "zMin bnd \<le> zMax bnd" "i < n" "wf_balloons n s"
  shows
    "(\<not> outOfBounds bnd (vec_x (position l1)) (vec_y (position l1)) \<and>
      vec_z (position l1) < zMin bnd \<longrightarrow>
        vec_z (position l') = zMin bnd \<and>
        vec_z (velocity l') = \<bar>vec_z (velocity l1)\<bar> * 0.6 \<and> 0 \<le> vec_z (velocity l')) \<and>
     (\<not> outOfBounds bnd (vec_x (position l1)) (vec_y (position l1)) \<and>
      zMax bnd < vec_z (position l1) \<longrightarrow>
        vec_z (position l') = zMax bnd \<and>
        vec_z (velocity l') = - \<bar>vec_z (velocity l1)\<bar> * 0.6 \<and> vec_z (velocity l') \<le> 0) \<and>
     (zMin bnd \<le> vec_z (position l') \<and> vec_z (position l') \<le> zMax bnd) \<and>
     (\<not> outOfBounds bnd (posX s1 ! i) (posY s1 ! i) \<and> posZ s1 ! i < zMin bnd \<longrightarrow>
        posZ s' ! i = fround (zMin bnd) \<and>
        velZ s' ! i = fround (\<bar>velZ s1 ! i\<bar> * 0.6) \<and> 0 \<le> velZ s' ! i) \<and>
     (\<not> outOfBounds bnd (posX s1 ! i) (posY s1 ! i) \<and> zMax bnd < posZ s1 ! i \<longrightarrow>
        posZ s' ! i = fround (zMax bnd) \<and>
        velZ s' ! i = fround (- \<bar>velZ s1 ! i\<bar> * 0.6) \<and> velZ s' ! i \<le> 0) \<and>
     (fround (zMin bnd) = zMin bnd \<and> fround (zMax bnd) = zMax bnd \<longrightarrow>
        zMin bnd \<le> posZ s' ! i \<and> posZ s' ! i \<le> zMax bnd)"
proof (intro conjI impI)
  let ?ub = "updateBuoyancy lcfg bnd dt g (hovered l) (buoyancy l) (decayRate l) (vec_y (position l))"
  have l'_in: "\<not> outOfBounds bnd (vec_x (position l1)) (vec_y (position l1)) \<Longrightarrow>
               l' = bounceDepth bnd l1"
    by (simp add: l'_def l1_def updateLantern_eq Let_def)
  have l'_out: "outOfBounds bnd (vec_x (position l1)) (vec_y (position l1)) \<Longrightarrow>
               l' = bounceDepth bnd (fst (resetLantern lcfg bnd (snd ?ub) l1 False))"
    by (simp add: l'_def l1_def updateLantern_eq Let_def)
  {
    assume a: "\<not> outOfBounds bnd (vec_x (position l1)) (vec_y (position l1)) \<and>
               vec_z (position l1) < zMin bnd"
    then have b: "vec_z (position l') = zMin bnd \<and>
                  vec_z (velocity l') = \<bar>vec_z (velocity l1)\<bar> * 0.6"
      using l'_in bounceDepth_low[of l1 bnd] by simp
    show "vec_z (position l') = zMin bnd"
      "vec_z (velocity l') = \<bar>vec_z (velocity l1)\<bar> * 0.6" "0 \<le> vec_z (velocity l')"
      by (simp_all add: b)
  }
  {
    assume a: "\<not> outOfBounds bnd (vec_x (position l1)) (vec_y (position l1)) \<and>
               zMax bnd < vec_z (position l1)"
    then have "\<not> vec_z (position l1) < zMin bnd" using assms(6) by simp
    then have b: "vec_z (position l') = zMax bnd \<and>
                  vec_z (velocity l') = - \<bar>vec_z (velocity l1)\<bar> * 0.6"
      using a l'_in bounceDepth_high[of l1 bnd] by simp
    show "vec_z (position l') = zMax bnd"
      "vec_z (velocity l') = - \<bar>vec_z (velocity l1)\<bar> * 0.6" "vec_z (velocity l') \<le> 0"
      by (simp_all add: b)
  }
  have "zMin bnd \<le> vec_z (position l') \<and> vec_z (position l') \<le> zMax bnd"
    using l'_in l'_out bounceDepth_z[OF assms(6)]
    by (cases "outOfBounds bnd (vec_x (position l1)) (vec_y (position l1))") simp_all
  then show "zMin bnd \<le> vec_z (position l')" "vec_z (position l') \<le> zMax bnd"
    by simp_all
  have len1: "i < length (posZ s1)" "i < length (velZ s1)"
    using assms(7,8) by (simp_all add: s1_def integrateInstance_lengths)
  have s'_in: "\<not> outOfBounds bnd (posX s1 ! i) (posY s1 ! i) \<Longrightarrow> s' = depthWalls bnd i s1"
    by (simp add: s'_def s1_def updatePhysics_step_eq Let_def)
  have s'_out: "outOfBounds bnd (posX s1 ! i) (posY s1 ! i) \<Longrightarrow>
                s' = depthWalls bnd i (fst (resetInstance bcfg bnd g s1 i False))"
    by (simp add: s'_def s1_def updatePhysics_step_eq Let_def)
  {
    assume a: "\<not> outOfBounds bnd (posX s1 ! i) (posY s1 ! i) \<and> posZ s1 ! i < zMin bnd"
    then have b: "posZ s' ! i = fround (zMin bnd) \<and> velZ s' ! i = fround (\<bar>velZ s1 ! i\<bar> * 0.6)"
      using s'_in depthWalls_low[OF len1, of bnd] by simp
    show "posZ s' ! i = fround (zMin bnd)" "velZ s' ! i = fround (\<bar>velZ s1 ! i\<bar> * 0.6)"
      "0 \<le> velZ s' ! i"
      by (simp_all add: b fround_nonneg)
  }
  {
    assume a: "\<not> outOfBounds bnd (posX s1 ! i) (posY s1 ! i) \<and> zMax bnd < posZ s1 ! i"
    then have "\<not> posZ s1 ! i < zMin bnd" using assms(6) by simp
    then have b: "posZ s' ! i = fround (zMax bnd) \<and>
                  velZ s' ! i = fround (- \<bar>velZ s1 ! i\<bar> * 0.6)"
      using a s'_in depthWalls_high[OF len1, of bnd] by simp
    show "posZ s' ! i = fround (zMax bnd)" "velZ s' ! i = fround (- \<bar>velZ s1 ! i\<bar> * 0.6)"
      "velZ s' ! i \<le> 0"
      by (simp_all add: b fround_nonpos)
  }
  have len2: "i < length (posZ (fst (resetInstance bcfg bnd g s1 i False)))"
    using len1 by (simp add: resetInstance_fields)
  {
    assume f: "fround (zMin bnd) = zMin bnd \<and> fround (zMax bnd) = zMax bnd"
    have "zMin bnd \<le> posZ s' ! i \<and> posZ s' ! i \<le> zMax bnd"
      using s'_in s'_out depthWalls_z[OF len1(1) assms(6)] depthWalls_z[OF len2 assms(6)] f
      by (cases "outOfBounds bnd (posX s1 ! i) (posY s1 ! i)") simp_all
    then show "zMin bnd \<le> posZ s' ! i" "posZ s' ! i \<le> zMax bnd"
      by simp_all
  }
qed

theorem depth_containment_witness:
  "unit_rng (const_rng (1 / 2)) \<and>
   zMin (lantern_view_bounds 2) = - 8 \<and> zMax (lantern_view_bounds 2) = 4 \<and>
   zMin (balloon_view_bounds (16 / 9)) = - 18 \<and> zMax (balloon_view_bounds (16 / 9)) = 10 \<and>
   fround (- 18) = - 18 \<and> fround 10 = 10 \<and>
   wf_balloons 1 ((allocBalloons 1)\<lparr>posY := [10], posZ := [- (1151 / 64)], velZ := [- (3 / 4)]\<rparr>) \<and>
   vec_z (position (fst (updateLantern CONFIG_lantern (lantern_view_bounds 2) 0.05 1
                           (const_rng (1 / 2))
                           (lanternAt (Vector3 0 10 (- 7.99)) (Vector3 0 0 (- 0.3)) 1 True))))
     = - 8 \<and>
   vec_z (velocity (fst (updateLantern CONFIG_lantern (lantern_view_bounds 2) 0.05 1
                           (const_rng (1 / 2))
                           (lanternAt (Vector3 0 10 (- 7.99)) (Vector3 0 0 (- 0.3)) 1 True))))
     = 0.17082 \<and>
   vec_z (position (fst (updateLantern CONFIG_lantern (lantern_view_bounds 2) 0.05 1
                           (const_rng (1 / 2))
                           (lanternAt (Vector3 0 10 3.99) (Vector3 0 0 0.3) 1 True))))
     = 4 \<and>
   vec_z (velocity (fst (updateLantern CONFIG_lantern (lantern_view_bounds 2) 0.05 1
                           (const_rng (1 / 2))
                           (lanternAt (Vector3 0 10 3.99) (Vector3 0 0 0.3) 1 True))))
     = - 0.17082 \<and>
   posZ (fst (updatePhysics_step CONFIG_balloon (balloon_view_bounds (16 / 9)) 0.05 1 0
                ((allocBalloons 1)\<lparr>posY := [10], posZ := [- (1151 / 64)], velZ := [- (3 / 4)]\<rparr>)
                (const_rng (1 / 2)))) ! 0 = - 18 \<and>
   velZ (fst (updatePhysics_step CONFIG_balloon (balloon_view_bounds (16 / 9)) 0.05 1 0
                ((allocBalloons 1)\<lparr>posY := [10], posZ := [- (1151 / 64)], velZ := [- (3 / 4)]\<rparr>)
                (const_rng (1 / 2)))) ! 0 = 1806277 / 4194304"
proof -
  let ?L = "lanternAt (Vector3 0 10 (- 7.99)) (Vector3 0 0 (- 0.3)) 1 True"
  let ?H = "lanternAt (Vector3 0 10 3.99) (Vector3 0 0 0.3) 1 True"
  let ?S = "(allocBalloons 1)\<lparr>posY := [10], posZ := [- (1151 / 64)], velZ := [- (3 / 4)]\<rparr>"
  let ?lb = "lantern_view_bounds 2"
  let ?bb = "balloon_view_bounds (16 / 9)"
  let ?g = "const_rng (1 / 2)"
  have h1: "unit_rng ?g"
    by (simp add: unit_rng_def const_rng_def)
  have z: "zMin ?lb = - 8" "zMax ?lb = 4" "zMin ?bb = - 18" "zMax ?bb = 10"
    by (simp_all add: lantern_view_bounds_eval balloon_view_bounds_facts)
  have zl: "zMin ?lb \<le> zMax ?lb" and zs: "zMin ?bb \<le> zMax ?bb"
    by (simp_all add: z)
  have wf: "wf_balloons 1 ?S"
    by (simp add: wf_balloons_def allocBalloons_def)
  have i0: "(0::nat) < 1" by simp
  have ubL: "updateBuoyancy CONFIG_lantern ?lb 0.05 ?g (hovered ?L) (buoyancy ?L) (decayRate ?L)
               (vec_y (position ?L)) = (1, ?g)"
    and ubH: "updateBuoyancy CONFIG_lantern ?lb 0.05 ?g (hovered ?H) (buoyancy ?H) (decayRate ?H)
               (vec_y (position ?H)) = (1, ?g)"
    using lit_lantern(1)[of ?lb ?g] by (simp_all add: lanternAt_def)
  have inside: "\<not> outOfBounds ?lb 0 10.0024875"
    using lantern_view_bounds_facts by (simp add: outOfBounds_def)
  have pL: "\<not> outOfBounds ?lb
      (vec_x (position (integrateLantern CONFIG_lantern 0.05 1
         (fst (updateBuoyancy CONFIG_lantern ?lb 0.05 ?g (hovered ?L)
                (buoyancy ?L) (decayRate ?L) (vec_y (position ?L)))) ?L)))
      (vec_y (position (integrateLantern CONFIG_lantern 0.05 1
         (fst (updateBuoyancy CONFIG_lantern ?lb 0.05 ?g (hovered ?L)
                (buoyancy ?L) (decayRate ?L) (vec_y (position ?L)))) ?L))) \<and>
     vec_z (position (integrateLantern CONFIG_lantern 0.05 1
         (fst (updateBuoyancy CONFIG_lantern ?lb 0.05 ?g (hovered ?L)
                (buoyancy ?L) (decayRate ?L) (vec_y (position ?L)))) ?L)) < zMin ?lb"
    unfolding ubL fst_conv lit_lantern(2) z using inside by (simp add: lanternAt_def)
  have pH: "\<not> outOfBounds ?lb
      (vec_x (position (integrateLantern CONFIG_lantern 0.05 1
         (fst (updateBuoyancy CONFIG_lantern ?lb 0.05 ?g (hovered ?H)
                (buoyancy ?H) (decayRate ?H) (vec_y (position ?H)))) ?H)))
      (vec_y (position (integrateLantern CONFIG_lantern 0.05 1
         (fst (updateBuoyancy CONFIG_lantern ?lb 0.05 ?g (hovered ?H)
                (buoyancy ?H) (decayRate ?H) (vec_y (position ?H)))) ?H))) \<and>
     zMax ?lb < vec_z (position (integrateLantern CONFIG_lantern 0.05 1
         (fst (updateBuoyancy CONFIG_lantern ?lb 0.05 ?g (hovered ?H)
                (buoyancy ?H) (decayRate ?H) (vec_y (position ?H)))) ?H))"
    unfolding ubH fst_conv lit_lantern(3) z using inside by (simp add: lanternAt_def)
  have vL: "\<bar>vec_z (velocity (integrateLantern CONFIG_lantern 0.05 1
         (fst (updateBuoyancy CONFIG_lantern ?lb 0.05 ?g (hovered ?L)
                (buoyancy ?L) (decayRate ?L) (vec_y (position ?L)))) ?L))\<bar> * 0.6 = 0.17082"
    unfolding ubL fst_conv lit_lantern(2) by (simp add: lanternAt_def)
  have vH: "- \<bar>vec_z (velocity (integrateLantern CONFIG_lantern 0.05 1
         (fst (updateBuoyancy CONFIG_lantern ?lb 0.05 ?g (hovered ?H)
                (buoyancy ?H) (decayRate ?H) (vec_y (position ?H)))) ?H))\<bar> * 0.6 = - 0.17082"
    unfolding ubH fst_conv lit_lantern(3) by (simp add: lanternAt_def)
  have pS: "\<not> outOfBounds ?bb (posX (integrateInstance CONFIG_balloon 0.05 1 0 ?S) ! 0)
                               (posY (integrateInstance CONFIG_balloon 0.05 1 0 ?S) ! 0) \<and>
            posZ (integrateInstance CONFIG_balloon 0.05 1 0 ?S) ! 0 < zMin ?bb"
    unfolding sinking_balloon z using balloon_view_bounds_facts(1,2,3)
    by (simp add: outOfBounds_def)
  have vS: "fround (\<bar>velZ (integrateInstance CONFIG_balloon 0.05 1 0 ?S) ! 0\<bar> * 0.6)
              = 1806277 / 4194304"
    unfolding sinking_balloon by (simp add: fround_sinking)
  note TL = depth_containment[OF h1 zl i0 wf,
      where lcfg = CONFIG_lantern and bcfg = CONFIG_balloon and dt = "0.05" and time = 1 and l = ?L]
  note TH = depth_containment[OF h1 zl i0 wf,
      where lcfg = CONFIG_lantern and bcfg = CONFIG_balloon and dt = "0.05" and time = 1 and l = ?H]
  note TS = depth_containment[OF h1 zs i0 wf,
      where lcfg = CONFIG_lantern and bcfg = CONFIG_balloon and dt = "0.05" and time = 1 and l = ?L]
  have "vec_z (position (fst (updateLantern CONFIG_lantern ?lb 0.05 1 ?g ?L))) = zMin ?lb \<and>
        vec_z (velocity (fst (updateLantern CONFIG_lantern ?lb 0.05 1 ?g ?L))) =
          \<bar>vec_z (velocity (integrateLantern CONFIG_lantern 0.05 1
             (fst (updateBuoyancy CONFIG_lantern ?lb 0.05 ?g (hovered ?L)
                (buoyancy ?L) (decayRate ?L) (vec_y (position ?L)))) ?L))\<bar> * 0.6"
    using TL pL by blast
  then have rL: "vec_z (position (fst (updateLantern CONFIG_lantern ?lb 0.05 1 ?g ?L))) = - 8"
    "vec_z (velocity (fst (updateLantern CONFIG_lantern ?lb 0.05 1 ?g ?L))) = 0.17082"
    unfolding vL z by simp_all
  have "vec_z (position (fst (updateLantern CONFIG_lantern ?lb 0.05 1 ?g ?H))) = zMax ?lb \<and>
        vec_z (velocity (fst (updateLantern CONFIG_lantern ?lb 0.05 1 ?g ?H))) =
          - \<bar>vec_z (velocity (integrateLantern CONFIG_lantern 0.05 1
             (fst (updateBuoyancy CONFIG_lantern ?lb 0.05 ?g (hovered ?H)
                (buoyancy ?H) (decayRate ?H) (vec_y (position ?H)))) ?H))\<bar> * 0.6"
    using TH pH by blast
  then have rH: "vec_z (position (fst (updateLantern CONFIG_lantern ?lb 0.05 1 ?g ?H))) = 4"
    "vec_z (velocity (fst (updateLantern CONFIG_lantern ?lb 0.05 1 ?g ?H))) = - 0.17082"
    unfolding vH z by simp_all
  have "posZ (fst (updatePhysics_step CONFIG_balloon ?bb 0.05 1 0 ?S ?g)) ! 0 = fround (zMin ?bb) \<and>
        velZ (fst (updatePhysics_step CONFIG_balloon ?bb 0.05 1 0 ?S ?g)) ! 0 =
          fround (\<bar>velZ (integrateInstance CONFIG_balloon 0.05 1 0 ?S) ! 0\<bar> * 0.6)"
    using TS pS by blast
  then have rS: "posZ (fst (updatePhysics_step CONFIG_balloon ?bb 0.05 1 0 ?S ?g)) ! 0 = - 18"
    "velZ (fst (updatePhysics_step CONFIG_balloon ?bb 0.05 1 0 ?S ?g)) ! 0 = 1806277 / 4194304"
    unfolding vS z by (simp_all add: fround_values)
  show ?thesis
    using h1 z wf rL rH rS fround_values(2,3) by simp
qed

section \<open>Screen-space hover\<close>

text \<open>
  C5. In the screen-space hover mode with a positive configured radius (and a positive
  upper clamp), an instance and a live orb that project to the identical 2D normalised
  device coordinate are judged hovered, whatever the depths of the two: the hover test
  holds, and the buoyancy of the instance becomes 1 when the rise \<open>buoyancyRiseRate * dt\<close>
  takes it there, as the rate 520 of the configuration does within two milliseconds. The
  depths range over everything between the near and the far plane of the
  camera, from \<open>-220\<close> to \<open>39.9\<close> on the \<open>z\<close> axis. The program holds no position outside:
  the instances are kept between the depth walls \<open>-18\<close> and \<open>10\<close> (lemma
  \<open>animate_balloon_depth\<close>), and an orb is written on the view plane \<open>z = 0\<close> or on the
  balloon under the pointer and then only interpolated (lemma
  \<open>animate_balloon_orb_depths\<close>). The pointer hover of the lantern program has no depth
  test: a lantern that projects to the pointer is hovered for every radius other than
  zero.
\<close>

theorem screen_hover_same_ndc:
  fixes s :: balloons and i :: nat and aspect :: real
  defines "bw \<equiv> Vector3 (posX s ! i) (posY s ! i) (posZ s ! i)"
  assumes "trackMode cfg \<noteq> ''fullBody''" "useScreenSpaceHit cfg"
    and "0 < (case screenRadiusNDC cfg of None \<Rightarrow> 0.065 | Some r \<Rightarrow> r)"
    and "0 < (case screenRadiusMax cfg of None \<Rightarrow> 0.10 | Some r \<Rightarrow> r)"
    and "i < length (buoy s)"
    and "j < MAX_ORBS cfg" "0 < orbTTL ob ! j"
    and "- 220 \<le> posZ s ! i" "posZ s ! i \<le> 39.9"
    and "- 220 \<le> vec_z (orbPositions ob ! j)" "vec_z (orbPositions ob ! j) \<le> 39.9"
    and "vec_x (worldToNDC aspect bw) = vec_x (worldToNDC aspect (orbPositions ob ! j))"
    and "vec_y (worldToNDC aspect bw) = vec_y (worldToNDC aspect (orbPositions ob ! j))"
  shows
    "hoverTest cfg (worldToNDC aspect) boxes ob bw \<and>
     (1 \<le> buoy s ! i + buoyancyRiseRate cfg * dt \<longrightarrow>
        buoy (fst (applyOrbInfluence_step cfg bnd (worldToNDC aspect) boxes ob dt i s g)) ! i = 1) \<and>
     (hover_radius lcfg \<noteq> 0 \<and> k < length ls \<and>
      vec_x (project (position (ls ! k))) = pointer_x \<and>
      vec_y (project (position (ls ! k))) = pointer_y
        \<longrightarrow> hovered (onPointerMove lcfg project pointer_x pointer_y ls ! k))"
proof (intro conjI impI)
  let ?P = "worldToNDC aspect"
  have r: "0 < screenRadius cfg * screenRadius cfg"
    using screenRadius_pos[OF assms(4,5)] by simp
  have cb: "- 1 \<le> vec_z (?P bw) \<and> vec_z (?P bw) \<le> 1"
    using assms(9,10) by (intro worldToNDC_clip) (simp_all add: bw_def)
  have co: "- 1 \<le> vec_z (?P (orbPositions ob ! j)) \<and> vec_z (?P (orbPositions ob ! j)) \<le> 1"
    using assms(11,12) by (intro worldToNDC_clip)
  have hit: "orbHitScreen ?P ob (?P bw) (screenRadius cfg * screenRadius cfg) j"
    using co assms(8,13,14) r by (simp add: orbHitScreen_def Let_def)
  have "j \<in> set [0 ..< MAX_ORBS cfg]" using assms(7) by simp
  then have "list_ex (orbHitScreen ?P ob (?P bw) (screenRadius cfg * screenRadius cfg))
                     [0 ..< MAX_ORBS cfg]"
    using hit unfolding list_ex_iff by blast
  then show h: "hoverTest cfg ?P boxes ob bw"
    using assms(2,3) cb by (simp add: hoverTest_def Let_def)
  {
    assume up: "1 \<le> buoy s ! i + buoyancyRiseRate cfg * dt"
    have "fst (updateBuoyancy cfg bnd dt g True (buoy s ! i) (decay s ! i) (posY s ! i))
            = MathUtils_clamp (buoy s ! i + buoyancyRiseRate cfg * dt) 0 1"
      by (simp add: updateBuoyancy_def Let_def)
    also have "\<dots> = 1"
      using up by (simp add: MathUtils_clamp_def)
    finally show "buoy (fst (applyOrbInfluence_step cfg bnd ?P boxes ob dt i s g)) ! i = 1"
      using h assms(6) unfolding bw_def by (simp add: applyOrbInfluence_step_fields)
  }
next
  assume a: "hover_radius lcfg \<noteq> 0 \<and> k < length ls \<and>
    vec_x (project (position (ls ! k))) = pointer_x \<and>
    vec_y (project (position (ls ! k))) = pointer_y"
  then have "0 < hover_radius lcfg * hover_radius lcfg"
    using not_real_square_gt_zero[of "hover_radius lcfg"] by blast
  then show "hovered (onPointerMove lcfg project pointer_x pointer_y ls ! k)"
    using a by (simp add: onPointerMove_def Let_def)
qed

theorem screen_hover_same_ndc_witness:
  "trackMode CONFIG_balloon \<noteq> ''fullBody'' \<and> useScreenSpaceHit CONFIG_balloon \<and>
   screenRadius CONFIG_balloon = 0.065 \<and>
   orbPositions (setOrb CONFIG_balloon (allocOrbs CONFIG_balloon) 0 (Vector3 0 6 0) (Some 1)) ! 0
     = Vector3 0 6 0 \<and>
   0 < orbTTL (setOrb CONFIG_balloon (allocOrbs CONFIG_balloon) 0 (Vector3 0 6 0) (Some 1)) ! 0 \<and>
   vec_x (worldToNDC (16 / 9) (Vector3 0 6 (- 18))) = vec_x (worldToNDC (16 / 9) (Vector3 0 6 0)) \<and>
   vec_y (worldToNDC (16 / 9) (Vector3 0 6 (- 18))) = vec_y (worldToNDC (16 / 9) (Vector3 0 6 0)) \<and>
   hoverTest CONFIG_balloon (worldToNDC (16 / 9)) []
     (setOrb CONFIG_balloon (allocOrbs CONFIG_balloon) 0 (Vector3 0 6 0) (Some 1))
     (Vector3 0 6 (- 18)) \<and>
   buoy (fst (applyOrbInfluence_step CONFIG_balloon (balloon_view_bounds (16 / 9))
                (worldToNDC (16 / 9)) []
                (setOrb CONFIG_balloon (allocOrbs CONFIG_balloon) 0 (Vector3 0 6 0) (Some 1))
                0.05 0 ((allocBalloons 1)\<lparr>posY := [6], posZ := [- 18]\<rparr>)
                (const_rng (1 / 2)))) ! 0 = 1 \<and>
   hovered (onPointerMove CONFIG_lantern
              (perspectiveProject (Vector3 0 5 22) (1 / tan (MathUtils_degToRad 45 / 2)) 2 0.1 100)
              0 0 [lanternAt (Vector3 0 5 (- 8)) (Vector3 0 0 0) 0 False] ! 0)"
proof -
  let ?ob = "setOrb CONFIG_balloon (allocOrbs CONFIG_balloon) 0 (Vector3 0 6 0) (Some 1)"
  let ?S = "(allocBalloons 1)\<lparr>posY := [6], posZ := [- 18]\<rparr>"
  let ?ls = "[lanternAt (Vector3 0 5 (- 8)) (Vector3 0 0 0) 0 False]"
  let ?cam = "perspectiveProject (Vector3 0 5 22) (1 / tan (MathUtils_degToRad 45 / 2)) 2 0.1 100"
  have p: "orbPositions ?ob ! 0 = Vector3 0 6 0" and t: "orbTTL ?ob ! 0 = 16106127 / 134217728"
    by (simp_all add: one_orb)
  have bw: "Vector3 (posX ?S ! 0) (posY ?S ! 0) (posZ ?S ! 0) = Vector3 0 6 (- 18)"
    by (simp add: allocBalloons_def)
  have r1: "0 < (case screenRadiusNDC CONFIG_balloon of None \<Rightarrow> 0.065 | Some r \<Rightarrow> r)"
    and r2: "0 < (case screenRadiusMax CONFIG_balloon of None \<Rightarrow> 0.10 | Some r \<Rightarrow> r)"
    by (simp_all add: hover_config)
  have i: "0 < length (buoy ?S)" by (simp add: allocBalloons_def)
  have j: "0 < MAX_ORBS CONFIG_balloon" by (simp add: MAX_ORBS_CONFIG)
  have live: "0 < orbTTL ?ob ! 0" by (simp add: t)
  have zb: "- 220 \<le> posZ ?S ! 0" "posZ ?S ! 0 \<le> 39.9" by (simp_all add: allocBalloons_def)
  have zo: "- 220 \<le> vec_z (orbPositions ?ob ! 0)" "vec_z (orbPositions ?ob ! 0) \<le> 39.9"
    by (simp_all add: p)
  have x: "vec_x (worldToNDC (16 / 9) (Vector3 (posX ?S ! 0) (posY ?S ! 0) (posZ ?S ! 0)))
             = vec_x (worldToNDC (16 / 9) (orbPositions ?ob ! 0))"
    and y: "vec_y (worldToNDC (16 / 9) (Vector3 (posX ?S ! 0) (posY ?S ! 0) (posZ ?S ! 0)))
             = vec_y (worldToNDC (16 / 9) (orbPositions ?ob ! 0))"
    unfolding bw p worldToNDC_def camera_axis by simp_all
  note T = screen_hover_same_ndc[OF hover_config(1,2) r1 r2 i j live zb zo x y,
      where lcfg = CONFIG_lantern and ls = ?ls and k = 0 and pointer_x = 0 and pointer_y = 0
        and boxes = "[]" and project = ?cam and bnd = "balloon_view_bounds (16 / 9)"
        and dt = "0.05" and g = "const_rng (1 / 2)"]
  have ptr: "hover_radius CONFIG_lantern \<noteq> 0 \<and> 0 < length ?ls \<and>
      vec_x (?cam (position (?ls ! 0))) = 0 \<and> vec_y (?cam (position (?ls ! 0))) = 0"
    by (simp add: CONFIG_lantern_def lanternAt_def camera_axis)
  have h: "hoverTest CONFIG_balloon (worldToNDC (16 / 9)) [] ?ob (Vector3 0 6 (- 18))"
    using T unfolding bw by blast
  have up: "1 \<le> buoy ?S ! 0 + buoyancyRiseRate CONFIG_balloon * 0.05"
    by (simp add: allocBalloons_def CONFIG_balloon_def)
  have b: "buoy (fst (applyOrbInfluence_step CONFIG_balloon (balloon_view_bounds (16 / 9))
                (worldToNDC (16 / 9)) [] ?ob 0.05 0 ?S (const_rng (1 / 2)))) ! 0 = 1"
    using T up by blast
  have l: "hovered (onPointerMove CONFIG_lantern ?cam 0 0 ?ls ! 0)"
    using T ptr by blast
  have xy: "vec_x (worldToNDC (16 / 9) (Vector3 0 6 (- 18))) = vec_x (worldToNDC (16 / 9) (Vector3 0 6 0))"
    "vec_y (worldToNDC (16 / 9) (Vector3 0 6 (- 18))) = vec_y (worldToNDC (16 / 9) (Vector3 0 6 0))"
    unfolding worldToNDC_def camera_axis by simp_all
  show ?thesis
    using hover_config(1,2,5) p live xy h b l by blast
qed

end
